theory Spec2Isabelle
  imports Main "HOL-Library.AList"
begin

section \<open>Values shared by the stages\<close>

text \<open>
  A thrown JavaScript value: \<^verbatim>\<open>Error\<close>, \<^verbatim>\<open>RangeError\<close> and \<^verbatim>\<open>TypeError\<close> carry their
  message.  \<open>OutsideModel\<close> and \<open>NoProgress\<close> are not JavaScript values: the first ends a
  run that leaves the character model, the second is the guard of the lexer's recursion.
  \<open>numberToString\<close> is \<^verbatim>\<open>String(n)\<close> for a natural number.
\<close>

datatype exn = Error string | RangeError string | TypeError string | OutsideModel string | NoProgress

fun digitChar :: "nat \<Rightarrow> char" where
  "digitChar n = ''0123456789'' ! n"

fun numberToString :: "nat \<Rightarrow> string" where
  "numberToString n = (if n < 10 then [digitChar n] else numberToString (n div 10) @ [digitChar (n mod 10)])"

declare numberToString.simps [simp del]

section \<open>Type values (\<^verbatim>\<open>types.ts\<close>)\<close>

text \<open>
  The checker's type values are a tagged sum discriminated by the field \<^verbatim>\<open>kind\<close>.
  Each TypeScript interface of the union \<^verbatim>\<open>Type\<close> is one constructor of \<open>ty\<close>; the
  interfaces whose values are passed around on their own (\<^verbatim>\<open>FunctionType\<close>,
  \<^verbatim>\<open>InterfaceType\<close>, \<^verbatim>\<open>ClassType\<close>, \<^verbatim>\<open>EnumType\<close>) are datatypes of their own, and
  the casts \<^verbatim>\<open>x as FunctionType\<close> are the selectors \<open>asFunctionType\<close> etc.

  A JavaScript \<^verbatim>\<open>Map\<close> is an association list in insertion order; \<^verbatim>\<open>Map.get\<close> is
  \<open>map_of\<close> and \<^verbatim>\<open>Map.set\<close> is \<open>AList.update\<close>, which keeps the position of an
  existing key and appends a new one, as \<^verbatim>\<open>Map.set\<close> does.  Numbers are modelled as
  integers, strings as lists of characters.  An optional boolean field is \<open>False\<close> when
  it is absent: the code only ever tests such a field for truthiness.
\<close>

datatype prim = PNumber | PString | PBoolean | PVoid | PNull | PUndefined | PSymbol | PBigint

datatype scalar = StringValue string | NumberValue int | BooleanValue bool | NullValue

datatype type_kind = KNumber | KString | KBoolean | KVoid | KNull | KUndefined | KSymbol | KBigint
  | KLiteral | KArray | KTuple | KUnion | KIntersection | KFunction | KInterface | KClass
  | KEnum | KTypeAlias | KGeneric | KConditional | KIndexedAccess | KMapped
  | KUnknown | KNever | KAny

datatype enum_value = EnumNumber int | EnumString string

datatype enum_type =
  Enum (enum_name: string) (enum_members: "(string \<times> enum_value) list")

datatype ty =
    PrimitiveType prim
  | LiteralTypeValue (literalValue: scalar)
  | ArrayTypeValue (elementType: ty)
  | TupleTypeValue (elementTypes: "ty list")
  | UnionTypeValue (types: "ty list")
  | IntersectionTypeValue (types: "ty list")
  | FunctionType (asFunctionType: function_type)
  | InterfaceType (asInterfaceType: interface_type)
  | ClassType (asClassType: class_type)
  | EnumType (asEnumType: enum_type)
  | TypeAliasType string ty "type_parameter_value list option"
  | GenericType string "ty option" "ty option"
  | ConditionalTypeValue ty ty ty ty
  | IndexedAccessTypeValue ty ty
  | MappedTypeValue type_parameter_value ty
  | UnknownType
  | NeverType
  | AnyType
and function_type =
  Function (params: "param list") (returnType: ty)
    (typeParameters: "type_parameter_value list option")
and param = Param (param_name: string) (param_type: ty) (param_optional: bool)
and interface_type =
  Interface (interface_name: string) (members: "(string \<times> member_value) list")
    (interface_extends: "ty list option")
and member_value =
  MemberValue (member_type: ty) (member_optional: bool) (member_readonly: bool)
and class_type =
  Class (class_name: string) (class_members: "(string \<times> class_member_value) list")
    (staticMembers: "(string \<times> ty) list") (superClass: "ty option")
    (class_implements: "ty list option")
and class_member_value =
  ClassMemberValue (cm_type: ty) (cm_accessibility: "string option") (cm_static: bool)
and type_parameter_value = TypeParameterValue string "ty option" "ty option"

fun kind_of_prim :: "prim \<Rightarrow> type_kind" where
  "kind_of_prim PNumber = KNumber"
| "kind_of_prim PString = KString"
| "kind_of_prim PBoolean = KBoolean"
| "kind_of_prim PVoid = KVoid"
| "kind_of_prim PNull = KNull"
| "kind_of_prim PUndefined = KUndefined"
| "kind_of_prim PSymbol = KSymbol"
| "kind_of_prim PBigint = KBigint"

fun kind :: "ty \<Rightarrow> type_kind" where
  "kind (PrimitiveType p) = kind_of_prim p"
| "kind (LiteralTypeValue v) = KLiteral"
| "kind (ArrayTypeValue t) = KArray"
| "kind (TupleTypeValue ts) = KTuple"
| "kind (UnionTypeValue ts) = KUnion"
| "kind (IntersectionTypeValue ts) = KIntersection"
| "kind (FunctionType f) = KFunction"
| "kind (InterfaceType i) = KInterface"
| "kind (ClassType c) = KClass"
| "kind (EnumType e) = KEnum"
| "kind (TypeAliasType n t tps) = KTypeAlias"
| "kind (GenericType n c d) = KGeneric"
| "kind (ConditionalTypeValue c e t f) = KConditional"
| "kind (IndexedAccessTypeValue ob i) = KIndexedAccess"
| "kind (MappedTypeValue tp t) = KMapped"
| "kind UnknownType = KUnknown"
| "kind NeverType = KNever"
| "kind AnyType = KAny"

datatype js_typeof = TypeofString | TypeofNumber | TypeofBoolean | TypeofObject

fun typeof :: "scalar \<Rightarrow> js_typeof" where
  "typeof (StringValue s) = TypeofString"
| "typeof (NumberValue n) = TypeofNumber"
| "typeof (BooleanValue b) = TypeofBoolean"
| "typeof NullValue = TypeofObject"

section \<open>Assignability (\<^verbatim>\<open>checker.ts\<close>, \<^verbatim>\<open>isAssignable\<close>)\<close>

text \<open>
  The three mutually recursive methods \<^verbatim>\<open>isAssignable\<close>, \<^verbatim>\<open>isInterfaceAssignable\<close> and
  \<^verbatim>\<open>isFunctionAssignable\<close>.  A \<^verbatim>\<open>for\<close> loop that returns false at the first failing
  element and true at the end is \<open>list_all\<close>; \<^verbatim>\<open>Array.some\<close> is \<open>list_ex\<close> and
  \<^verbatim>\<open>Array.every\<close> with an index is \<open>list_all\<close> over the indices.  The recursion
  terminates because every call is on strictly smaller type values.
\<close>

lemma kind_of_prim_not_compound [simp]:
  "kind_of_prim p \<noteq> KArray" "kind_of_prim p \<noteq> KTuple" "kind_of_prim p \<noteq> KUnion"
  "kind_of_prim p \<noteq> KFunction" "kind_of_prim p \<noteq> KInterface"
  by (cases p; simp)+

lemma size_list_mem: "x \<in> set xs \<Longrightarrow> f x < Suc (size_list f xs)"
  by (induction xs) auto

lemma size_elementType: "kind s = KArray \<Longrightarrow> size (elementType s) < size s"
  by (cases s) simp_all

lemma size_elementTypes:
  "kind s = KTuple \<Longrightarrow> i < length (elementTypes s) \<Longrightarrow> size (elementTypes s ! i) < size s"
  by (cases s) (simp_all add: size_list_mem)

lemma size_types: "kind s = KUnion \<Longrightarrow> t \<in> set (types s) \<Longrightarrow> size t < size s"
  by (cases s) (simp_all add: size_list_mem)

lemma size_asInterfaceType: "kind s = KInterface \<Longrightarrow> size (asInterfaceType s) < size s"
  by (cases s) simp_all

lemma size_asFunctionType: "kind s = KFunction \<Longrightarrow> size (asFunctionType s) < size s"
  by (cases s) simp_all

lemma size_returnType: "size (returnType f) < size f"
  by (cases f) simp

lemma size_param_type: "size (param_type p) < Suc (size p)"
  by (cases p) simp

lemma size_params: "i < length (params f) \<Longrightarrow> size (param_type (params f ! i)) < size f"
proof (cases f)
  case (Function ps r tps)
  assume "i < length (params f)"
  then have "ps ! i \<in> set ps" using Function by simp
  then have "size (ps ! i) < Suc (size_list size ps)" by (rule size_list_mem)
  moreover have "size (param_type (ps ! i)) < Suc (size (ps ! i))" by (rule size_param_type)
  ultimately show ?thesis using Function by simp
qed

lemma size_member_type: "size (member_type m) < Suc (size m)"
  by (cases m) simp

lemma size_members: "(k, m) \<in> set (members i) \<Longrightarrow> size (member_type m) < size i"
proof (cases i)
  case (Interface n ms ex)
  assume "(k, m) \<in> set (members i)"
  then have "(k, m) \<in> set ms" using Interface by simp
  then have "size_prod (\<lambda>x. 0) size (k, m) < Suc (size_list (size_prod (\<lambda>x. 0) size) ms)"
    by (rule size_list_mem)
  moreover have "size (member_type m) < Suc (size m)" by (rule size_member_type)
  ultimately show ?thesis using Interface by simp
qed

function isAssignable :: "ty \<Rightarrow> ty \<Rightarrow> bool"
  and isInterfaceAssignable :: "interface_type \<Rightarrow> interface_type \<Rightarrow> bool"
  and isFunctionAssignable :: "function_type \<Rightarrow> function_type \<Rightarrow> bool"
where
  "isAssignable source target =
    (if kind source = KAny \<or> kind target = KAny then True
     else if kind target = KUnknown then True
     else if kind source = KUnknown then kind target = KUnknown \<or> kind target = KAny
     else if kind source = KNever then True
     else if kind source = KNull \<or> kind source = KUndefined then
       kind target = kind source \<or> kind target = KAny \<or> kind target = KUnknown
     else if kind source = kind target then
       (if kind source = KInterface \<and> kind target = KInterface then
          isInterfaceAssignable (asInterfaceType source) (asInterfaceType target)
        else if kind source = KArray \<and> kind target = KArray then
          isAssignable (elementType source) (elementType target)
        else if kind source = KTuple \<and> kind target = KTuple then
          (if length (elementTypes source) \<noteq> length (elementTypes target) then False
           else list_all (\<lambda>i. isAssignable (elementTypes source ! i) (elementTypes target ! i))
                  [0..<length (elementTypes source)])
        else if kind source = KFunction \<and> kind target = KFunction then
          isFunctionAssignable (asFunctionType source) (asFunctionType target)
        else True)
     else if kind target = KUnion then
       list_ex (\<lambda>t. isAssignable source t) (types target)
     else if kind source = KUnion then
       list_all (\<lambda>t. isAssignable t target) (types source)
     else if kind source = KString \<and> kind target = KUnion \<and>
             list_all (\<lambda>t. kind t = KLiteral \<and> typeof (literalValue t) = TypeofString) (types target)
       then True
     else if kind source = KLiteral \<and>
             (typeof (literalValue source) = TypeofNumber \<and> kind target = KNumber \<or>
              typeof (literalValue source) = TypeofString \<and> kind target = KString \<or>
              typeof (literalValue source) = TypeofBoolean \<and> kind target = KBoolean)
       then True
     else False)"
| "isInterfaceAssignable source target =
    list_all (\<lambda>(key, targetMember).
        case map_of (members source) key of
          None \<Rightarrow> member_optional targetMember
        | Some sourceMember \<Rightarrow>
            isAssignable (member_type sourceMember) (member_type targetMember))
      (members target)"
| "isFunctionAssignable source target =
    (if \<not> isAssignable (returnType source) (returnType target) then False
     else if length (params source) < length (params target) then False
     else list_all (\<lambda>i. isAssignable (param_type (params target ! i))
                                       (param_type (params source ! i)))
            [0..<length (params target)])"
  by pat_completeness auto
termination
proof (relation "measure (\<lambda>x. case x of
      Inl (s, t) \<Rightarrow> size s + size t
    | Inr (Inl (s, t)) \<Rightarrow> size s + size t
    | Inr (Inr (s, t)) \<Rightarrow> size s + size t)", goal_cases)
  case 1
  show ?case by simp
next
  case (2 source target)
  then show ?case
    using size_asInterfaceType[of source] size_asInterfaceType[of target] by simp
next
  case (3 source target)
  then show ?case using size_elementType[of source] size_elementType[of target] by simp
next
  case (4 source target i)
  then show ?case
    using size_elementTypes[of source i] size_elementTypes[of target i] by simp
next
  case (5 source target)
  then show ?case
    using size_asFunctionType[of source] size_asFunctionType[of target] by simp
next
  case (6 source target t)
  then show ?case using size_types[of target t] by simp
next
  case (7 source target t)
  then show ?case using size_types[of source t] by simp
next
  case (8 source target kt key targetMember sourceMember)
  then have "(key, sourceMember) \<in> set (members source)" by (simp add: map_of_SomeD)
  then show ?case
    using 8 size_members[of key sourceMember source] size_members[of key targetMember target]
    by simp
next
  case (9 source target)
  then show ?case using size_returnType[of source] size_returnType[of target] by simp
next
  case (10 source target i)
  then show ?case using size_params[of i source] size_params[of i target] by simp
qed

declare isAssignable.simps [simp del] isInterfaceAssignable.simps [simp del]
  isFunctionAssignable.simps [simp del]

text \<open>
  Every \<^verbatim>\<open>Map\<close> has pairwise different keys.  \<open>keysDistinct\<close> says so of every member
  map inside a type value: it is the representation invariant of the association lists.
\<close>

lemma size_list_prod_mem:
  "(k, v) \<in> set xs \<Longrightarrow> f v < Suc (size_list (size_prod (\<lambda>x. 0) f) xs)"
  using size_list_mem[of "(k, v)" xs "size_prod (\<lambda>x. 0) f"] by simp

lemma size_list_prod_mem' [termination_simp]:
  "(k, v) \<in> set xs \<Longrightarrow> size v < Suc (size_list (size_prod (\<lambda>x. 0) size) xs)"
  by (rule size_list_prod_mem)

fun keysDistinct :: "ty \<Rightarrow> bool"
  and keysDistinctFunction :: "function_type \<Rightarrow> bool"
  and keysDistinctParam :: "param \<Rightarrow> bool"
  and keysDistinctInterface :: "interface_type \<Rightarrow> bool"
  and keysDistinctMember :: "member_value \<Rightarrow> bool"
  and keysDistinctClass :: "class_type \<Rightarrow> bool"
  and keysDistinctClassMember :: "class_member_value \<Rightarrow> bool"
  and keysDistinctParameter :: "type_parameter_value \<Rightarrow> bool"
where
  "keysDistinct (PrimitiveType p) = True"
| "keysDistinct (LiteralTypeValue v) = True"
| "keysDistinct (ArrayTypeValue t) = keysDistinct t"
| "keysDistinct (TupleTypeValue ts) = list_all keysDistinct ts"
| "keysDistinct (UnionTypeValue ts) = list_all keysDistinct ts"
| "keysDistinct (IntersectionTypeValue ts) = list_all keysDistinct ts"
| "keysDistinct (FunctionType f) = keysDistinctFunction f"
| "keysDistinct (InterfaceType i) = keysDistinctInterface i"
| "keysDistinct (ClassType c) = keysDistinctClass c"
| "keysDistinct (EnumType e) = distinct (map fst (enum_members e))"
| "keysDistinct (TypeAliasType n t tps) =
     (keysDistinct t \<and> (case tps of None \<Rightarrow> True | Some ps \<Rightarrow> list_all keysDistinctParameter ps))"
| "keysDistinct (GenericType n c d) =
     ((case c of None \<Rightarrow> True | Some t \<Rightarrow> keysDistinct t) \<and>
      (case d of None \<Rightarrow> True | Some t \<Rightarrow> keysDistinct t))"
| "keysDistinct (ConditionalTypeValue c e t f) =
     (keysDistinct c \<and> keysDistinct e \<and> keysDistinct t \<and> keysDistinct f)"
| "keysDistinct (IndexedAccessTypeValue ob i) = (keysDistinct ob \<and> keysDistinct i)"
| "keysDistinct (MappedTypeValue tp t) = (keysDistinctParameter tp \<and> keysDistinct t)"
| "keysDistinct UnknownType = True"
| "keysDistinct NeverType = True"
| "keysDistinct AnyType = True"
| "keysDistinctFunction (Function ps r tps) =
     (list_all keysDistinctParam ps \<and> keysDistinct r \<and>
      (case tps of None \<Rightarrow> True | Some qs \<Rightarrow> list_all keysDistinctParameter qs))"
| "keysDistinctParam (Param n t opt) = keysDistinct t"
| "keysDistinctInterface (Interface n ms ex) =
     (distinct (map fst ms) \<and> list_all (\<lambda>(k, m). keysDistinctMember m) ms \<and>
      (case ex of None \<Rightarrow> True | Some ts \<Rightarrow> list_all keysDistinct ts))"
| "keysDistinctMember (MemberValue t opt ro) = keysDistinct t"
| "keysDistinctClass (Class n ms sms sc im) =
     (distinct (map fst ms) \<and> list_all (\<lambda>(k, m). keysDistinctClassMember m) ms \<and>
      distinct (map fst sms) \<and> list_all (\<lambda>(k, t). keysDistinct t) sms \<and>
      (case sc of None \<Rightarrow> True | Some t \<Rightarrow> keysDistinct t) \<and>
      (case im of None \<Rightarrow> True | Some ts \<Rightarrow> list_all keysDistinct ts))"
| "keysDistinctClassMember (ClassMemberValue t acc st) = keysDistinct t"
| "keysDistinctParameter (TypeParameterValue n c d) =
     ((case c of None \<Rightarrow> True | Some t \<Rightarrow> keysDistinct t) \<and>
      (case d of None \<Rightarrow> True | Some t \<Rightarrow> keysDistinct t))"

lemma keysDistinct_member:
  "keysDistinctInterface i \<Longrightarrow> (k, m) \<in> set (members i) \<Longrightarrow> keysDistinct (member_type m)"
  by (cases i; cases m) (auto simp: list_all_iff)

lemma keysDistinct_lookup:
  "keysDistinctInterface i \<Longrightarrow> (k, m) \<in> set (members i) \<Longrightarrow> map_of (members i) k = Some m"
  by (cases i) simp

lemma keysDistinct_param:
  "keysDistinctFunction f \<Longrightarrow> n < length (params f) \<Longrightarrow> keysDistinct (param_type (params f ! n))"
proof (cases f)
  case (Function ps r tps)
  assume a: "keysDistinctFunction f" "n < length (params f)"
  then have "keysDistinctParam (ps ! n)" using Function by (simp add: list_all_length)
  then show ?thesis using Function by (cases "ps ! n") simp
qed

lemma keysDistinct_returnType: "keysDistinctFunction f \<Longrightarrow> keysDistinct (returnType f)"
  by (cases f) simp

section \<open>Lexer (\<^verbatim>\<open>lexer.ts\<close>)\<close>

text \<open>
  The lexer is a cursor over the source text.  Its state is the record \<open>Lexer\<close>; every
  method becomes a function from the state to the new state, and a method that can throw
  returns \<open>exn + Lexer\<close> with the thrown value on the left.  A source character is an Isabelle
  \<open>char\<close>: the model covers the code units up to \<^verbatim>\<open>0xFF\<close>, and an escape that denotes
  a larger code point ends the run with \<open>OutsideModel\<close>.  A \<^verbatim>\<open>TokenType\<close> is the string
  the TypeScript string enum gives it.

  \<^verbatim>\<open>advance\<close> past the end of the text returns \<^verbatim>\<open>undefined\<close>, which \<^verbatim>\<open>+=\<close> appends
  as the nine characters of that word: \<open>advance\<close> returns a \<open>char option\<close> and
  \<open>appendChar\<close> does the conversion.
\<close>

datatype Token =
  Token (tokenType: string) (tokenValue: string) (tokenLine: nat) (tokenColumn: nat)

text \<open>
  \<^verbatim>\<open>KEYWORDS\<close> is a plain object, so \<^verbatim>\<open>KEYWORDS[value]\<close> also finds the properties every
  object inherits: for those names the token type is not a \<^verbatim>\<open>TokenType\<close> at all.
\<close>

definition KEYWORDS :: "(string \<times> string) list" where
  "KEYWORDS =
    [(''let'', ''Let''), (''const'', ''Const''), (''var'', ''Var''),
     (''function'', ''Function''), (''return'', ''Return''), (''async'', ''Async''),
     (''await'', ''Await''), (''yield'', ''Yield''),
     (''if'', ''If''), (''else'', ''Else''), (''while'', ''While''), (''for'', ''For''),
     (''do'', ''Do''), (''break'', ''Break''), (''continue'', ''Continue''),
     (''switch'', ''Switch''), (''case'', ''Case''), (''default'', ''Default''),
     (''throw'', ''Throw''), (''try'', ''Try''), (''catch'', ''Catch''),
     (''finally'', ''Finally''),
     (''class'', ''Class''), (''extends'', ''Extends''), (''implements'', ''Implements''),
     (''new'', ''New''), (''this'', ''This''), (''super'', ''Super''),
     (''constructor'', ''Constructor''), (''public'', ''Public''), (''private'', ''Private''),
     (''protected'', ''Protected''), (''static'', ''Static''), (''readonly'', ''Readonly''),
     (''abstract'', ''Abstract''), (''get'', ''Get''), (''set'', ''Set''),
     (''interface'', ''Interface''), (''type'', ''Type''), (''enum'', ''Enum''),
     (''namespace'', ''Namespace''), (''module'', ''Module''), (''declare'', ''Declare''),
     (''number'', ''NumberType''), (''string'', ''StringType''), (''boolean'', ''BooleanType''),
     (''void'', ''Void''), (''null'', ''Null''), (''undefined'', ''Undefined''),
     (''any'', ''Any''), (''unknown'', ''Unknown''), (''never'', ''Never''),
     (''object'', ''Object''), (''symbol'', ''Symbol''), (''bigint'', ''Bigint''),
     (''true'', ''True''), (''false'', ''False''),
     (''typeof'', ''Typeof''), (''keyof'', ''Keyof''), (''infer'', ''Infer''), (''in'', ''In''),
     (''of'', ''Of''), (''instanceof'', ''Instanceof''), (''delete'', ''Delete''),
     (''as'', ''As''),
     (''import'', ''Import''), (''export'', ''Export''), (''from'', ''From'')]"

definition inheritedProperties :: "string list" where
  "inheritedProperties =
    [''__defineGetter__'', ''__defineSetter__'', ''hasOwnProperty'', ''__lookupGetter__'',
     ''__lookupSetter__'', ''isPrototypeOf'', ''propertyIsEnumerable'', ''toString'',
     ''valueOf'', ''__proto__'', ''toLocaleString'']"

definition keywordType :: "string \<Rightarrow> string" where
  "keywordType v =
    (case map_of KEYWORDS v of
       Some t \<Rightarrow> t
     | None \<Rightarrow> if v \<in> set inheritedProperties then ''Object.prototype.'' @ v else ''Identifier'')"

record Lexer =
  source :: string
  pos :: nat
  line :: nat
  column :: nat
  tokens :: "Token list"

definition isAtEnd :: "Lexer \<Rightarrow> bool" where
  "isAtEnd l = (pos l \<ge> length (source l))"

definition peek :: "Lexer \<Rightarrow> char" where
  "peek l = (if pos l < length (source l) then source l ! pos l else CHR 0x00)"

definition peekNext :: "Lexer \<Rightarrow> char" where
  "peekNext l = (if pos l + 1 < length (source l) then source l ! (pos l + 1) else CHR 0x00)"

definition advance :: "Lexer \<Rightarrow> char option \<times> Lexer" where
  "advance l =
    (if pos l < length (source l) then Some (source l ! pos l) else None,
     l\<lparr>pos := pos l + 1, column := column l + 1\<rparr>)"

definition appendChar :: "string \<Rightarrow> char option \<Rightarrow> string" where
  "appendChar v c = (case c of Some x \<Rightarrow> v @ [x] | None \<Rightarrow> v @ ''undefined'')"

definition match :: "char \<Rightarrow> Lexer \<Rightarrow> bool \<times> Lexer" where
  "match expected l =
    (if isAtEnd l \<or> peek l \<noteq> expected then (False, l) else (True, snd (advance l)))"

definition isAlpha :: "char \<Rightarrow> bool" where
  "isAlpha c = (c \<in> set ''abcdefghijklmnopqrstuvwxyzABCDEFGHIJKLMNOPQRSTUVWXYZ_$'')"

definition isDigit :: "char \<Rightarrow> bool" where
  "isDigit c = (c \<in> set ''0123456789'')"

definition isHexDigit :: "char \<Rightarrow> bool" where
  "isHexDigit c = (c \<in> set ''0123456789abcdefABCDEF'')"

definition isOctalDigit :: "char \<Rightarrow> bool" where
  "isOctalDigit c = (c \<in> set ''01234567'')"

definition isAlphaNumeric :: "char \<Rightarrow> bool" where
  "isAlphaNumeric c = (isAlpha c \<or> isDigit c)"

definition remaining :: "Lexer \<Rightarrow> nat" where
  "remaining l = length (source l) - pos l"

definition pushToken :: "string \<Rightarrow> string \<Rightarrow> nat \<Rightarrow> Lexer \<Rightarrow> Lexer" where
  "pushToken t v startColumn l = l\<lparr>tokens := tokens l @ [Token t v (line l) startColumn]\<rparr>"

lemma remaining_advance [simp]: "remaining (snd (advance l)) = remaining l - 1"
  by (simp add: remaining_def advance_def)

lemma isAtEnd_remaining: "isAtEnd l \<longleftrightarrow> remaining l = 0"
  by (auto simp: remaining_def isAtEnd_def)

text \<open>The loop \<^verbatim>\<open>while (!this.isAtEnd() && P(this.peek())) value += this.advance()\<close>.\<close>

function advanceWhile :: "(char \<Rightarrow> bool) \<Rightarrow> string \<Rightarrow> Lexer \<Rightarrow> string \<times> Lexer" where
  "advanceWhile P v l =
    (if \<not> isAtEnd l \<and> P (peek l) then
       advanceWhile P (appendChar v (fst (advance l))) (snd (advance l))
     else (v, l))"
  by pat_completeness auto
termination
  by (relation "measure (\<lambda>(P, v, l). remaining l)") (auto simp: isAtEnd_remaining)

declare advanceWhile.simps [simp del]

lemma record_simps [simp]:
  "remaining (l\<lparr>line := a\<rparr>) = remaining l" "remaining (l\<lparr>column := b\<rparr>) = remaining l"
  "remaining (l\<lparr>tokens := c\<rparr>) = remaining l"
  "peek (l\<lparr>line := a\<rparr>) = peek l" "peek (l\<lparr>column := b\<rparr>) = peek l"
  "peek (l\<lparr>tokens := c\<rparr>) = peek l"
  "peekNext (l\<lparr>line := a\<rparr>) = peekNext l" "peekNext (l\<lparr>column := b\<rparr>) = peekNext l"
  "peekNext (l\<lparr>tokens := c\<rparr>) = peekNext l"
  by (simp_all add: remaining_def peek_def peekNext_def)

lemma remaining_pushToken [simp]: "remaining (pushToken t v c l) = remaining l"
  by (simp add: pushToken_def)

lemma remaining_advanceWhile_le: "remaining (snd (advanceWhile P v l)) \<le> remaining l"
proof (induction P v l rule: advanceWhile.induct)
  case (1 P v l)
  show ?case
  proof (cases "\<not> isAtEnd l \<and> P (peek l)")
    case True
    then have "remaining (snd (advanceWhile P v l))
        = remaining (snd (advanceWhile P (appendChar v (fst (advance l))) (snd (advance l))))"
      by (subst advanceWhile.simps) simp
    also have "\<dots> \<le> remaining (snd (advance l))" using 1 True by simp
    also have "\<dots> \<le> remaining l" by simp
    finally show ?thesis .
  next
    case False
    then show ?thesis by (subst advanceWhile.simps) auto
  qed
qed

lemma remaining_advanceWhile_less:
  "\<not> isAtEnd l \<Longrightarrow> P (peek l) \<Longrightarrow> remaining (snd (advanceWhile P v l)) < remaining l"
proof -
  assume a: "\<not> isAtEnd l" "P (peek l)"
  then have "remaining (snd (advanceWhile P v l))
      = remaining (snd (advanceWhile P (appendChar v (fst (advance l))) (snd (advance l))))"
    by (subst advanceWhile.simps) simp
  also have "\<dots> \<le> remaining (snd (advance l))" by (rule remaining_advanceWhile_le)
  also have "\<dots> < remaining l" using a by (simp add: isAtEnd_remaining)
  finally show ?thesis .
qed

text \<open>
  The inner loop of a block comment: it runs to the closing \<^verbatim>\<open>*/\<close> or to the end of the
  text, counting lines.  Nothing is thrown when the end comes first.
\<close>

function skipBlockComment :: "Lexer \<Rightarrow> Lexer" where
  "skipBlockComment l =
    (if \<not> isAtEnd l \<and> \<not> (peek l = CHR ''*'' \<and> peekNext l = CHR ''/'') then
       skipBlockComment
         (snd (advance (if peek l = CHR 0x0A then l\<lparr>line := line l + 1, column := 0\<rparr> else l)))
     else l)"
  by pat_completeness auto
termination
  by (relation "measure remaining") (auto simp: isAtEnd_remaining)

declare skipBlockComment.simps [simp del]

lemma remaining_skipBlockComment: "remaining (skipBlockComment l) \<le> remaining l"
proof (induction l rule: skipBlockComment.induct)
  case (1 l)
  show ?case
  proof (cases "\<not> isAtEnd l \<and> \<not> (peek l = CHR ''*'' \<and> peekNext l = CHR ''/'')")
    case True
    let ?l' = "snd (advance (if peek l = CHR 0x0A then l\<lparr>line := line l + 1, column := 0\<rparr> else l))"
    have "remaining (skipBlockComment l) = remaining (skipBlockComment ?l')"
      using True by (subst skipBlockComment.simps) simp
    also have "\<dots> \<le> remaining ?l'" using 1 True by simp
    also have "\<dots> \<le> remaining l" by simp
    finally show ?thesis .
  next
    case False
    then show ?thesis by (subst skipBlockComment.simps) auto
  qed
qed

function skipWhitespaceAndComments :: "Lexer \<Rightarrow> Lexer" where
  "skipWhitespaceAndComments l =
    (if isAtEnd l then l
     else if peek l = CHR '' '' \<or> peek l = CHR 0x09 \<or> peek l = CHR 0x0D then
       skipWhitespaceAndComments (snd (advance l))
     else if peek l = CHR 0x0A then
       skipWhitespaceAndComments ((snd (advance l))\<lparr>line := line l + 1, column := 1\<rparr>)
     else if peek l = CHR ''/'' \<and> peekNext l = CHR ''/'' then
       skipWhitespaceAndComments (snd (advanceWhile (\<lambda>c. c \<noteq> CHR 0x0A) [] l))
     else if peek l = CHR ''/'' \<and> peekNext l = CHR ''*'' then
       skipWhitespaceAndComments
         (let l1 = skipBlockComment (snd (advance (snd (advance l))))
          in if \<not> isAtEnd l1 then snd (advance (snd (advance l1))) else l1)
     else l)"
  by pat_completeness auto
termination
proof (relation "measure remaining", goal_cases)
  case 1
  show ?case by simp
next
  case (2 l)
  then show ?case by (simp add: isAtEnd_remaining)
next
  case (3 l)
  then show ?case by (simp add: isAtEnd_remaining)
next
  case (4 l)
  then show ?case by (simp add: remaining_advanceWhile_less)
next
  case (5 l)
  let ?l1 = "skipBlockComment (snd (advance (snd (advance l))))"
  have "remaining ?l1 \<le> remaining (snd (advance (snd (advance l))))"
    by (rule remaining_skipBlockComment)
  then show ?case using 5 by (auto simp: Let_def isAtEnd_remaining)
qed

declare skipWhitespaceAndComments.simps [simp del]

definition scanIdentifier :: "Lexer \<Rightarrow> Lexer" where
  "scanIdentifier l =
    (let startColumn = column l;
         (v, l1) = advanceWhile isAlphaNumeric [] l
     in pushToken (keywordType v) v startColumn l1)"

definition addNumberToken :: "string \<Rightarrow> nat \<Rightarrow> Lexer \<Rightarrow> Lexer" where
  "addNumberToken v startColumn l = pushToken ''NumberLiteral'' v startColumn l"

definition toLowerCase :: "char \<Rightarrow> char" where
  "toLowerCase c =
    (if c \<in> set ''ABCDEFGHIJKLMNOPQRSTUVWXYZ'' then char_of (of_char c + (32::nat)) else c)"

text \<open>
  \<^verbatim>\<open>scanNumber\<close>: the three prefixed forms share \<open>scanRadixDigits\<close>; the decimal form is
  the digits, then the fraction, the exponent and the \<^verbatim>\<open>n\<close> suffix, each a block of the
  method.
\<close>

definition scanRadixDigits :: "(char \<Rightarrow> bool) \<Rightarrow> nat \<Rightarrow> Lexer \<Rightarrow> Lexer" where
  "scanRadixDigits P startColumn l =
    (let v1 = appendChar [] (fst (advance l)); l1 = snd (advance l);
         v2 = appendChar v1 (fst (advance l1)); l2 = snd (advance l1);
         r = advanceWhile P v2 l2
     in addNumberToken (fst r) startColumn (snd r))"

definition scanDecimalPart :: "string \<Rightarrow> Lexer \<Rightarrow> string \<times> Lexer" where
  "scanDecimalPart v l =
    (if peek l = CHR ''.'' \<and> isDigit (peekNext l) then
       advanceWhile isDigit (appendChar v (fst (advance l))) (snd (advance l))
     else (v, l))"

definition scanExponentPart :: "string \<Rightarrow> Lexer \<Rightarrow> string \<times> Lexer" where
  "scanExponentPart v l =
    (if toLowerCase (peek l) = CHR ''e'' then
       (let v1 = appendChar v (fst (advance l)); l1 = snd (advance l)
        in if peek l1 = CHR ''+'' \<or> peek l1 = CHR ''-'' then
             advanceWhile isDigit (appendChar v1 (fst (advance l1))) (snd (advance l1))
           else advanceWhile isDigit v1 l1)
     else (v, l))"

definition scanBigintSuffix :: "string \<Rightarrow> Lexer \<Rightarrow> string \<times> Lexer" where
  "scanBigintSuffix v l =
    (if peek l = CHR ''n'' then (appendChar v (fst (advance l)), snd (advance l)) else (v, l))"

definition scanNumber :: "Lexer \<Rightarrow> Lexer" where
  "scanNumber l =
    (let startColumn = column l;
         next = toLowerCase (peekNext l)
     in if peek l = CHR ''0'' \<and> \<not> isAtEnd l \<and> next = CHR ''x'' then
          scanRadixDigits isHexDigit startColumn l
        else if peek l = CHR ''0'' \<and> \<not> isAtEnd l \<and> next = CHR ''b'' then
          scanRadixDigits (\<lambda>c. c = CHR ''0'' \<or> c = CHR ''1'') startColumn l
        else if peek l = CHR ''0'' \<and> \<not> isAtEnd l \<and> next = CHR ''o'' then
          scanRadixDigits isOctalDigit startColumn l
        else
          (let r1 = advanceWhile isDigit [] l;
               r2 = scanDecimalPart (fst r1) (snd r1);
               r3 = scanExponentPart (fst r2) (snd r2);
               r4 = scanBigintSuffix (fst r3) (snd r3)
           in addNumberToken (fst r4) startColumn (snd r4)))"

subsection \<open>String escapes\<close>

text \<open>
  \<^verbatim>\<open>String.fromCodePoint(parseInt(unicode, 16))\<close>: \<^verbatim>\<open>parseInt\<close> skips leading white
  space, takes a sign and an optional \<^verbatim>\<open>0x\<close>, and reads the longest prefix of hexadecimal
  digits; with no digit it is \<^verbatim>\<open>NaN\<close> (\<open>None\<close>), on which \<^verbatim>\<open>fromCodePoint\<close> throws a
  \<^verbatim>\<open>RangeError\<close>.
\<close>

definition isWhiteSpace :: "char \<Rightarrow> bool" where
  "isWhiteSpace c = (c \<in> {CHR 0x09, CHR 0x0A, CHR 0x0B, CHR 0x0C, CHR 0x0D, CHR 0x20, CHR 0xA0})"

definition hexDigitValue :: "char \<Rightarrow> int" where
  "hexDigitValue c =
    (if c \<in> set ''0123456789'' then int (of_char c) - 48
     else if c \<in> set ''abcdef'' then int (of_char c) - 87
     else int (of_char c) - 55)"

definition parseInt16 :: "string \<Rightarrow> int option" where
  "parseInt16 s =
    (let s1 = dropWhile isWhiteSpace s;
         sign = (if take 1 s1 = ''-'' then - 1 else 1 :: int);
         s2 = (if take 1 s1 = ''-'' \<or> take 1 s1 = ''+'' then drop 1 s1 else s1);
         s3 = (if take 2 s2 = ''0x'' \<or> take 2 s2 = ''0X'' then drop 2 s2 else s2);
         ds = takeWhile isHexDigit s3
     in if ds = [] then None
        else Some (sign * foldl (\<lambda>acc d. 16 * acc + hexDigitValue d) 0 ds))"

definition fromCodePoint :: "int option \<Rightarrow> exn + string" where
  "fromCodePoint cp =
    (case cp of
       None \<Rightarrow> Inl (RangeError ''Invalid code point NaN'')
     | Some n \<Rightarrow>
         if n < 0 \<or> n > 0x10FFFF then Inl (RangeError ''Invalid code point'')
         else if n < 256 then Inr [char_of (nat n)]
         else Inl (OutsideModel ''code point above 0xFF''))"

definition scanEscape :: "char option \<Rightarrow> Lexer \<Rightarrow> exn + (string \<times> Lexer)" where
  "scanEscape escaped l =
    (if escaped = Some CHR ''n'' then Inr ([CHR 0x0A], l)
     else if escaped = Some CHR ''t'' then Inr ([CHR 0x09], l)
     else if escaped = Some CHR ''r'' then Inr ([CHR 0x0D], l)
     else if escaped = Some CHR 0x5C then Inr ([CHR 0x5C], l)
     else if escaped = Some CHR 0x22 then Inr ([CHR 0x22], l)
     else if escaped = Some CHR 0x27 then Inr ([CHR 0x27], l)
     else if escaped = Some CHR ''0'' then Inr ([CHR 0x00], l)
     else if escaped = Some CHR ''u'' then
       (let (unicode, l') =
              (if peek l = CHR ''{'' then
                 (let (u, k) = advanceWhile (\<lambda>c. c \<noteq> CHR ''}'') [] (snd (advance l))
                  in (u, snd (advance k)))
               else
                 (let u1 = appendChar [] (fst (advance l)); l1 = snd (advance l);
                      u2 = appendChar u1 (fst (advance l1)); l2 = snd (advance l1);
                      u3 = appendChar u2 (fst (advance l2)); l3 = snd (advance l2);
                      u4 = appendChar u3 (fst (advance l3)); l4 = snd (advance l3)
                  in (u4, l4)))
        in case fromCodePoint (parseInt16 unicode) of
             Inl e \<Rightarrow> Inl e
           | Inr c \<Rightarrow> Inr (c, l'))
     else Inr (appendChar [] escaped, l))"

lemma remaining_scanEscape:
  "scanEscape escaped l = Inr (v, l') \<Longrightarrow> remaining l' \<le> remaining l"
  using remaining_advanceWhile_le[of "\<lambda>c. c \<noteq> CHR ''}''" "[]" "snd (advance l)"]
  by (auto simp: scanEscape_def Let_def split: if_splits prod.splits sum.splits)

function scanStringLoop :: "char \<Rightarrow> string \<Rightarrow> Lexer \<Rightarrow> exn + (string \<times> Lexer)" where
  "scanStringLoop quote v l =
    (if \<not> isAtEnd l \<and> peek l \<noteq> quote then
       (if peek l = CHR 0x5C then
          (case scanEscape (fst (advance (snd (advance l)))) (snd (advance (snd (advance l)))) of
             Inl e \<Rightarrow> Inl e
           | Inr (c, l') \<Rightarrow> scanStringLoop quote (v @ c) l')
        else if peek l = CHR 0x0A then
          Inl (Error (''Unterminated string at line '' @ numberToString (line l)))
        else scanStringLoop quote (appendChar v (fst (advance l))) (snd (advance l)))
     else Inr (v, l))"
  by pat_completeness auto
termination
proof (relation "measure (\<lambda>(q, v, l). remaining l)", goal_cases)
  case 1
  show ?case by simp
next
  case (2 quote v l x2 c l')
  then have "remaining l' \<le> remaining (snd (advance (snd (advance l))))"
    using remaining_scanEscape by blast
  then show ?case using 2 by (auto simp: isAtEnd_remaining)
next
  case (3 quote v l)
  then show ?case by (simp add: isAtEnd_remaining)
qed

declare scanStringLoop.simps [simp del]

definition scanString :: "char \<Rightarrow> Lexer \<Rightarrow> exn + Lexer" where
  "scanString quote l =
    (let startColumn = column l
     in case scanStringLoop quote [] (snd (advance l)) of
          Inl e \<Rightarrow> Inl e
        | Inr (v, l1) \<Rightarrow>
            if isAtEnd l1 then
              Inl (Error (''Unterminated string at line '' @ numberToString (line l1)))
            else Inr (pushToken ''StringLiteral'' v startColumn (snd (advance l1))))"

definition scanOperatorOrPunctuation :: "Lexer \<Rightarrow> exn + Lexer" where
  "scanOperatorOrPunctuation l =
    (let startColumn = column l;
         char = fst (advance l);
         l1 = snd (advance l);
         tok = (\<lambda>t v k. Inr (pushToken t v startColumn k))
     in if char = Some CHR ''+'' then
          (if fst (match CHR ''+'' l1) then tok ''PlusPlus'' ''++'' (snd (match CHR ''+'' l1))
           else if fst (match CHR ''='' l1) then tok ''PlusEquals'' ''+='' (snd (match CHR ''='' l1))
           else tok ''Plus'' ''+'' l1)
        else if char = Some CHR ''-'' then
          (if fst (match CHR ''-'' l1) then tok ''MinusMinus'' ''--'' (snd (match CHR ''-'' l1))
           else if fst (match CHR ''='' l1) then tok ''MinusEquals'' ''-='' (snd (match CHR ''='' l1))
           else tok ''Minus'' ''-'' l1)
        else if char = Some CHR ''*'' then
          (if fst (match CHR ''*'' l1) then tok ''StarStar'' ''**'' (snd (match CHR ''*'' l1))
           else if fst (match CHR ''='' l1) then tok ''StarEquals'' ''*='' (snd (match CHR ''='' l1))
           else tok ''Star'' ''*'' l1)
        else if char = Some CHR ''/'' then
          (if fst (match CHR ''='' l1) then tok ''SlashEquals'' ''/='' (snd (match CHR ''='' l1))
           else tok ''Slash'' ''/'' l1)
        else if char = Some CHR ''%'' then
          (if fst (match CHR ''='' l1) then tok ''PercentEquals'' ''%='' (snd (match CHR ''='' l1))
           else tok ''Percent'' ''%'' l1)
        else if char = Some CHR ''('' then tok ''LeftParen'' ''('' l1
        else if char = Some CHR '')'' then tok ''RightParen'' '')'' l1
        else if char = Some CHR ''{'' then tok ''LeftBrace'' ''{'' l1
        else if char = Some CHR ''}'' then tok ''RightBrace'' ''}'' l1
        else if char = Some CHR ''['' then tok ''LeftBracket'' ''['' l1
        else if char = Some CHR '']'' then tok ''RightBracket'' '']'' l1
        else if char = Some CHR '':'' then tok ''Colon'' '':'' l1
        else if char = Some CHR '';'' then tok ''Semicolon'' '';'' l1
        else if char = Some CHR '','' then tok ''Comma'' '','' l1
        else if char = Some CHR ''@'' then tok ''At'' ''@'' l1
        else if char = Some CHR ''.'' then
          (if fst (match CHR ''.'' l1) then
             (let l2 = snd (match CHR ''.'' l1)
              in if fst (match CHR ''.'' l2) then tok ''Spread'' ''...'' (snd (match CHR ''.'' l2))
                 else Inl (Error (''Unexpected token '' @ [CHR 0x27] @ ''..'' @ [CHR 0x27] @
                        '' at line '' @ numberToString (line l2) @
                        '', column '' @ numberToString startColumn)))
           else tok ''Dot'' ''.'' l1)
        else if char = Some CHR ''='' then
          (if fst (match CHR ''='' l1) then
             (let l2 = snd (match CHR ''='' l1)
              in if fst (match CHR ''='' l2) then
                   tok ''EqualsEqualsEquals'' ''==='' (snd (match CHR ''='' l2))
                 else tok ''EqualsEquals'' ''=='' l2)
           else if fst (match CHR ''>'' l1) then tok ''Arrow'' ''=>'' (snd (match CHR ''>'' l1))
           else tok ''Equals'' ''='' l1)
        else if char = Some CHR ''!'' then
          (if fst (match CHR ''='' l1) then
             (let l2 = snd (match CHR ''='' l1)
              in if fst (match CHR ''='' l2) then
                   tok ''BangEqualsEquals'' ''!=='' (snd (match CHR ''='' l2))
                 else tok ''BangEquals'' ''!='' l2)
           else tok ''Bang'' ''!'' l1)
        else if char = Some CHR ''<'' then
          (if fst (match CHR ''='' l1) then tok ''LessThanEquals'' ''<='' (snd (match CHR ''='' l1))
           else if fst (match CHR ''<'' l1) then
             tok ''LessThanLessThan'' ''<<'' (snd (match CHR ''<'' l1))
           else tok ''LessThan'' ''<'' l1)
        else if char = Some CHR ''>'' then
          (if fst (match CHR ''='' l1) then
             tok ''GreaterThanEquals'' ''>='' (snd (match CHR ''='' l1))
           else if fst (match CHR ''>'' l1) then
             (let l2 = snd (match CHR ''>'' l1)
              in if fst (match CHR ''>'' l2) then
                   tok ''GreaterThanGreaterThanGreaterThan'' ''>>>'' (snd (match CHR ''>'' l2))
                 else tok ''GreaterThanGreaterThan'' ''>>'' l2)
           else tok ''GreaterThan'' ''>'' l1)
        else if char = Some CHR ''&'' then
          (if fst (match CHR ''&'' l1) then
             tok ''AmpersandAmpersand'' ''&&'' (snd (match CHR ''&'' l1))
           else tok ''Ampersand'' ''&'' l1)
        else if char = Some CHR ''|'' then
          (if fst (match CHR ''|'' l1) then tok ''PipePipe'' ''||'' (snd (match CHR ''|'' l1))
           else tok ''Pipe'' ''|'' l1)
        else if char = Some CHR ''^'' then tok ''Caret'' ''^'' l1
        else if char = Some CHR ''~'' then tok ''Tilde'' ''~'' l1
        else if char = Some CHR ''?'' then
          (if fst (match CHR ''.'' l1) then tok ''QuestionDot'' ''?.'' (snd (match CHR ''.'' l1))
           else if fst (match CHR ''?'' l1) then
             tok ''QuestionQuestion'' ''??'' (snd (match CHR ''?'' l1))
           else tok ''Question'' ''?'' l1)
        else Inl (Error (''Unexpected character '' @ [CHR 0x27] @ appendChar [] char @ [CHR 0x27] @
               '' at line '' @ numberToString (line l1) @
               '', column '' @ numberToString startColumn)))"

definition templateEscape :: "char option \<Rightarrow> string" where
  "templateEscape escaped =
    (if escaped = Some CHR ''n'' then [CHR 0x0A]
     else if escaped = Some CHR ''t'' then [CHR 0x09]
     else appendChar [] escaped)"

definition unterminatedTemplate :: "Lexer \<Rightarrow> exn" where
  "unterminatedTemplate l =
    Error (''Unterminated template literal at line '' @ numberToString (line l))"

lemma remaining_skipWhitespaceAndComments:
  "remaining (skipWhitespaceAndComments l) \<le> remaining l"
proof (induction l rule: skipWhitespaceAndComments.induct)
  case (1 l)
  let ?l1 = "skipBlockComment (snd (advance (snd (advance l))))"
  have bc: "remaining ?l1 \<le> remaining l"
    using remaining_skipBlockComment[of "snd (advance (snd (advance l)))"] by simp
  have lc: "remaining (snd (advanceWhile (\<lambda>c. c \<noteq> CHR 0x0A) [] l)) \<le> remaining l"
    by (rule remaining_advanceWhile_le)
  show ?case
    apply (subst skipWhitespaceAndComments.simps)
    using 1 bc lc
    apply (auto simp: Let_def)
    done
qed

text \<open>
  \<^verbatim>\<open>scanToken\<close> and the template scanners call each other.  The loop of
  \<^verbatim>\<open>scanTemplateExpression\<close> continues from the state \<^verbatim>\<open>scanToken\<close> returns; the test
  that this state is further into the text makes the recursion well founded, and
  \<open>guard_never_fires\<close> below shows that the test never fails.
\<close>

function scanToken :: "Lexer \<Rightarrow> exn + Lexer"
  and scanTemplateLiteral :: "Lexer \<Rightarrow> exn + Lexer"
  and scanTemplateLiteralLoop :: "nat \<Rightarrow> string \<Rightarrow> Lexer \<Rightarrow> exn + Lexer"
  and scanTemplateExpression :: "nat \<Rightarrow> Lexer \<Rightarrow> exn + Lexer"
  and scanTemplateMiddleOrTail :: "Lexer \<Rightarrow> exn + Lexer"
  and scanTemplateMiddleOrTailLoop :: "nat \<Rightarrow> string \<Rightarrow> Lexer \<Rightarrow> exn + Lexer"
where
  "scanToken l0 =
    (let l = skipWhitespaceAndComments l0
     in if isAtEnd l then Inr l
        else if isAlpha (peek l) then Inr (scanIdentifier l)
        else if isDigit (peek l) then Inr (scanNumber l)
        else if peek l = CHR 0x22 \<or> peek l = CHR 0x27 then scanString (peek l) l
        else if peek l = CHR 0x60 then scanTemplateLiteral l
        else scanOperatorOrPunctuation l)"
| "scanTemplateLiteral l = scanTemplateLiteralLoop (column l) [] (snd (advance l))"
| "scanTemplateLiteralLoop startColumn v l =
    (if isAtEnd l then Inl (unterminatedTemplate l)
     else if peek l = CHR 0x60 then
       Inr (pushToken ''TemplateLiteral'' v startColumn (snd (advance l)))
     else if peek l = CHR ''$'' \<and> peekNext l = CHR ''{'' then
       scanTemplateExpression 1
         (snd (advance (snd (advance (pushToken ''TemplateHead'' v startColumn l)))))
     else if peek l = CHR 0x5C then
       scanTemplateLiteralLoop startColumn
         (v @ templateEscape (fst (advance (snd (advance l)))))
         (snd (advance (snd (advance l))))
     else if peek l = CHR 0x0A then
       scanTemplateLiteralLoop startColumn (appendChar v (fst (advance l)))
         ((snd (advance l))\<lparr>line := line l + 1, column := 1\<rparr>)
     else scanTemplateLiteralLoop startColumn (appendChar v (fst (advance l))) (snd (advance l)))"
| "scanTemplateExpression braceCount l =
    (if \<not> isAtEnd l \<and> braceCount > 0 then
       (case scanToken l of
          Inl e \<Rightarrow> Inl e
        | Inr l1 \<Rightarrow>
            if \<not> remaining l1 < remaining l then Inl NoProgress
            else if tokens l1 = [] then
              Inl (TypeError ''Cannot read properties of undefined (reading type)'')
            else if tokenType (last (tokens l1)) = ''LeftBrace'' then
              scanTemplateExpression (braceCount + 1) l1
            else if tokenType (last (tokens l1)) = ''RightBrace'' then
              (if braceCount - 1 = 0 then
                 scanTemplateMiddleOrTail (l1\<lparr>tokens := butlast (tokens l1)\<rparr>)
               else scanTemplateExpression (braceCount - 1) l1)
            else scanTemplateExpression braceCount l1)
     else Inr l)"
| "scanTemplateMiddleOrTail l = scanTemplateMiddleOrTailLoop (column l) [] l"
| "scanTemplateMiddleOrTailLoop startColumn v l =
    (if isAtEnd l then Inl (unterminatedTemplate l)
     else if peek l = CHR 0x60 then
       Inr (pushToken ''TemplateTail'' v startColumn (snd (advance l)))
     else if peek l = CHR ''$'' \<and> peekNext l = CHR ''{'' then
       scanTemplateExpression 1
         (snd (advance (snd (advance (pushToken ''TemplateMiddle'' v startColumn l)))))
     else if peek l = CHR 0x5C then
       scanTemplateMiddleOrTailLoop startColumn
         (appendChar v (fst (advance (snd (advance l)))))
         (snd (advance (snd (advance l))))
     else if peek l = CHR 0x0A then
       scanTemplateMiddleOrTailLoop startColumn (appendChar v (fst (advance l)))
         ((snd (advance l))\<lparr>line := line l + 1, column := 1\<rparr>)
     else
       scanTemplateMiddleOrTailLoop startColumn (appendChar v (fst (advance l)))
         (snd (advance l)))"
  by pat_completeness auto
termination
  apply (relation "measure (\<lambda>x. case x of
      Inl (Inl l) \<Rightarrow> 5 * remaining l + 3
    | Inl (Inr (Inl l)) \<Rightarrow> 5 * remaining l + 2
    | Inl (Inr (Inr (c, v, l))) \<Rightarrow> 5 * remaining l + 1
    | Inr (Inl (b, l)) \<Rightarrow> 5 * remaining l + 4
    | Inr (Inr (Inl l)) \<Rightarrow> 5 * remaining l + 2
    | Inr (Inr (Inr (c, v, l))) \<Rightarrow> 5 * remaining l + 1)")
  subgoal by simp
  subgoal for l0 using remaining_skipWhitespaceAndComments[of l0] by simp
  apply (auto simp: isAtEnd_remaining)
  done

declare scanToken.simps [simp del] scanTemplateLiteral.simps [simp del]
  scanTemplateLiteralLoop.simps [simp del] scanTemplateExpression.simps [simp del]
  scanTemplateMiddleOrTail.simps [simp del] scanTemplateMiddleOrTailLoop.simps [simp del]

lemma remaining_match [simp]: "remaining (snd (match c l)) \<le> remaining l"
  by (simp add: match_def)

lemma advanceWhile_less: "remaining l < n \<Longrightarrow> remaining (snd (advanceWhile P v l)) < n"
  using remaining_advanceWhile_le[of P v l] by simp

lemma advance_less: "remaining l < n \<Longrightarrow> remaining (snd (advance l)) < n"
  by simp

lemma remaining_scanIdentifier:
  "\<not> isAtEnd l \<Longrightarrow> isAlpha (peek l) \<Longrightarrow> remaining (scanIdentifier l) < remaining l"
  using remaining_advanceWhile_less[of l isAlphaNumeric "[]"]
  by (simp add: scanIdentifier_def Let_def isAlphaNumeric_def split_beta)

lemma scanDecimalPart_less: "remaining l < n \<Longrightarrow> remaining (snd (scanDecimalPart v l)) < n"
  by (simp add: scanDecimalPart_def advanceWhile_less)

lemma scanExponentPart_less: "remaining l < n \<Longrightarrow> remaining (snd (scanExponentPart v l)) < n"
  by (simp add: scanExponentPart_def Let_def advanceWhile_less)

lemma scanBigintSuffix_less: "remaining l < n \<Longrightarrow> remaining (snd (scanBigintSuffix v l)) < n"
  by (auto simp: scanBigintSuffix_def)

lemma remaining_scanRadixDigits:
  "\<not> isAtEnd l \<Longrightarrow> remaining (scanRadixDigits P c l) < remaining l"
  by (simp add: scanRadixDigits_def Let_def addNumberToken_def advanceWhile_less
      isAtEnd_remaining)

lemma remaining_scanNumber:
  "\<not> isAtEnd l \<Longrightarrow> isDigit (peek l) \<Longrightarrow> remaining (scanNumber l) < remaining l"
  by (simp add: scanNumber_def Let_def addNumberToken_def remaining_scanRadixDigits
      scanBigintSuffix_less scanExponentPart_less scanDecimalPart_less
      remaining_advanceWhile_less)

lemma remaining_scanStringLoop:
  "scanStringLoop q v l = Inr (v', l') \<Longrightarrow> remaining l' \<le> remaining l"
proof (induction q v l arbitrary: v' l' rule: scanStringLoop.induct)
  case (1 quote v l)
  show ?case
  proof (cases "\<not> isAtEnd l \<and> peek l \<noteq> quote")
    case False
    then show ?thesis using "1.prems" by (subst (asm) scanStringLoop.simps) auto
  next
    case True
    note c = True
    show ?thesis
    proof (cases "peek l = CHR 0x5C")
      case True
      let ?l2 = "snd (advance (snd (advance l)))"
      obtain c0 k where e: "scanEscape (fst (advance (snd (advance l)))) ?l2 = Inr (c0, k)"
        and r: "scanStringLoop quote (v @ c0) k = Inr (v', l')"
        using "1.prems" c True
        by (subst (asm) scanStringLoop.simps) (auto split: sum.splits)
      have "remaining l' \<le> remaining k" using "1.IH"(1)[OF c True e refl r] .
      moreover have "remaining k \<le> remaining ?l2" using e by (rule remaining_scanEscape)
      ultimately show ?thesis by simp
    next
      case False
      then have nl: "peek l \<noteq> CHR 0x0A"
        and r: "scanStringLoop quote (appendChar v (fst (advance l))) (snd (advance l)) = Inr (v', l')"
        using "1.prems" c by (subst (asm) scanStringLoop.simps, auto split: if_splits)+
      have "remaining l' \<le> remaining (snd (advance l))" using "1.IH"(2)[OF c False nl r] .
      then show ?thesis by simp
    qed
  qed
qed

lemma remaining_scanString:
  "scanString q l = Inr l' \<Longrightarrow> \<not> isAtEnd l \<Longrightarrow> remaining l' < remaining l"
  by (auto simp: scanString_def Let_def isAtEnd_remaining split: sum.splits if_splits
      dest!: remaining_scanStringLoop)

lemma match_less: "remaining l < n \<Longrightarrow> remaining (snd (match c l)) < n"
  by (rule le_less_trans[OF remaining_match])

lemma remaining_scanOperatorOrPunctuation:
  "scanOperatorOrPunctuation l = Inr l' \<Longrightarrow> \<not> isAtEnd l \<Longrightarrow> remaining l' < remaining l"
  by (auto simp: scanOperatorOrPunctuation_def Let_def isAtEnd_remaining match_less
      split: if_splits)

lemma scanToken_progress_aux:
  "(\<forall>l'. scanToken l0 = Inr l' \<longrightarrow>
      remaining l' \<le> remaining l0 \<and> (\<not> isAtEnd l0 \<longrightarrow> remaining l' < remaining l0))"
  "(\<forall>l'. scanTemplateLiteral l = Inr l' \<longrightarrow> \<not> isAtEnd l \<longrightarrow> remaining l' < remaining l)"
  "(\<forall>l'. scanTemplateLiteralLoop c v l = Inr l' \<longrightarrow> remaining l' \<le> remaining l)"
  "(\<forall>l'. scanTemplateExpression b l = Inr l' \<longrightarrow> remaining l' \<le> remaining l)"
  "(\<forall>l'. scanTemplateMiddleOrTail l = Inr l' \<longrightarrow> remaining l' \<le> remaining l)"
  "(\<forall>l'. scanTemplateMiddleOrTailLoop c v l = Inr l' \<longrightarrow> remaining l' \<le> remaining l)"
proof (induction l0 and l and c v l and b l and l and c v l
    rule: scanToken_scanTemplateLiteral_scanTemplateLiteralLoop_scanTemplateExpression_scanTemplateMiddleOrTail_scanTemplateMiddleOrTailLoop.induct)
  case (1 l0)
  let ?l = "skipWhitespaceAndComments l0"
  have sk: "remaining ?l \<le> remaining l0" by (rule remaining_skipWhitespaceAndComments)
  show ?case
  proof (intro allI impI)
    fix l' assume r: "scanToken l0 = Inr l'"
    show "remaining l' \<le> remaining l0 \<and> (\<not> isAtEnd l0 \<longrightarrow> remaining l' < remaining l0)"
    proof (cases "isAtEnd ?l")
      case True
      then have "l' = ?l" using r by (subst (asm) scanToken.simps) (simp add: Let_def)
      then show ?thesis using True sk by (auto simp: isAtEnd_remaining)
    next
      case False
      have "remaining l' < remaining ?l"
      proof -
        consider (a) "isAlpha (peek ?l)"
          | (d) "\<not> isAlpha (peek ?l)" "isDigit (peek ?l)"
          | (s) "\<not> isAlpha (peek ?l)" "\<not> isDigit (peek ?l)"
                "peek ?l = CHR 0x22 \<or> peek ?l = CHR 0x27"
          | (t) "\<not> isAlpha (peek ?l)" "\<not> isDigit (peek ?l)"
                "\<not> (peek ?l = CHR 0x22 \<or> peek ?l = CHR 0x27)" "peek ?l = CHR 0x60"
          | (p) "\<not> isAlpha (peek ?l)" "\<not> isDigit (peek ?l)"
                "\<not> (peek ?l = CHR 0x22 \<or> peek ?l = CHR 0x27)" "peek ?l \<noteq> CHR 0x60"
          by blast
        then show ?thesis
        proof cases
          case a
          then have "l' = scanIdentifier ?l"
            using r False by (subst (asm) scanToken.simps) (simp add: Let_def)
          then show ?thesis using remaining_scanIdentifier[OF False a] by simp
        next
          case d
          then have "l' = scanNumber ?l"
            using r False by (subst (asm) scanToken.simps) (simp add: Let_def)
          then show ?thesis using remaining_scanNumber[OF False d(2)] by simp
        next
          case s
          then have "scanString (peek ?l) ?l = Inr l'"
            using r False by (subst (asm) scanToken.simps) (simp add: Let_def)
          then show ?thesis using False by (rule remaining_scanString)
        next
          case t
          then have "scanTemplateLiteral ?l = Inr l'"
            using r False by (subst (asm) scanToken.simps) (simp add: Let_def)
          then show ?thesis using "1.IH"[OF refl False t] False by simp
        next
          case p
          then have "scanOperatorOrPunctuation ?l = Inr l'"
            using r False by (subst (asm) scanToken.simps) (simp add: Let_def)
          then show ?thesis using False by (rule remaining_scanOperatorOrPunctuation)
        qed
      qed
      then show ?thesis using sk by simp
    qed
  qed
next
  case (2 l)
  show ?case
  proof (intro allI impI)
    fix l' assume "scanTemplateLiteral l = Inr l'" "\<not> isAtEnd l"
    then show "remaining l' < remaining l"
      using 2 by (subst (asm) scanTemplateLiteral.simps) (fastforce simp: isAtEnd_remaining)
  qed
next
  case (3 startColumn v l)
  show ?case
  proof (intro allI impI)
    fix l' assume r: "scanTemplateLiteralLoop startColumn v l = Inr l'"
    show "remaining l' \<le> remaining l"
      using r 3
      apply (subst (asm) scanTemplateLiteralLoop.simps)
      apply (simp split: if_splits)
          apply (fastforce+)?
      done
  qed
next
  case (4 braceCount l)
  show ?case
  proof (intro allI impI)
    fix l' assume r: "scanTemplateExpression braceCount l = Inr l'"
    show "remaining l' \<le> remaining l"
      using r 4
      apply (subst (asm) scanTemplateExpression.simps)
      apply (simp split: if_splits sum.splits)
          apply (fastforce+)?
      done
  qed
next
  case (5 l)
  then show ?case by (subst scanTemplateMiddleOrTail.simps) simp
next
  case (6 startColumn v l)
  show ?case
  proof (intro allI impI)
    fix l' assume r: "scanTemplateMiddleOrTailLoop startColumn v l = Inr l'"
    show "remaining l' \<le> remaining l"
      using r 6
      apply (subst (asm) scanTemplateMiddleOrTailLoop.simps)
      apply (simp split: if_splits)
          apply (fastforce+)?
      done
  qed
qed

lemma scanToken_progress:
  "scanToken l = Inr l' \<Longrightarrow> \<not> isAtEnd l \<Longrightarrow> remaining l' < remaining l"
  using scanToken_progress_aux(1)[of l] by simp

lemma scanEscape_error: "scanEscape e l \<noteq> Inl NoProgress"
  by (auto simp: scanEscape_def fromCodePoint_def Let_def split: prod.splits sum.splits option.splits)

lemma scanStringLoop_error: "scanStringLoop q v l \<noteq> Inl NoProgress"
proof (induction q v l rule: scanStringLoop.induct)
  case (1 quote v l)
  show ?case
    using 1 scanEscape_error
    apply (subst scanStringLoop.simps)
    apply (auto split: sum.splits)
    done
qed

lemma scanString_error: "scanString q l \<noteq> Inl NoProgress"
  using scanStringLoop_error by (auto simp: scanString_def Let_def split: sum.splits)

lemma scanOperatorOrPunctuation_error: "scanOperatorOrPunctuation l \<noteq> Inl NoProgress"
  by (simp add: scanOperatorOrPunctuation_def Let_def)

lemma guard_never_fires:
  "scanToken l0 \<noteq> Inl NoProgress"
  "scanTemplateLiteral l \<noteq> Inl NoProgress"
  "scanTemplateLiteralLoop c v l \<noteq> Inl NoProgress"
  "scanTemplateExpression b l \<noteq> Inl NoProgress"
  "scanTemplateMiddleOrTail l \<noteq> Inl NoProgress"
  "scanTemplateMiddleOrTailLoop c v l \<noteq> Inl NoProgress"
proof (induction l0 and l and c v l and b l and l and c v l
    rule: scanToken_scanTemplateLiteral_scanTemplateLiteralLoop_scanTemplateExpression_scanTemplateMiddleOrTail_scanTemplateMiddleOrTailLoop.induct)
  case (1 l0)
  then show ?case
    using scanString_error scanOperatorOrPunctuation_error
    by (subst scanToken.simps) (simp add: Let_def)
next
  case (2 l)
  then show ?case by (subst scanTemplateLiteral.simps) simp
next
  case (3 startColumn v l)
  then show ?case
    by (subst scanTemplateLiteralLoop.simps) (simp add: unterminatedTemplate_def)
next
  case (4 braceCount l)
  show ?case
  proof (cases "\<not> isAtEnd l \<and> braceCount > 0")
    case False
    then show ?thesis by (subst scanTemplateExpression.simps) auto
  next
    case True
    show ?thesis
    proof (cases "scanToken l")
      case (Inl e)
      then show ?thesis using True 4(1) by (subst scanTemplateExpression.simps) auto
    next
      case (Inr l1)
      then have "remaining l1 < remaining l" using True by (simp add: scanToken_progress)
      then show ?thesis
        using True Inr 4(2-)
        by (subst scanTemplateExpression.simps) (simp split: if_splits)
    qed
  qed
next
  case (5 l)
  then show ?case by (subst scanTemplateMiddleOrTail.simps) simp
next
  case (6 startColumn v l)
  then show ?case
    by (subst scanTemplateMiddleOrTailLoop.simps) (simp add: unterminatedTemplate_def)
qed

text \<open>\<^verbatim>\<open>tokenize\<close>: scan until the end of the text, then append the end-of-file token.\<close>

function tokenizeLoop :: "Lexer \<Rightarrow> exn + Lexer" where
  "tokenizeLoop l =
    (if \<not> isAtEnd l then
       (case scanToken l of Inl e \<Rightarrow> Inl e | Inr l' \<Rightarrow> tokenizeLoop l')
     else Inr l)"
  by pat_completeness auto
termination
  by (relation "measure remaining") (auto simp: scanToken_progress)

declare tokenizeLoop.simps [simp del]

definition tokenize :: "string \<Rightarrow> exn + Token list" where
  "tokenize src =
    (case tokenizeLoop \<lparr>source = src, pos = 0, line = 1, column = 1, tokens = []\<rparr> of
       Inl e \<Rightarrow> Inl e
     | Inr l \<Rightarrow> Inr (tokens l @ [Token ''EOF'' [] (line l) (column l)]))"

text \<open>\<open>closes cs\<close>: the text \<open>cs\<close> contains \<^verbatim>\<open>*/\<close>.\<close>

fun closes :: "string \<Rightarrow> bool" where
  "closes (a # b # cs) = (a = CHR ''*'' \<and> b = CHR ''/'' \<or> closes (b # cs))"
| "closes cs = False"

lemma source_advance [simp]: "source (snd (advance l)) = source l"
  and tokens_advance [simp]: "tokens (snd (advance l)) = tokens l"
  and pos_advance [simp]: "pos (snd (advance l)) = pos l + 1"
  by (simp_all add: advance_def)

lemma drop_pos:
  "\<not> isAtEnd l \<Longrightarrow> drop (pos l) (source l) = peek l # drop (pos l + 1) (source l)"
  by (simp add: isAtEnd_def peek_def Cons_nth_drop_Suc)

lemma drop_pos_next:
  "peekNext l \<noteq> CHR 0x00 \<Longrightarrow>
   drop (pos l + 1) (source l) = peekNext l # drop (pos l + 2) (source l)"
  by (auto simp: peekNext_def Cons_nth_drop_Suc split: if_splits)

lemma closes_tail: "closes cs \<Longrightarrow> closes (c # cs)"
  by (cases cs) auto

lemma skipBlockComment_unclosed:
  "\<not> closes (drop (pos l) (source l)) \<Longrightarrow>
   isAtEnd (skipBlockComment l) \<and> tokens (skipBlockComment l) = tokens l \<and>
   source (skipBlockComment l) = source l"
proof (induction l rule: skipBlockComment.induct)
  case (1 l)
  show ?case
  proof (cases "isAtEnd l")
    case True
    then show ?thesis using skipBlockComment.simps[of l] by simp
  next
    case False
    have d: "drop (pos l) (source l) = peek l # drop (pos l + 1) (source l)"
      using False by (rule drop_pos)
    have open': "\<not> (peek l = CHR ''*'' \<and> peekNext l = CHR ''/'')"
    proof
      assume a: "peek l = CHR ''*'' \<and> peekNext l = CHR ''/''"
      then have "drop (pos l + 1) (source l) = peekNext l # drop (pos l + 2) (source l)"
        by (intro drop_pos_next) simp
      then have "closes (drop (pos l) (source l))" using d a by simp
      then show False using "1.prems" by simp
    qed
    let ?k = "if peek l = CHR 0x0A then l\<lparr>line := line l + 1, column := 0\<rparr> else l"
    have "\<not> closes (drop (pos (snd (advance ?k))) (source (snd (advance ?k))))"
      using "1.prems" d closes_tail by auto
    then have "isAtEnd (skipBlockComment (snd (advance ?k))) \<and>
        tokens (skipBlockComment (snd (advance ?k))) = tokens (snd (advance ?k)) \<and>
        source (skipBlockComment (snd (advance ?k))) = source (snd (advance ?k))"
      using "1.IH" False open' by simp
    moreover have "skipBlockComment l = skipBlockComment (snd (advance ?k))"
      using False open' by (subst skipBlockComment.simps) simp
    ultimately show ?thesis by simp
  qed
qed

lemma skipWhitespaceAndComments_unclosed:
  assumes "peek l = CHR ''/''" and "peekNext l = CHR ''*''"
    and "\<not> closes (drop (pos l + 2) (source l))"
  shows "isAtEnd (skipWhitespaceAndComments l) \<and>
    tokens (skipWhitespaceAndComments l) = tokens l"
proof -
  let ?l1 = "skipBlockComment (snd (advance (snd (advance l))))"
  have ne: "\<not> isAtEnd l" using assms(1) by (auto simp: peek_def isAtEnd_def split: if_splits)
  have e: "isAtEnd ?l1 \<and> tokens ?l1 = tokens (snd (advance (snd (advance l)))) \<and>
      source ?l1 = source (snd (advance (snd (advance l))))"
    using assms(3) by (intro skipBlockComment_unclosed) simp
  have "skipWhitespaceAndComments l = skipWhitespaceAndComments ?l1"
    using ne assms(1,2) e by (subst skipWhitespaceAndComments.simps) (simp add: Let_def)
  also have "\<dots> = ?l1" using e by (subst skipWhitespaceAndComments.simps) simp
  finally show ?thesis using e by simp
qed

lemmas lexer_eval =
  tokenize_def tokenizeLoop.simps scanToken.simps skipWhitespaceAndComments.simps
  skipBlockComment.simps advanceWhile.simps scanStringLoop.simps scanString_def
  scanTemplateLiteral.simps scanTemplateLiteralLoop.simps scanTemplateExpression.simps
  scanTemplateMiddleOrTail.simps scanTemplateMiddleOrTailLoop.simps
  scanOperatorOrPunctuation_def scanIdentifier_def scanNumber_def scanRadixDigits_def
  scanDecimalPart_def scanExponentPart_def scanBigintSuffix_def addNumberToken_def
  scanEscape_def templateEscape_def unterminatedTemplate_def keywordType_def KEYWORDS_def
  inheritedProperties_def pushToken_def isAtEnd_def peek_def peekNext_def advance_def
  match_def appendChar_def isAlpha_def isDigit_def isHexDigit_def isOctalDigit_def
  isAlphaNumeric_def toLowerCase_def remaining_def numberToString.simps Let_def

section \<open>The syntax tree (\<^verbatim>\<open>types.ts\<close>)\<close>

text \<open>
  The nodes of the parser's tree.  \<^verbatim>\<open>Expression\<close>, \<^verbatim>\<open>TypeNode\<close> and \<^verbatim>\<open>Statement\<close> are the three
  tagged unions of \<^verbatim>\<open>types.ts\<close>, one constructor for each \<^verbatim>\<open>kind\<close>, with the fields in the
  order of the interface and the field \<^verbatim>\<open>line\<close> last.  The interfaces that are not members of
  a union (\<^verbatim>\<open>Parameter\<close>, \<^verbatim>\<open>EnumMember\<close>, \<^verbatim>\<open>SwitchCase\<close>, ...) and the statement interfaces that
  other nodes hold directly (\<^verbatim>\<open>BlockStatement\<close>, \<^verbatim>\<open>VariableDeclaration\<close>, \<^verbatim>\<open>IfStatement\<close>, the
  declarations) are datatypes of their own, with the node types they contain as type
  parameters.  An optional field is an \<open>option\<close>; an optional boolean is \<open>False\<close> when it is
  absent, since the code only tests it for truthiness.
\<close>

datatype 't type_parameter_declaration =
  TypeParameterDeclaration string "'t option" "'t option"

datatype ('e, 't) parameter =
  Parameter string "'t option" bool "'e option" bool

datatype 't type_member =
  TypeMember "string option" 't bool bool bool "'t option"

datatype 't interface_member = InterfaceMember string 't bool bool

datatype ('e, 't) variable_declaration =
  VariableDeclarationNode string string "'t option" "'e option" nat

datatype 's block_statement = BlockStatementNode "'s list" nat

datatype ('e, 's) switch_case = SwitchCase "'e option" "'s list"

datatype ('e, 't, 's) catch_clause =
  CatchClause "('e, 't) parameter option" "'s block_statement"

datatype 'e decorator = Decorator 'e nat

datatype 'e enum_member = EnumMember string "'e option"

datatype 'e property_key = KeyString string | KeyExpression 'e

datatype 'e object_property = ObjectProperty "'e property_key" 'e bool bool bool

datatype ('e, 's) arrow_body = ArrowExpression 'e | ArrowBlock "'s block_statement"

datatype 'e template_literal_expr = TemplateLiteral "string list" "'e list" nat

datatype ('e, 't) for_init =
  ForInitDeclaration "('e, 't) variable_declaration" | ForInitExpression 'e

datatype ('e, 't) for_variable =
  ForVariableDeclaration "('e, 't) variable_declaration" | ForVariableIdentifier string nat

datatype ('e, 't, 's) class_member =
    PropertyDeclaration string "'t option" "'e option" "string option"
      bool bool bool "'e decorator list option" nat
  | MethodDeclaration string "('e, 't) parameter list" "'t option"
      "'s block_statement option" "string option" bool bool bool
      "'t type_parameter_declaration list option" "'e decorator list option" nat
  | ConstructorDeclaration "('e, 't) parameter list" "'s block_statement" "string option" nat
  | GetterDeclaration string "'t option" "'s block_statement" "string option" bool nat
  | SetterDeclaration string "('e, 't) parameter" "'s block_statement" "string option" bool nat

datatype ('e, 't, 's) function_declaration =
  FunctionDeclarationNode string "('e, 't) parameter list" "'t option" "'s block_statement"
    bool bool "'t type_parameter_declaration list option" nat

datatype 't interface_declaration =
  InterfaceDeclarationNode string "'t interface_member list" "'t list option"
    "'t type_parameter_declaration list option" nat

datatype 't type_alias_declaration =
  TypeAliasDeclarationNode string "'t type_parameter_declaration list option" 't nat

datatype ('e, 't, 's) class_declaration =
  ClassDeclarationNode string "'e option" "'t list option"
    "'t type_parameter_declaration list option" "('e, 't, 's) class_member list"
    "'e decorator list option" bool nat

datatype 'e enum_declaration = EnumDeclarationNode string "'e enum_member list" bool nat

datatype ('e, 's) if_statement = IfStatementNode 'e 's "'s option" nat

datatype import_specifier =
    ImportDefaultSpecifier string
  | ImportNamespaceSpecifier string
  | ImportNamedSpecifier string string bool

datatype export_specifier = ExportSpecifier string string bool

datatype expression =
    BinaryExpression string expression expression nat
  | UnaryExpression string expression bool nat
  | UpdateExpression string expression bool nat
  | CallExpression expression "expression list" "type_node list option" bool nat
  | MemberExpression expression string bool nat
  | ComputedMemberExpression expression expression bool nat
  | Identifier string nat
  | NumericLiteral int nat
  | StringLiteral string nat
  | BooleanLiteral bool nat
  | NullLiteral nat
  | UndefinedLiteral nat
  | ObjectLiteral "expression object_property list" nat
  | ArrayLiteral "expression option list" nat
  | ArrowFunction "(expression, type_node) parameter list" "type_node option"
      "(expression, statement) arrow_body" bool
      "type_node type_parameter_declaration list option" nat
  | FunctionExpression "string option" "(expression, type_node) parameter list"
      "type_node option" "statement block_statement" bool bool
      "type_node type_parameter_declaration list option" nat
  | ConditionalExpression expression expression expression nat
  | AssignmentExpression string expression expression nat
  | LogicalExpression string expression expression nat
  | NewExpression expression "expression list" "type_node list option" nat
  | ThisExpression nat
  | SuperExpression nat
  | SpreadElement expression nat
  | AwaitExpression expression nat
  | YieldExpression "expression option" bool nat
  | TemplateLiteralExpr "expression template_literal_expr"
  | TaggedTemplateExpression expression "expression template_literal_expr" nat
  | TypeAssertion type_node expression nat
  | AsExpression expression type_node nat
  | NonNullExpression expression nat
  | ClassExpression "string option" "expression option" "type_node list option"
      "(expression, type_node, statement) class_member list" nat
  | ParenthesizedExpression expression nat
and type_node =
    TypeReference string "type_node list option" nat
  | ArrayType type_node nat
  | TupleType "type_node list" nat
  | UnionType "type_node list" nat
  | IntersectionType "type_node list" nat
  | FunctionTypeNode "(expression, type_node) parameter list" type_node
      "type_node type_parameter_declaration list option" nat
  | ObjectTypeNode "type_node type_member list" nat
  | LiteralType scalar nat
  | ConditionalType type_node type_node type_node type_node nat
  | IndexedAccessType type_node type_node nat
  | MappedType "type_node type_parameter_declaration" type_node "string option"
      "string option" "type_node option" nat
  | TypeQuery string nat
  | ParenthesizedType type_node nat
  | OptionalType type_node nat
  | RestType type_node nat
  | InferType "type_node type_parameter_declaration" nat
and statement =
    VariableDeclaration "(expression, type_node) variable_declaration"
  | FunctionDeclaration "(expression, type_node, statement) function_declaration"
  | InterfaceDeclaration "type_node interface_declaration"
  | TypeAliasDeclaration "type_node type_alias_declaration"
  | ClassDeclaration "(expression, type_node, statement) class_declaration"
  | EnumDeclaration "expression enum_declaration"
  | ReturnStatement "expression option" nat
  | IfStatement "(expression, statement) if_statement"
  | WhileStatement expression statement nat
  | ForStatement "(expression, type_node) for_init option" "expression option"
      "expression option" statement nat
  | ForOfStatement "(expression, type_node) for_variable" expression statement bool nat
  | ForInStatement "(expression, type_node) for_variable" expression statement nat
  | DoWhileStatement statement expression nat
  | SwitchStatement expression "(expression, statement) switch_case list" nat
  | BreakStatement "string option" nat
  | ContinueStatement "string option" nat
  | ThrowStatement expression nat
  | TryStatement "statement block_statement"
      "(expression, type_node, statement) catch_clause option"
      "statement block_statement option" nat
  | ExpressionStatement expression nat
  | BlockStatement "statement block_statement"
  | ImportDeclaration "import_specifier list" string bool nat
  | ExportDeclaration "statement option" "export_specifier list option" "string option"
      bool bool nat
  | EmptyStatement nat

datatype program = Program "statement list"

section \<open>The emitter (\<^verbatim>\<open>emitter.ts\<close>)\<close>

text \<open>
  The emitter's methods return strings or append lines to the field \<^verbatim>\<open>output\<close>.  A method
  that can throw returns \<open>exn + 'a\<close>, and \<open>bindE\<close> sequences two such computations in the
  order in which the source evaluates them; \<open>mapE\<close> is \<^verbatim>\<open>Array.map\<close> with a callback that
  can throw, \<open>join\<close> is \<^verbatim>\<open>Array.join\<close>, \<open>jsonStringify\<close> is \<^verbatim>\<open>JSON.stringify\<close> of a string.

  The value of a numeric literal is a double in the source (\<^verbatim>\<open>parseFloat\<close> of the token)
  and an integer here.  On the integers from \<open>-(2^53 - 1)\<close> to \<open>2^53 - 1\<close> the two agree:
  each is a double, adding one is exact, and \<^verbatim>\<open>String(n)\<close> prints the decimal digits, which
  is \<open>intToString\<close>.  \<open>numberText\<close> is \<^verbatim>\<open>String(n)\<close> on that range; on a number beyond it
  the emitter's run ends with \<open>OutsideModel\<close>, and a literal with a fraction has no node in
  the model.

  The one value the emitter throws is the \<^verbatim>\<open>TypeError\<close> of \<^verbatim>\<open>switch (expr.kind)\<close> when
  \<^verbatim>\<open>emitExpression\<close> is called with \<^verbatim>\<open>undefined\<close>: \<^verbatim>\<open>emitStatementInline\<close> reads the field
  \<^verbatim>\<open>iterable\<close> of a for-in statement, which has the field \<^verbatim>\<open>object\<close> instead.  The same
  method interpolates the node \<^verbatim>\<open>s.variable\<close> into the text, which prints an object as
  \<^verbatim>\<open>[object Object]\<close>, after the keyword \<^verbatim>\<open>const\<close> (the node has no field
  \<^verbatim>\<open>variableKind\<close>).  The message of the \<^verbatim>\<open>TypeError\<close> is the engine's; \<open>undefinedKind\<close>
  has the wording of V8.
\<close>

definition bindE :: "exn + 'a \<Rightarrow> ('a \<Rightarrow> exn + 'b) \<Rightarrow> exn + 'b" where
  "bindE m f = (case m of Inl e \<Rightarrow> Inl e | Inr x \<Rightarrow> f x)"

lemma bindE_simps [simp]: "bindE (Inl e) f = Inl e" "bindE (Inr x) f = f x"
  by (simp_all add: bindE_def)

lemma bindE_cong [fundef_cong]:
  "m = m' \<Longrightarrow> (\<And>x. f x = g x) \<Longrightarrow> bindE m f = bindE m' g"
  by (auto simp: bindE_def split: sum.splits)

fun mapE :: "('a \<Rightarrow> exn + 'b) \<Rightarrow> 'a list \<Rightarrow> exn + 'b list" where
  "mapE f [] = Inr []"
| "mapE f (x # xs) = bindE (f x) (\<lambda>y. bindE (mapE f xs) (\<lambda>ys. Inr (y # ys)))"

lemma mapE_cong [fundef_cong]:
  "xs = ys \<Longrightarrow> (\<And>x. x \<in> set ys \<Longrightarrow> f x = g x) \<Longrightarrow> mapE f xs = mapE g ys"
  by (induction ys arbitrary: xs) (auto simp: bindE_def split: sum.splits)

fun join :: "string \<Rightarrow> string list \<Rightarrow> string" where
  "join sep [] = []"
| "join sep [x] = x"
| "join sep (x # y # ys) = x @ sep @ join sep (y # ys)"

definition intToString :: "int \<Rightarrow> string" where
  "intToString i = (if i < 0 then ''-'' @ numberToString (nat (- i)) else numberToString (nat i))"

definition safeInteger :: "int \<Rightarrow> bool" where
  "safeInteger v \<longleftrightarrow> - 9007199254740991 \<le> v \<and> v \<le> 9007199254740991"

definition numberText :: "int \<Rightarrow> exn + string" where
  "numberText v =
    (if safeInteger v then Inr (intToString v)
     else Inl (OutsideModel ''a number beyond the safe integers''))"

definition booleanToString :: "bool \<Rightarrow> string" where
  "booleanToString b = (if b then ''true'' else ''false'')"

definition hexDigit :: "nat \<Rightarrow> char" where
  "hexDigit n = ''0123456789abcdef'' ! n"

definition jsonEscape :: "char \<Rightarrow> string" where
  "jsonEscape c =
    (if c = CHR 0x22 then [CHR 0x5C, CHR 0x22]
     else if c = CHR 0x5C then [CHR 0x5C, CHR 0x5C]
     else if c = CHR 0x08 then [CHR 0x5C, CHR ''b'']
     else if c = CHR 0x0C then [CHR 0x5C, CHR ''f'']
     else if c = CHR 0x0A then [CHR 0x5C, CHR ''n'']
     else if c = CHR 0x0D then [CHR 0x5C, CHR ''r'']
     else if c = CHR 0x09 then [CHR 0x5C, CHR ''t'']
     else if (of_char c :: nat) < 0x20 then
       [CHR 0x5C, CHR ''u'', CHR ''0'', CHR ''0'',
        hexDigit (of_char c div 16), hexDigit (of_char c mod 16)]
     else [c])"

definition jsonStringify :: "string \<Rightarrow> string" where
  "jsonStringify s = [CHR 0x22] @ concat (map jsonEscape s) @ [CHR 0x22]"

definition undefinedKind :: exn where
  "undefinedKind =
    TypeError (''Cannot read properties of undefined (reading '' @ [CHR 0x27] @ ''kind'' @
      [CHR 0x27] @ '')'')"


text \<open>The parameter printer that five emitters repeat: \<^verbatim>\<open>...\<close>, the name, the default.\<close>

definition emitParameter ::
  "(expression \<Rightarrow> exn + string) \<Rightarrow> (expression, type_node) parameter \<Rightarrow> exn + string" where
  "emitParameter emitE p =
    (case p of Parameter name typeAnnotation optional defaultValue rest \<Rightarrow>
       (case defaultValue of
          None \<Rightarrow> Inr ((if rest then ''...'' else []) @ name)
        | Some d \<Rightarrow>
            bindE (emitE d) (\<lambda>v. Inr ((if rest then ''...'' else []) @ name @ '' = '' @ v))))"

lemma emitParameter_cong [fundef_cong]:
  "p = q \<Longrightarrow> (\<And>e. e \<in> set1_parameter q \<Longrightarrow> f e = g e) \<Longrightarrow>
   emitParameter f p = emitParameter g q"
  by (cases q) (auto simp: emitParameter_def split: option.splits)

definition parameterName :: "('e, 't) parameter \<Rightarrow> string" where
  "parameterName p = (case p of Parameter name typeAnnotation optional defaultValue rest \<Rightarrow> name)"

definition blockStatements :: "'s block_statement \<Rightarrow> 's list" where
  "blockStatements b = (case b of BlockStatementNode statements ln \<Rightarrow> statements)"

text \<open>
  The fields \<^verbatim>\<open>parameters\<close> and \<^verbatim>\<open>body.statements\<close> that \<^verbatim>\<open>emitExpression\<close> reads off the
  value of a method property, whatever expression that value is.
\<close>

fun parametersOf :: "expression \<Rightarrow> (expression, type_node) parameter list option" where
  "parametersOf (ArrowFunction ps rt body isAsync tps ln) = Some ps"
| "parametersOf (FunctionExpression name ps rt body isAsync isGen tps ln) = Some ps"
| "parametersOf e = None"

fun bodyStatementsOf :: "expression \<Rightarrow> statement list option" where
  "bodyStatementsOf (ArrowFunction ps rt (ArrowBlock b) isAsync tps ln) = Some (blockStatements b)"
| "bodyStatementsOf (FunctionExpression name ps rt b isAsync isGen tps ln) =
     Some (blockStatements b)"
| "bodyStatementsOf e = None"

fun spreadArgument :: "expression \<Rightarrow> expression option" where
  "spreadArgument (SpreadElement argument ln) = Some argument"
| "spreadArgument e = None"

fun asBlockStatement :: "statement \<Rightarrow> statement block_statement option" where
  "asBlockStatement (BlockStatement b) = Some b"
| "asBlockStatement s = None"

fun asIfStatement :: "statement \<Rightarrow> (expression, statement) if_statement option" where
  "asIfStatement (IfStatement s) = Some s"
| "asIfStatement s = None"

fun bareParameter :: "(expression, type_node) parameter \<Rightarrow> bool" where
  "bareParameter (Parameter name typeAnnotation optional defaultValue rest) =
     (typeAnnotation = None \<and> defaultValue = None)"

definition objectObject :: string where
  "objectObject = ''[object Object]''"

definition optionalName :: "string option \<Rightarrow> string" where
  "optionalName name = (case name of None \<Rightarrow> [] | Some n \<Rightarrow> if n = [] then [] else '' '' @ n)"

function (sequential) emitExpression :: "expression \<Rightarrow> exn + string"
  and emitTemplateLiteral :: "expression template_literal_expr \<Rightarrow> exn + string"
  and emitProperty :: "expression object_property \<Rightarrow> exn + string"
  and emitStatementInline :: "statement \<Rightarrow> exn + string"
  and emitIfStatementInline :: "(expression, statement) if_statement \<Rightarrow> exn + string"
where
  "emitExpression (NumericLiteral v ln) = numberText v"
| "emitExpression (StringLiteral v ln) = Inr (jsonStringify v)"
| "emitExpression (BooleanLiteral v ln) = Inr (booleanToString v)"
| "emitExpression (NullLiteral ln) = Inr ''null''"
| "emitExpression (UndefinedLiteral ln) = Inr ''undefined''"
| "emitExpression (Identifier name ln) = Inr name"
| "emitExpression (ThisExpression ln) = Inr ''this''"
| "emitExpression (SuperExpression ln) = Inr ''super''"
| "emitExpression (BinaryExpression operator left right ln) =
    bindE (emitExpression left) (\<lambda>l.
    bindE (emitExpression right) (\<lambda>r. Inr (l @ '' '' @ operator @ '' '' @ r)))"
| "emitExpression (UnaryExpression operator operand prefix ln) =
    (if prefix then
       bindE (emitExpression operand) (\<lambda>v.
         Inr (operator @
           (if operator = ''typeof'' \<or> operator = ''delete'' then '' '' else []) @ v))
     else bindE (emitExpression operand) (\<lambda>v. Inr (v @ operator)))"
| "emitExpression (UpdateExpression operator argument prefix ln) =
    (if prefix then bindE (emitExpression argument) (\<lambda>v. Inr (operator @ v))
     else bindE (emitExpression argument) (\<lambda>v. Inr (v @ operator)))"
| "emitExpression (CallExpression callee arguments typeArguments optional ln) =
    bindE (emitExpression callee) (\<lambda>c.
    bindE (mapE emitExpression arguments) (\<lambda>args.
      Inr (c @ (if optional then ''?.'' else []) @ ''('' @ join '', '' args @ '')'')))"
| "emitExpression (MemberExpression object property optional ln) =
    bindE (emitExpression object) (\<lambda>obj.
      Inr (obj @ (if optional then ''?.'' else ''.'') @ property))"
| "emitExpression (ComputedMemberExpression object property optional ln) =
    bindE (emitExpression object) (\<lambda>obj.
    bindE (emitExpression property) (\<lambda>prop.
      Inr (obj @ (if optional then ''?.'' else []) @ ''['' @ prop @ '']'')))"
| "emitExpression (ObjectLiteral properties ln) =
    (if properties = [] then Inr ''{}''
     else bindE (mapE emitProperty properties) (\<lambda>props.
            Inr (''{ '' @ join '', '' props @ '' }'')))"
| "emitExpression (ArrayLiteral elements ln) =
    bindE (mapE (\<lambda>el. case el of
                   None \<Rightarrow> Inr []
                 | Some e \<Rightarrow>
                     (case spreadArgument e of
                        Some argument \<Rightarrow>
                          bindE (emitExpression argument) (\<lambda>v. Inr (''...'' @ v))
                      | None \<Rightarrow> emitExpression e)) elements)
      (\<lambda>els. Inr (''['' @ join '', '' els @ '']''))"
| "emitExpression (ArrowFunction parameters returnTypeNode body isAsync typeParams ln) =
    bindE (mapE (emitParameter emitExpression) parameters) (\<lambda>ps.
    bindE (case body of
             ArrowBlock b \<Rightarrow>
               bindE (mapE emitStatementInline (blockStatements b)) (\<lambda>stmts.
                 Inr (''{ '' @ join '' '' stmts @ '' }''))
           | ArrowExpression e \<Rightarrow> emitExpression e) (\<lambda>b.
      if length parameters = 1 \<and> bareParameter (parameters ! 0)
      then Inr ((if isAsync then ''async '' else []) @ join '', '' ps @ '' => '' @ b)
      else Inr ((if isAsync then ''async '' else []) @ ''('' @ join '', '' ps @ '') => '' @ b)))"
| "emitExpression (FunctionExpression name parameters returnTypeNode body isAsync isGenerator
      typeParams ln) =
    bindE (mapE (emitParameter emitExpression) parameters) (\<lambda>ps.
    bindE (mapE emitStatementInline (blockStatements body)) (\<lambda>stmts.
      Inr ((if isAsync then ''async '' else []) @ ''function'' @
           (if isGenerator then ''*'' else []) @ optionalName name @
           ''('' @ join '', '' ps @ '') { '' @ join '' '' stmts @ '' }'')))"
| "emitExpression (ConditionalExpression condition consequent alternate ln) =
    bindE (emitExpression condition) (\<lambda>c.
    bindE (emitExpression consequent) (\<lambda>t.
    bindE (emitExpression alternate) (\<lambda>e. Inr (c @ '' ? '' @ t @ '' : '' @ e))))"
| "emitExpression (AssignmentExpression operator left right ln) =
    bindE (emitExpression left) (\<lambda>l.
    bindE (emitExpression right) (\<lambda>r. Inr (l @ '' '' @ operator @ '' '' @ r)))"
| "emitExpression (LogicalExpression operator left right ln) =
    bindE (emitExpression left) (\<lambda>l.
    bindE (emitExpression right) (\<lambda>r. Inr (l @ '' '' @ operator @ '' '' @ r)))"
| "emitExpression (NewExpression callee arguments typeArguments ln) =
    bindE (emitExpression callee) (\<lambda>c.
    bindE (mapE emitExpression arguments) (\<lambda>args.
      Inr (''new '' @ c @ ''('' @ join '', '' args @ '')'')))"
| "emitExpression (SpreadElement argument ln) =
    bindE (emitExpression argument) (\<lambda>v. Inr (''...'' @ v))"
| "emitExpression (AwaitExpression argument ln) =
    bindE (emitExpression argument) (\<lambda>v. Inr (''await '' @ v))"
| "emitExpression (YieldExpression argument delegate ln) =
    (case argument of
       Some a \<Rightarrow>
         bindE (emitExpression a) (\<lambda>v.
           Inr ((if delegate then ''yield* '' else ''yield '') @ v))
     | None \<Rightarrow> Inr ''yield'')"
| "emitExpression (TemplateLiteralExpr t) = emitTemplateLiteral t"
| "emitExpression (TaggedTemplateExpression tag quasi ln) =
    bindE (emitExpression tag) (\<lambda>t.
    bindE (emitTemplateLiteral quasi) (\<lambda>q. Inr (t @ q)))"
| "emitExpression (TypeAssertion typeAnnotation expression ln) = emitExpression expression"
| "emitExpression (AsExpression expression typeAnnotation ln) = emitExpression expression"
| "emitExpression (NonNullExpression expression ln) = emitExpression expression"
| "emitExpression (ClassExpression name superClassExpr impls memberList ln) =
    (case superClassExpr of
       Some sc \<Rightarrow>
         bindE (emitExpression sc) (\<lambda>v.
           Inr (''class'' @ optionalName name @ '' extends '' @ v @ '' { }''))
     | None \<Rightarrow> Inr (''class'' @ optionalName name @ '' { }''))"
| "emitExpression (ParenthesizedExpression expression ln) =
    bindE (emitExpression expression) (\<lambda>v. Inr (''('' @ v @ '')''))"
| "emitTemplateLiteral (TemplateLiteral quasis expressions ln) =
    bindE (mapE (\<lambda>i. if i < length expressions then
                         bindE (emitExpression (expressions ! i)) (\<lambda>v.
                           Inr (quasis ! i @ ''${'' @ v @ ''}''))
                       else Inr (quasis ! i))
            [0..<length quasis])
      (\<lambda>parts. Inr ([CHR 0x60] @ concat parts @ [CHR 0x60]))"
| "emitProperty (ObjectProperty key v computed shorthand method) =
    (case spreadArgument v of
       Some argument \<Rightarrow>
         bindE (emitExpression argument) (\<lambda>a. Inr (''...'' @ a))
     | None \<Rightarrow>
       if shorthand then
         (case key of KeyString k \<Rightarrow> Inr k | KeyExpression k \<Rightarrow> emitExpression k)
       else if computed then
         bindE (case key of KeyString k \<Rightarrow> Inr [] | KeyExpression k \<Rightarrow> emitExpression k) (\<lambda>k.
         bindE (emitExpression v) (\<lambda>x. Inr (''['' @ k @ '']: '' @ x)))
       else if method then
         bindE (case bodyStatementsOf v of
                  None \<Rightarrow> Inr []
                | Some statements \<Rightarrow>
                    bindE (mapE emitStatementInline statements) (\<lambda>stmts.
                      Inr (join '' '' stmts))) (\<lambda>body.
           Inr ((case key of KeyString k \<Rightarrow> k | KeyExpression k \<Rightarrow> objectObject) @ ''('' @
                (case parametersOf v of
                   None \<Rightarrow> []
                 | Some ps \<Rightarrow> join '', '' (map parameterName ps)) @
                '') { '' @ body @ '' }''))
       else
         bindE (case key of KeyString k \<Rightarrow> Inr k | KeyExpression k \<Rightarrow> emitExpression k) (\<lambda>k.
         bindE (emitExpression v) (\<lambda>x. Inr (k @ '': '' @ x))))"
| "emitStatementInline (ReturnStatement argument ln) =
    (case argument of
       Some a \<Rightarrow> bindE (emitExpression a) (\<lambda>v. Inr (''return '' @ v @ '';''))
     | None \<Rightarrow> Inr ''return;'')"
| "emitStatementInline (ExpressionStatement expression ln) =
    bindE (emitExpression expression) (\<lambda>v. Inr (v @ '';''))"
| "emitStatementInline
     (VariableDeclaration (VariableDeclarationNode name varKind typeAnnotation initializer ln)) =
    (case initializer of
       Some i \<Rightarrow>
         bindE (emitExpression i) (\<lambda>v. Inr (varKind @ '' '' @ name @ '' = '' @ v @ '';''))
     | None \<Rightarrow> Inr (varKind @ '' '' @ name @ '';''))"
| "emitStatementInline (BreakStatement label ln) =
    Inr (case label of
           None \<Rightarrow> ''break;''
         | Some l \<Rightarrow> if l = [] then ''break;'' else ''break '' @ l @ '';'')"
| "emitStatementInline (ContinueStatement label ln) =
    Inr (case label of
           None \<Rightarrow> ''continue;''
         | Some l \<Rightarrow> if l = [] then ''continue;'' else ''continue '' @ l @ '';'')"
| "emitStatementInline (ThrowStatement argument ln) =
    bindE (emitExpression argument) (\<lambda>v. Inr (''throw '' @ v @ '';''))"
| "emitStatementInline (IfStatement s) = emitIfStatementInline s"
| "emitStatementInline (BlockStatement b) =
    bindE (mapE emitStatementInline (blockStatements b)) (\<lambda>stmts.
      Inr (''{ '' @ join '' '' stmts @ '' }''))"
| "emitStatementInline (ForOfStatement variable iterable body isAwait ln) =
    bindE (emitStatementInline body) (\<lambda>bodyStr.
    bindE (emitExpression iterable) (\<lambda>it.
      Inr (''for (const '' @ objectObject @ '' of '' @ it @ '') '' @ bodyStr)))"
| "emitStatementInline (ForInStatement variable object body ln) =
    bindE (emitStatementInline body) (\<lambda>bodyStr. Inl undefinedKind)"
| "emitStatementInline s = Inr []"
| "emitIfStatementInline (IfStatementNode condition consequent alternate ln) =
    bindE (emitExpression condition) (\<lambda>c.
    bindE (case asBlockStatement consequent of
             Some b \<Rightarrow>
               bindE (mapE emitStatementInline (blockStatements b)) (\<lambda>stmts.
                 Inr (''{ '' @ join '' '' stmts @ '' }''))
           | None \<Rightarrow> emitStatementInline consequent) (\<lambda>t.
      case alternate of
        None \<Rightarrow> Inr (''if ('' @ c @ '') '' @ t)
      | Some a \<Rightarrow>
          (case asIfStatement a of
             Some s \<Rightarrow>
               bindE (emitIfStatementInline s) (\<lambda>e.
                 Inr (''if ('' @ c @ '') '' @ t @ '' else '' @ e))
           | None \<Rightarrow>
               (case asBlockStatement a of
                  Some b \<Rightarrow>
                    bindE (mapE emitStatementInline (blockStatements b)) (\<lambda>stmts.
                      Inr (''if ('' @ c @ '') '' @ t @ '' else '' @
                           ''{ '' @ join '' '' stmts @ '' }''))
                | None \<Rightarrow>
                    bindE (emitStatementInline a) (\<lambda>e.
                      Inr (''if ('' @ c @ '') '' @ t @ '' else '' @ e))))))"
  by pat_completeness auto

lemma size_list_elem: "x \<in> set xs \<Longrightarrow> f x \<le> size_list f xs"
  by (induction xs) auto

lemma size_list_elem_size: "x \<in> set xs \<Longrightarrow> size x \<le> size_list size xs"
  by (rule size_list_elem)

lemma size_parameter_elem:
  "e \<in> set1_parameter p \<Longrightarrow> p \<in> set ps \<Longrightarrow> size e \<le> size_list (size_parameter size size) ps"
proof -
  assume a: "e \<in> set1_parameter p" "p \<in> set ps"
  have "size e \<le> size_parameter size size p" using a(1) by (cases p) auto
  also have "\<dots> \<le> size_list (size_parameter size size) ps" using a(2) by (rule size_list_elem)
  finally show ?thesis .
qed

lemma size_blockStatements:
  "x \<in> set (blockStatements b) \<Longrightarrow> size x < size_block_statement size b"
  using size_list_elem[of x "blockStatements b" size]
  by (cases b) (simp add: blockStatements_def)

lemma size_spreadArgument: "spreadArgument e = Some a \<Longrightarrow> size a < size e"
  by (cases e) simp_all

lemma size_option_elem: "Some e \<in> set xs \<Longrightarrow> size e < size_list (size_option size) xs"
  using size_list_elem[of "Some e" xs "size_option size"] by simp

lemma size_bodyStatementsOf:
  "bodyStatementsOf v = Some ss \<Longrightarrow> x \<in> set ss \<Longrightarrow> size x < size v"
proof (cases v)
  case (ArrowFunction ps rt body isAsync tps ln)
  assume a: "bodyStatementsOf v = Some ss" "x \<in> set ss"
  then show ?thesis using ArrowFunction size_blockStatements[of x]
    by (cases body) (auto simp: less_Suc_eq trans_less_add1 trans_less_add2)
next
  case (FunctionExpression name ps rt b isAsync isGen tps ln)
  assume a: "bodyStatementsOf v = Some ss" "x \<in> set ss"
  then show ?thesis using FunctionExpression size_blockStatements[of x b] by auto
qed simp_all

lemma size_asBlockStatement:
  "asBlockStatement s = Some b \<Longrightarrow> size_block_statement size b < size s"
  by (cases s) simp_all

lemma size_asBlockStatement_elem:
  "asBlockStatement s = Some b \<Longrightarrow> x \<in> set (blockStatements b) \<Longrightarrow> size x < size s"
  using size_asBlockStatement[of s b] size_blockStatements[of x b] by simp

lemma size_spread_elem:
  "Some e \<in> set xs \<Longrightarrow> spreadArgument e = Some a \<Longrightarrow>
   size a < size_list (size_option size) xs"
  using size_option_elem[of e xs] size_spreadArgument[of e a] by simp

lemma size_asIfStatement: "asIfStatement a = Some s \<Longrightarrow> size_if_statement size size s < size a"
  by (cases a) simp_all

termination emitExpression
  apply (relation "measure (\<lambda>x. case x of
      Inl (Inl e) \<Rightarrow> size e
    | Inl (Inr t) \<Rightarrow> size_template_literal_expr size t
    | Inr (Inl p) \<Rightarrow> size_object_property size p
    | Inr (Inr (Inl s)) \<Rightarrow> size s
    | Inr (Inr (Inr i)) \<Rightarrow> size_if_statement size size i)")
  apply (auto simp: less_Suc_eq_le size_list_elem
      dest: size_parameter_elem size_blockStatements size_spreadArgument size_option_elem
        size_bodyStatementsOf size_asBlockStatement size_asIfStatement)
      apply (auto dest: size_list_elem_size size_spread_elem size_asBlockStatement_elem)
  done

subsection \<open>Statements\<close>

text \<open>
  The emitter's state is the text written so far and the indentation level.  The emitters
  of statements return the new state, or the thrown value.
\<close>

record Emitter =
  outputText :: string
  indentLevel :: nat

definition indent :: "Emitter \<Rightarrow> string" where
  "indent st = concat (replicate (indentLevel st) ''  '')"

definition emitLine :: "string \<Rightarrow> Emitter \<Rightarrow> Emitter" where
  "emitLine content st = st\<lparr>outputText := outputText st @ indent st @ content @ [CHR 0x0A]\<rparr>"

definition appendOutput :: "string \<Rightarrow> Emitter \<Rightarrow> Emitter" where
  "appendOutput content st = st\<lparr>outputText := outputText st @ content\<rparr>"

definition indented :: "Emitter \<Rightarrow> Emitter" where
  "indented st = st\<lparr>indentLevel := indentLevel st + 1\<rparr>"

definition dedented :: "Emitter \<Rightarrow> Emitter" where
  "dedented st = st\<lparr>indentLevel := indentLevel st - 1\<rparr>"

definition isTrimmed :: "char \<Rightarrow> bool" where
  "isTrimmed c = (c \<in> {CHR 0x09, CHR 0x0A, CHR 0x0B, CHR 0x0C, CHR 0x0D, CHR 0x20, CHR 0xA0})"

definition trimEnd :: "string \<Rightarrow> string" where
  "trimEnd s = rev (dropWhile isTrimmed (rev s))"

fun foldE :: "('a \<Rightarrow> 's \<Rightarrow> exn + 's) \<Rightarrow> 'a list \<Rightarrow> 's \<Rightarrow> exn + 's" where
  "foldE f [] st = Inr st"
| "foldE f (x # xs) st = bindE (f x st) (foldE f xs)"

lemma foldE_cong [fundef_cong]:
  "xs = ys \<Longrightarrow> (\<And>x s. x \<in> set ys \<Longrightarrow> f x s = g x s) \<Longrightarrow> foldE f xs st = foldE g ys st"
  by (induction ys arbitrary: xs st) (auto simp: bindE_def split: sum.splits)

definition emitVariableDeclaration ::
  "(expression, type_node) variable_declaration \<Rightarrow> Emitter \<Rightarrow> exn + Emitter" where
  "emitVariableDeclaration decl st =
    (case decl of VariableDeclarationNode name varKind typeAnnotation initializer ln \<Rightarrow>
       (case initializer of
          Some i \<Rightarrow>
            bindE (emitExpression i) (\<lambda>v.
              Inr (emitLine (varKind @ '' '' @ name @ '' = '' @ v @ '';'') st))
        | None \<Rightarrow> Inr (emitLine (varKind @ '' '' @ name @ '';'') st)))"

text \<open>
  The two lines \<^verbatim>\<open>emitEnumDeclaration\<close> writes for a member: the two-way assignment
  \<^verbatim>\<open>N[N["m"] = v] = "m";\<close> of a number and the one-way assignment \<^verbatim>\<open>N["m"] = t;\<close> of
  any other value, each value given as its text.
\<close>

definition twoWay :: "string \<Rightarrow> string \<Rightarrow> string \<Rightarrow> string" where
  "twoWay name memberName v =
    name @ ''['' @ name @ ''['' @ [CHR 0x22] @ memberName @ [CHR 0x22] @ ''] = '' @
    v @ ''] = '' @ [CHR 0x22] @ memberName @ [CHR 0x22] @ '';''"

definition oneWay :: "string \<Rightarrow> string \<Rightarrow> string \<Rightarrow> string" where
  "oneWay name memberName v =
    name @ ''['' @ [CHR 0x22] @ memberName @ [CHR 0x22] @ ''] = '' @ v @ '';''"

text \<open>
  The loop of \<^verbatim>\<open>emitEnumDeclaration\<close> over the memberList, with its counter
  \<^verbatim>\<open>currentValue\<close>.
\<close>

fun emitEnumMembers ::
  "string \<Rightarrow> expression enum_member list \<Rightarrow> int \<Rightarrow> Emitter \<Rightarrow> exn + Emitter" where
  "emitEnumMembers name [] currentValue st = Inr st"
| "emitEnumMembers name (EnumMember memberName initializer # memberList) currentValue st =
    (case initializer of
       Some (NumericLiteral v ln) \<Rightarrow>
         bindE (numberText v) (\<lambda>t.
           emitEnumMembers name memberList (v + 1) (emitLine (twoWay name memberName t) st))
     | Some (StringLiteral v ln) \<Rightarrow>
         emitEnumMembers name memberList currentValue
           (emitLine (oneWay name memberName ([CHR 0x22] @ v @ [CHR 0x22])) st)
     | Some e \<Rightarrow>
         bindE (emitExpression e) (\<lambda>v.
           emitEnumMembers name memberList currentValue (emitLine (oneWay name memberName v) st))
     | None \<Rightarrow>
         bindE (numberText currentValue) (\<lambda>t.
           emitEnumMembers name memberList (currentValue + 1)
             (emitLine (twoWay name memberName t) st)))"

definition emitEnumDeclaration :: "expression enum_declaration \<Rightarrow> Emitter \<Rightarrow> exn + Emitter" where
  "emitEnumDeclaration decl st =
    (case decl of EnumDeclarationNode name memberList isConst ln \<Rightarrow>
       if isConst then Inr (emitLine (''// const enum '' @ name @ '' - inlined'') st)
       else
         bindE (emitEnumMembers name memberList 0
                  (indented (emitLine (''(function ('' @ name @ '') {'')
                     (emitLine (''var '' @ name @ '';'') st)))) (\<lambda>st1.
           Inr (emitLine (''})('' @ name @ '' || ('' @ name @ '' = {}));'') (dedented st1))))"

definition emitReturnStatement :: "expression option \<Rightarrow> Emitter \<Rightarrow> exn + Emitter" where
  "emitReturnStatement argument st =
    (case argument of
       Some a \<Rightarrow> bindE (emitExpression a) (\<lambda>v. Inr (emitLine (''return '' @ v @ '';'') st))
     | None \<Rightarrow> Inr (emitLine ''return;'' st))"

fun importPart :: "import_specifier \<Rightarrow> string list" where
  "importPart (ImportDefaultSpecifier local) = [local]"
| "importPart (ImportNamespaceSpecifier local) = [''* as '' @ local]"
| "importPart (ImportNamedSpecifier imported local isTypeOnly) = []"

fun importNamed :: "import_specifier \<Rightarrow> string list" where
  "importNamed (ImportNamedSpecifier imported local isTypeOnly) =
     [if imported = local then local else imported @ '' as '' @ local]"
| "importNamed s = []"

definition emitImportDeclaration :: "import_specifier list \<Rightarrow> string \<Rightarrow> Emitter \<Rightarrow> Emitter" where
  "emitImportDeclaration specifiers src st =
    (if specifiers = [] then emitLine (''import '' @ [CHR 0x22] @ src @ [CHR 0x22] @ '';'') st
     else
       (let named = concat (map importNamed specifiers);
            parts = concat (map importPart specifiers) @
              (if named \<noteq> [] then [''{ '' @ join '', '' named @ '' }''] else [])
        in emitLine (''import '' @ join '', '' parts @ '' from '' @ [CHR 0x22] @ src @ [CHR 0x22] @
             '';'') st))"

definition exportSpecifierText :: "export_specifier \<Rightarrow> string" where
  "exportSpecifierText s =
    (case s of ExportSpecifier local exported isTypeOnly \<Rightarrow>
       if local = exported then local else local @ '' as '' @ exported)"

definition truthy :: "string option \<Rightarrow> bool" where
  "truthy s = (case s of None \<Rightarrow> False | Some v \<Rightarrow> v \<noteq> [])"

function (sequential) emitStatement :: "statement \<Rightarrow> Emitter \<Rightarrow> exn + Emitter"
  and emitFunctionDeclaration ::
    "(expression, type_node, statement) function_declaration \<Rightarrow> Emitter \<Rightarrow> exn + Emitter"
  and emitClassDeclaration ::
    "(expression, type_node, statement) class_declaration \<Rightarrow> Emitter \<Rightarrow> exn + Emitter"
  and emitClassMember ::
    "(expression, type_node, statement) class_member \<Rightarrow> Emitter \<Rightarrow> exn + Emitter"
  and emitIfStatement :: "(expression, statement) if_statement \<Rightarrow> Emitter \<Rightarrow> exn + Emitter"
where
  "emitStatement (VariableDeclaration decl) st = emitVariableDeclaration decl st"
| "emitStatement (FunctionDeclaration decl) st = emitFunctionDeclaration decl st"
| "emitStatement (InterfaceDeclaration (InterfaceDeclarationNode name memberList ex tps ln)) st =
    Inr (emitLine (''// interface '' @ name @ '' removed'') st)"
| "emitStatement (TypeAliasDeclaration (TypeAliasDeclarationNode name tps t ln)) st =
    Inr (emitLine (''// type '' @ name @ '' removed'') st)"
| "emitStatement (ClassDeclaration decl) st = emitClassDeclaration decl st"
| "emitStatement (EnumDeclaration decl) st = emitEnumDeclaration decl st"
| "emitStatement (ReturnStatement argument ln) st = emitReturnStatement argument st"
| "emitStatement (IfStatement s) st = emitIfStatement s st"
| "emitStatement (WhileStatement condition body ln) st =
    bindE (emitExpression condition) (\<lambda>c.
    bindE (case asBlockStatement body of
             Some b \<Rightarrow>
               foldE emitStatement (blockStatements b)
                 (indented (emitLine (''while ('' @ c @ '') {'') st))
           | None \<Rightarrow> emitStatement body (indented (emitLine (''while ('' @ c @ '') {'') st)))
      (\<lambda>st1. Inr (emitLine ''}'' (dedented st1))))"
| "emitStatement (ForStatement init condition update body ln) st =
    bindE (case init of
             None \<Rightarrow> Inr []
           | Some (ForInitDeclaration
                (VariableDeclarationNode name varKind typeAnnotation initializer l)) \<Rightarrow>
               (case initializer of
                  Some i \<Rightarrow>
                    bindE (emitExpression i) (\<lambda>v. Inr (varKind @ '' '' @ name @ '' = '' @ v))
                | None \<Rightarrow> Inr (varKind @ '' '' @ name))
           | Some (ForInitExpression e) \<Rightarrow> emitExpression e) (\<lambda>i.
    bindE (case condition of None \<Rightarrow> Inr [] | Some e \<Rightarrow> emitExpression e) (\<lambda>c.
    bindE (case update of None \<Rightarrow> Inr [] | Some e \<Rightarrow> emitExpression e) (\<lambda>u.
    bindE (case asBlockStatement body of
             Some b \<Rightarrow>
               foldE emitStatement (blockStatements b)
                 (indented (emitLine (''for ('' @ i @ ''; '' @ c @ ''; '' @ u @ '') {'') st))
           | None \<Rightarrow>
               emitStatement body
                 (indented (emitLine (''for ('' @ i @ ''; '' @ c @ ''; '' @ u @ '') {'') st)))
      (\<lambda>st1. Inr (emitLine ''}'' (dedented st1))))))"
| "emitStatement (ForOfStatement variable iterable body isAwait ln) st =
    bindE (emitExpression iterable) (\<lambda>it.
    bindE (case asBlockStatement body of
             Some b \<Rightarrow>
               foldE emitStatement (blockStatements b)
                 (indented (emitLine
                    ((if isAwait then ''for await'' else ''for'') @ '' ('' @
                     (case variable of
                        ForVariableDeclaration
                          (VariableDeclarationNode name varKind typeAnnotation initializer l) \<Rightarrow>
                          varKind @ '' '' @ name
                      | ForVariableIdentifier name l \<Rightarrow> name) @
                     '' of '' @ it @ '') {'') st))
           | None \<Rightarrow>
               emitStatement body
                 (indented (emitLine
                    ((if isAwait then ''for await'' else ''for'') @ '' ('' @
                     (case variable of
                        ForVariableDeclaration
                          (VariableDeclarationNode name varKind typeAnnotation initializer l) \<Rightarrow>
                          varKind @ '' '' @ name
                      | ForVariableIdentifier name l \<Rightarrow> name) @
                     '' of '' @ it @ '') {'') st)))
      (\<lambda>st1. Inr (emitLine ''}'' (dedented st1))))"
| "emitStatement (ForInStatement variable object body ln) st =
    bindE (emitExpression object) (\<lambda>obj.
    bindE (case asBlockStatement body of
             Some b \<Rightarrow>
               foldE emitStatement (blockStatements b)
                 (indented (emitLine
                    (''for ('' @
                     (case variable of
                        ForVariableDeclaration
                          (VariableDeclarationNode name varKind typeAnnotation initializer l) \<Rightarrow>
                          varKind @ '' '' @ name
                      | ForVariableIdentifier name l \<Rightarrow> name) @
                     '' in '' @ obj @ '') {'') st))
           | None \<Rightarrow>
               emitStatement body
                 (indented (emitLine
                    (''for ('' @
                     (case variable of
                        ForVariableDeclaration
                          (VariableDeclarationNode name varKind typeAnnotation initializer l) \<Rightarrow>
                          varKind @ '' '' @ name
                      | ForVariableIdentifier name l \<Rightarrow> name) @
                     '' in '' @ obj @ '') {'') st)))
      (\<lambda>st1. Inr (emitLine ''}'' (dedented st1))))"
| "emitStatement (DoWhileStatement body condition ln) st =
    bindE (case asBlockStatement body of
             Some b \<Rightarrow> foldE emitStatement (blockStatements b) (indented (emitLine ''do {'' st))
           | None \<Rightarrow> emitStatement body (indented (emitLine ''do {'' st))) (\<lambda>st1.
    bindE (emitExpression condition) (\<lambda>c.
      Inr (emitLine (''} while ('' @ c @ '');'') (dedented st1))))"
| "emitStatement (SwitchStatement discriminant cases ln) st =
    bindE (emitExpression discriminant) (\<lambda>d.
    bindE (foldE (\<lambda>caseClause s.
                   case caseClause of SwitchCase test consequent \<Rightarrow>
                     bindE (case test of
                              Some t \<Rightarrow>
                                bindE (emitExpression t) (\<lambda>v.
                                  Inr (emitLine (''case '' @ v @ '':'') s))
                            | None \<Rightarrow> Inr (emitLine ''default:'' s)) (\<lambda>s1.
                     bindE (foldE emitStatement consequent (indented s1)) (\<lambda>s2.
                       Inr (dedented s2))))
             cases (indented (emitLine (''switch ('' @ d @ '') {'') st)))
      (\<lambda>st1. Inr (emitLine ''}'' (dedented st1))))"
| "emitStatement (BreakStatement label ln) st =
    Inr (emitLine (if truthy label then ''break '' @ the label @ '';'' else ''break;'') st)"
| "emitStatement (ContinueStatement label ln) st =
    Inr (emitLine (if truthy label then ''continue '' @ the label @ '';'' else ''continue;'') st)"
| "emitStatement (ThrowStatement argument ln) st =
    bindE (emitExpression argument) (\<lambda>v. Inr (emitLine (''throw '' @ v @ '';'') st))"
| "emitStatement (TryStatement block handler finalizer ln) st =
    bindE (foldE emitStatement (blockStatements block) (indented (emitLine ''try {'' st)))
      (\<lambda>st1.
    bindE (case handler of
             Some (CatchClause param body) \<Rightarrow>
               bindE (foldE emitStatement (blockStatements body)
                        (indented (emitLine
                           (''} catch ('' @
                            (case param of None \<Rightarrow> [] | Some p \<Rightarrow> parameterName p) @ '') {'')
                           (dedented st1))))
                 (\<lambda>s. Inr (dedented s))
           | None \<Rightarrow> Inr (dedented st1)) (\<lambda>st2.
    bindE (case finalizer of
             Some f \<Rightarrow>
               bindE (foldE emitStatement (blockStatements f)
                        (indented (emitLine ''} finally {'' st2)))
                 (\<lambda>s. Inr (dedented s))
           | None \<Rightarrow> Inr st2) (\<lambda>st3.
      Inr (emitLine ''}'' st3))))"
| "emitStatement (ExpressionStatement expression ln) st =
    bindE (emitExpression expression) (\<lambda>v. Inr (emitLine (v @ '';'') st))"
| "emitStatement (BlockStatement b) st =
    bindE (foldE emitStatement (blockStatements b) (indented (emitLine ''{'' st))) (\<lambda>st1.
      Inr (emitLine ''}'' (dedented st1)))"
| "emitStatement (ImportDeclaration specifiers src isTypeOnly ln) st =
    Inr (emitImportDeclaration specifiers src st)"
| "emitStatement (ExportDeclaration declaration specifiers src isDefault isTypeOnly ln) st =
    (case (if isDefault then declaration else None) of
       Some (FunctionDeclaration d) \<Rightarrow>
         emitFunctionDeclaration d (appendOutput (indent st @ ''export default '') st)
     | Some (ClassDeclaration d) \<Rightarrow>
         emitClassDeclaration d (appendOutput (indent st @ ''export default '') st)
     | Some (ExpressionStatement e l) \<Rightarrow>
         bindE (emitExpression e) (\<lambda>v. Inr (emitLine (''export default '' @ v @ '';'') st))
     | _ \<Rightarrow>
       if (case specifiers of None \<Rightarrow> False | Some ss \<Rightarrow> ss \<noteq> []) then
         (if truthy src then
            Inr (emitLine (''export { '' @ join '', '' (map exportSpecifierText (the specifiers)) @
                   '' } from '' @ [CHR 0x22] @ the src @ [CHR 0x22] @ '';'') st)
          else
            Inr (emitLine (''export { '' @ join '', '' (map exportSpecifierText (the specifiers)) @
                   '' };'') st))
       else if truthy src \<and> specifiers = None then
         Inr (emitLine (''export * from '' @ [CHR 0x22] @ the src @ [CHR 0x22] @ '';'') st)
       else
         (case declaration of
            None \<Rightarrow> Inr st
          | Some (FunctionDeclaration d) \<Rightarrow>
              bindE (emitFunctionDeclaration d
                       ((appendOutput (indent st @ ''export '') st)\<lparr>indentLevel := 0\<rparr>))
                (\<lambda>s. Inr (s\<lparr>indentLevel := indentLevel st\<rparr>))
          | Some (ClassDeclaration d) \<Rightarrow>
              bindE (emitClassDeclaration d
                       ((appendOutput (indent st @ ''export '') st)\<lparr>indentLevel := 0\<rparr>))
                (\<lambda>s. Inr (s\<lparr>indentLevel := indentLevel st\<rparr>))
          | Some (VariableDeclaration
                (VariableDeclarationNode name varKind typeAnnotation initializer l)) \<Rightarrow>
              (case initializer of
                 Some i \<Rightarrow>
                   bindE (emitExpression i) (\<lambda>v.
                     Inr (appendOutput (indent st @ ''export '' @ varKind @ '' '' @ name @ '' = '' @ v @
                            '';'' @ [CHR 0x0A]) st))
               | None \<Rightarrow>
                   Inr (appendOutput (indent st @ ''export '' @ varKind @ '' '' @ name @
                          '';'' @ [CHR 0x0A]) st))
          | Some (InterfaceDeclaration (InterfaceDeclarationNode name memberList ex tps l)) \<Rightarrow>
              Inr (appendOutput (indent st @ ''export '' @ ''// interface '' @ name @ '' removed'' @
                     [CHR 0x0A]) st)
          | Some (TypeAliasDeclaration (TypeAliasDeclarationNode name tps t l)) \<Rightarrow>
              Inr (appendOutput (indent st @ ''export '' @ ''// type '' @ name @ '' removed'' @
                     [CHR 0x0A]) st)
          | Some (EnumDeclaration d) \<Rightarrow> emitEnumDeclaration d (appendOutput (indent st @ ''export '') st)
          | Some other \<Rightarrow> Inr (appendOutput (indent st @ ''export '') st)))"
| "emitStatement (EmptyStatement ln) st = Inr (emitLine '';'' st)"
| "emitFunctionDeclaration
     (FunctionDeclarationNode name parameters returnTypeNode body isAsync isGenerator tps ln) st =
    bindE (mapE (emitParameter emitExpression) parameters) (\<lambda>ps.
    bindE (foldE emitStatement (blockStatements body)
             (indented (emitLine
                ((if isAsync then ''async '' else []) @ ''function'' @
                 (if isGenerator then ''*'' else []) @ '' '' @ name @
                 ''('' @ join '', '' ps @ '') {'') st)))
      (\<lambda>st1. Inr (emitLine ''}'' (dedented st1))))"
| "emitClassDeclaration
     (ClassDeclarationNode name superClassExpr impls tps memberList decorators isAbstract ln) st =
    bindE (case superClassExpr of
             Some sc \<Rightarrow> bindE (emitExpression sc) (\<lambda>v. Inr ('' extends '' @ v))
           | None \<Rightarrow> Inr []) (\<lambda>ext.
    bindE (foldE emitClassMember memberList
             (indented (emitLine
                ((if isAbstract then ''/* abstract */ '' else []) @ ''class '' @ name @ ext @
                 '' {'') st)))
      (\<lambda>st1. Inr (emitLine ''}'' (dedented st1))))"
| "emitClassMember
     (PropertyDeclaration name typeAnnotation initializer accessibility isStatic isReadonly
        isAbstract decorators ln) st =
    (case initializer of
       Some i \<Rightarrow>
         bindE (emitExpression i) (\<lambda>v.
           Inr (emitLine ((if isStatic then ''static '' else []) @ name @ '' = '' @ v @ '';'') st))
     | None \<Rightarrow> Inr (emitLine ((if isStatic then ''static '' else []) @ name @ '';'') st))"
| "emitClassMember
     (MethodDeclaration name parameters returnTypeNode body accessibility isStatic isAbstract
        isAsync tps decorators ln) st =
    bindE (mapE (emitParameter emitExpression) parameters) (\<lambda>ps.
      case body of
        Some b \<Rightarrow>
          bindE (foldE emitStatement (blockStatements b)
                   (indented (emitLine
                      ((if isStatic then ''static '' else []) @
                       (if isAsync then ''async '' else []) @ name @
                       ''('' @ join '', '' ps @ '') {'') st)))
            (\<lambda>st1. Inr (emitLine ''}'' (dedented st1)))
      | None \<Rightarrow>
          Inr (emitLine (''// abstract '' @ name @ ''('' @ join '', '' ps @ '')'') st))"
| "emitClassMember (ConstructorDeclaration parameters body accessibility ln) st =
    bindE (mapE (emitParameter emitExpression) parameters) (\<lambda>ps.
    bindE (foldE emitStatement (blockStatements body)
             (indented (emitLine (''constructor('' @ join '', '' ps @ '') {'') st)))
      (\<lambda>st1. Inr (emitLine ''}'' (dedented st1))))"
| "emitClassMember (GetterDeclaration name returnTypeNode body accessibility isStatic ln) st =
    bindE (foldE emitStatement (blockStatements body)
             (indented (emitLine
                ((if isStatic then ''static '' else []) @ ''get '' @ name @ ''() {'') st)))
      (\<lambda>st1. Inr (emitLine ''}'' (dedented st1)))"
| "emitClassMember (SetterDeclaration name parameter body accessibility isStatic ln) st =
    bindE (foldE emitStatement (blockStatements body)
             (indented (emitLine
                ((if isStatic then ''static '' else []) @ ''set '' @ name @ ''('' @
                 parameterName parameter @ '') {'') st)))
      (\<lambda>st1. Inr (emitLine ''}'' (dedented st1)))"
| "emitIfStatement (IfStatementNode condition consequent alternate ln) st =
    bindE (emitExpression condition) (\<lambda>c.
    bindE (case asBlockStatement consequent of
             Some b \<Rightarrow>
               foldE emitStatement (blockStatements b)
                 (indented (emitLine (''if ('' @ c @ '') {'') st))
           | None \<Rightarrow> emitStatement consequent (indented (emitLine (''if ('' @ c @ '') {'') st)))
      (\<lambda>st1.
        case alternate of
          None \<Rightarrow> Inr (emitLine ''}'' (dedented st1))
        | Some a \<Rightarrow>
            (case asIfStatement a of
               Some s \<Rightarrow>
                 emitIfStatement s
                   ((dedented st1)\<lparr>outputText := trimEnd (outputText st1) @ ''} else ''\<rparr>)
             | None \<Rightarrow>
                 bindE (case asBlockStatement a of
                          Some b \<Rightarrow>
                            foldE emitStatement (blockStatements b)
                              (indented (emitLine ''} else {'' (dedented st1)))
                        | None \<Rightarrow>
                            emitStatement a (indented (emitLine ''} else {'' (dedented st1))))
                   (\<lambda>st2. Inr (emitLine ''}'' (dedented st2))))))"
  by pat_completeness auto

definition emit :: "program \<Rightarrow> exn + string" where
  "emit p =
    (case p of Program statements \<Rightarrow>
       bindE (foldE emitStatement statements \<lparr>outputText = [], indentLevel = 0\<rparr>) (\<lambda>st.
         Inr (outputText st)))"

lemma size_switch_case_elem:
  "x \<in> set consequent \<Longrightarrow> SwitchCase test consequent \<in> set cases \<Longrightarrow>
   size x < size_list (size_switch_case size size) cases"
  using size_list_elem[of "SwitchCase test consequent" cases "size_switch_case size size"]
    size_list_elem[of x consequent size]
  by simp

lemma size_class_member_elem:
  "m \<in> set memberList \<Longrightarrow>
   size_class_member size size size m \<le> size_list (size_class_member size size size) memberList"
  by (rule size_list_elem)

termination emitStatement
  apply (relation "measure (\<lambda>x. case x of
      Inl (Inl (s, st)) \<Rightarrow> size s
    | Inl (Inr (d, st)) \<Rightarrow> size_function_declaration size size size d
    | Inr (Inl (d, st)) \<Rightarrow> size_class_declaration size size size d
    | Inr (Inr (Inl (m, st))) \<Rightarrow> size_class_member size size size m
    | Inr (Inr (Inr (i, st))) \<Rightarrow> size_if_statement size size i)")
  apply (auto simp: less_Suc_eq_le size_list_elem
      dest: size_blockStatements size_asBlockStatement size_asIfStatement
        size_asBlockStatement_elem size_switch_case_elem)
    apply (auto split: if_splits dest: size_class_member_elem)
  done

lemma emitter_state_simps [simp]:
  "indentLevel (emitLine t st) = indentLevel st"
  "outputText (emitLine t st) = outputText st @ indent st @ t @ [CHR 0x0A]"
  "indentLevel (indented st) = indentLevel st + 1"
  "outputText (indented st) = outputText st"
  "indentLevel (dedented st) = indentLevel st - 1"
  "outputText (dedented st) = outputText st"
  by (simp_all add: emitLine_def indented_def dedented_def)

lemma concat_replicate_same: "concat (replicate n x) @ x = x @ concat (replicate n x)"
  by (induction n) simp_all

lemma indent_simps [simp]:
  "indent (st\<lparr>outputText := t\<rparr>) = indent st"
  "indent (emitLine c st) = indent st"
  "indent (indented st) = indent st @ ''  ''"
  "indent (dedented (indented st)) = indent st"
  using concat_replicate_same[of "indentLevel st" "''  ''"]
  by (simp_all add: indent_def)

text \<open>
  The enum lowering in the words of the specification.  A member with a numeric-literal
  initializer, or with none, is numeric: its value is the initializer, or one more than
  the previous numeric value, starting from 0.  A member with a string-literal initializer
  is assigned one way; so is a member with any other initializer, whose text is emitted
  as it is.
\<close>

definition followingValue :: "int option \<Rightarrow> int" where
  "followingValue previous = (case previous of None \<Rightarrow> 0 | Some p \<Rightarrow> p + 1)"

definition emittedText :: "expression \<Rightarrow> string" where
  "emittedText e = (case emitExpression e of Inr t \<Rightarrow> t | Inl x \<Rightarrow> [])"

fun loweredMembers :: "string \<Rightarrow> expression enum_member list \<Rightarrow> int option \<Rightarrow> string list" where
  "loweredMembers name [] previous = []"
| "loweredMembers name (EnumMember memberName initializer # memberList) previous =
    (case initializer of
       None \<Rightarrow>
         twoWay name memberName (intToString (followingValue previous)) #
         loweredMembers name memberList (Some (followingValue previous))
     | Some (NumericLiteral v ln) \<Rightarrow>
         twoWay name memberName (intToString v) # loweredMembers name memberList (Some v)
     | Some (StringLiteral s ln) \<Rightarrow>
         oneWay name memberName ([CHR 0x22] @ s @ [CHR 0x22]) #
         loweredMembers name memberList previous
     | Some e \<Rightarrow> oneWay name memberName (emittedText e) # loweredMembers name memberList previous)"

text \<open>
  The members for which this is shown: the numeric values are safe integers, and the
  initializers that are not literals are emitted without error.
\<close>

definition emitsWithoutError :: "expression \<Rightarrow> bool" where
  "emitsWithoutError e = (case emitExpression e of Inr t \<Rightarrow> True | Inl x \<Rightarrow> False)"

fun lowerable :: "expression enum_member list \<Rightarrow> int option \<Rightarrow> bool" where
  "lowerable [] previous = True"
| "lowerable (EnumMember memberName initializer # memberList) previous =
    (case initializer of
       None \<Rightarrow>
         safeInteger (followingValue previous) \<and>
         lowerable memberList (Some (followingValue previous))
     | Some (NumericLiteral v ln) \<Rightarrow> safeInteger v \<and> lowerable memberList (Some v)
     | Some (StringLiteral s ln) \<Rightarrow> lowerable memberList previous
     | Some e \<Rightarrow> emitsWithoutError e \<and> lowerable memberList previous)"

definition linesAt :: "string \<Rightarrow> string list \<Rightarrow> string" where
  "linesAt ind ls = concat (map (\<lambda>l. ind @ l @ [CHR 0x0A]) ls)"

lemma emitEnumMembers_lowered:
  "lowerable memberList previous \<Longrightarrow>
   emitEnumMembers name memberList (followingValue previous) st =
     Inr (st\<lparr>outputText := outputText st @
            linesAt (indent st) (loweredMembers name memberList previous)\<rparr>)"
proof (induction memberList arbitrary: previous st)
  case Nil
  show ?case by (simp add: linesAt_def)
next
  case (Cons m memberList)
  obtain memberName initializer where m: "m = EnumMember memberName initializer" by (cases m)
  note IH = Cons.IH
  show ?case
  proof (cases initializer)
    case None
    have safe: "safeInteger (followingValue previous)"
      and rest: "lowerable memberList (Some (followingValue previous))"
      using Cons.prems m None by simp_all
    have "followingValue previous + 1 = followingValue (Some (followingValue previous))"
      by (simp add: followingValue_def)
    then show ?thesis
      using m None safe
        IH[OF rest, of "emitLine (twoWay name memberName (intToString (followingValue previous))) st"]
      by (simp add: linesAt_def emitLine_def numberText_def)
  next
    case (Some e)
    show ?thesis
    proof (cases e)
      case (NumericLiteral v ln)
      have safe: "safeInteger v" and rest: "lowerable memberList (Some v)"
        using Cons.prems m Some NumericLiteral by simp_all
      have "v + 1 = followingValue (Some v)" by (simp add: followingValue_def)
      then show ?thesis
        using m Some NumericLiteral safe
          IH[OF rest, of "emitLine (twoWay name memberName (intToString v)) st"]
        by (simp add: linesAt_def emitLine_def numberText_def)
    next
      case (StringLiteral s ln)
      have rest: "lowerable memberList previous"
        using Cons.prems m Some StringLiteral by simp
      show ?thesis
        using m Some StringLiteral
          IH[OF rest, of "emitLine (oneWay name memberName ([CHR 0x22] @ s @ [CHR 0x22])) st"]
        by (simp add: linesAt_def emitLine_def)
    qed (use Cons.prems m Some in
         \<open>auto simp del: emitExpression.simps
            simp: linesAt_def emitLine_def emittedText_def emitsWithoutError_def IH[of previous]
            split: sum.splits\<close>)
  qed
qed

section \<open>The checker (\<^verbatim>\<open>checker.ts\<close>)\<close>

subsection \<open>Environments and the checker's state\<close>

text \<open>
  A \<^verbatim>\<open>TypeEnvironment\<close> holds two maps, \<^verbatim>\<open>symbols\<close> and \<^verbatim>\<open>types\<close> (here \<open>typeTable\<close>), and
  a reference to its parent.  The checker only ever writes to the environment that
  \<^verbatim>\<open>this.currentEnv\<close> refers to or, in the registration passes, to \<^verbatim>\<open>this.globalEnv\<close>, and
  every environment it creates has \<^verbatim>\<open>this.currentEnv\<close> or \<^verbatim>\<open>this.globalEnv\<close> as its parent.
  So the chain of parents that starts at \<^verbatim>\<open>this.currentEnv\<close> always ends in the global
  environment, and the state keeps it as the list \<open>currentEnv\<close> of the environments below
  the global one, innermost first: the empty list says that \<^verbatim>\<open>this.currentEnv\<close> is
  \<^verbatim>\<open>this.globalEnv\<close> itself, \<^verbatim>\<open>new TypeEnvironment(this.currentEnv)\<close> puts an empty
  environment in front of the list, and \<^verbatim>\<open>new TypeEnvironment(this.globalEnv)\<close> is the list of
  one empty environment.  An environment that is not current is not written to while
  another one is, so the assignment \<^verbatim>\<open>this.currentEnv = previousEnv\<close> restores the list
  saved before.
\<close>

datatype symbol_kind =
  VariableSymbol | FunctionSymbol | InterfaceSymbol | ClassSymbol | EnumSymbol | TypeAliasSymbol

datatype SymbolEntry =
  SymbolEntry (entryType: ty) (entryKind: symbol_kind) (mutable: "bool option")

record TypeEnvironment =
  symbols :: "(string \<times> SymbolEntry) list"
  typeTable :: "(string \<times> ty) list"

datatype CompilerError = CompilerError (message: string) (errorLine: nat)

record TypeChecker =
  errors :: "CompilerError list"
  globalEnv :: TypeEnvironment
  currentEnv :: "TypeEnvironment list"
  currentReturnType :: "ty option"
  inLoop :: bool

definition newTypeEnvironment :: TypeEnvironment where
  "newTypeEnvironment = \<lparr>symbols = [], typeTable = []\<rparr>"

definition envDefine :: "string \<Rightarrow> SymbolEntry \<Rightarrow> TypeEnvironment \<Rightarrow> TypeEnvironment" where
  "envDefine name entry env = env\<lparr>symbols := AList.update name entry (symbols env)\<rparr>"

definition envDefineType :: "string \<Rightarrow> ty \<Rightarrow> TypeEnvironment \<Rightarrow> TypeEnvironment" where
  "envDefineType name t env = env\<lparr>typeTable := AList.update name t (typeTable env)\<rparr>"

definition hasLocal :: "TypeEnvironment \<Rightarrow> string \<Rightarrow> bool" where
  "hasLocal env name = (map_of (symbols env) name \<noteq> None)"

text \<open>
  \<^verbatim>\<open>lookup\<close> and \<^verbatim>\<open>lookupType\<close> walk the chain of parents; the argument is the chain, the
  global environment last.
\<close>

fun lookup :: "TypeEnvironment list \<Rightarrow> string \<Rightarrow> SymbolEntry option" where
  "lookup [] name = None"
| "lookup (env # parents) name =
    (case map_of (symbols env) name of
       Some entry \<Rightarrow> Some entry
     | None \<Rightarrow> lookup parents name)"

fun lookupType :: "TypeEnvironment list \<Rightarrow> string \<Rightarrow> ty option" where
  "lookupType [] name = None"
| "lookupType (env # parents) name =
    (case map_of (typeTable env) name of
       Some t \<Rightarrow> Some t
     | None \<Rightarrow> lookupType parents name)"

definition currentChain :: "TypeChecker \<Rightarrow> TypeEnvironment list" where
  "currentChain st = currentEnv st @ [globalEnv st]"

definition currentHasLocal :: "TypeChecker \<Rightarrow> string \<Rightarrow> bool" where
  "currentHasLocal st name = hasLocal (hd (currentChain st)) name"

definition currentDefine :: "string \<Rightarrow> SymbolEntry \<Rightarrow> TypeChecker \<Rightarrow> TypeChecker" where
  "currentDefine name entry st =
    (case currentEnv st of
       [] \<Rightarrow> st\<lparr>globalEnv := envDefine name entry (globalEnv st)\<rparr>
     | env # parents \<Rightarrow> st\<lparr>currentEnv := envDefine name entry env # parents\<rparr>)"

definition globalDefine :: "string \<Rightarrow> SymbolEntry \<Rightarrow> TypeChecker \<Rightarrow> TypeChecker" where
  "globalDefine name entry st = st\<lparr>globalEnv := envDefine name entry (globalEnv st)\<rparr>"

definition globalDefineType :: "string \<Rightarrow> ty \<Rightarrow> TypeChecker \<Rightarrow> TypeChecker" where
  "globalDefineType name t st = st\<lparr>globalEnv := envDefineType name t (globalEnv st)\<rparr>"

definition enterScope :: "TypeChecker \<Rightarrow> TypeChecker" where
  "enterScope st = st\<lparr>currentEnv := newTypeEnvironment # currentEnv st\<rparr>"

definition enterGlobalScope :: "TypeChecker \<Rightarrow> TypeChecker" where
  "enterGlobalScope st = st\<lparr>currentEnv := [newTypeEnvironment]\<rparr>"

definition addError :: "string \<Rightarrow> nat \<Rightarrow> TypeChecker \<Rightarrow> TypeChecker" where
  "addError msg ln st = st\<lparr>errors := errors st @ [CompilerError msg ln]\<rparr>"

definition variableEntry :: "ty \<Rightarrow> SymbolEntry" where
  "variableEntry t = SymbolEntry t VariableSymbol None"

text \<open>The types and the environment of \<^verbatim>\<open>registerBuiltins\<close>.\<close>

definition logFn :: ty where
  "logFn = FunctionType (Function [Param ''...args'' AnyType True] (PrimitiveType PVoid) None)"

definition consoleType :: ty where
  "consoleType = InterfaceType (Interface ''Console''
     [(''log'', MemberValue logFn False False),
      (''error'', MemberValue logFn False False),
      (''warn'', MemberValue logFn False False),
      (''info'', MemberValue logFn False False),
      (''debug'', MemberValue logFn False False)] None)"

definition registerBuiltins :: "TypeEnvironment \<Rightarrow> TypeEnvironment" where
  "registerBuiltins env =
    envDefine ''Error'' (SymbolEntry AnyType ClassSymbol None)
      (envDefineType ''Promise'' AnyType
        (envDefine ''JSON'' (variableEntry AnyType)
          (envDefine ''Math'' (variableEntry AnyType)
            (envDefine ''Object'' (variableEntry AnyType)
              (envDefine ''Array'' (variableEntry AnyType)
                (envDefine ''console'' (variableEntry consoleType) env))))))"

definition newTypeChecker :: TypeChecker where
  "newTypeChecker =
    \<lparr>errors = [], globalEnv = registerBuiltins newTypeEnvironment, currentEnv = [],
     currentReturnType = None, inLoop = False\<rparr>"

subsection \<open>Printing types\<close>

definition primName :: "prim \<Rightarrow> string" where
  "primName p = (case p of
     PNumber \<Rightarrow> ''number'' | PString \<Rightarrow> ''string'' | PBoolean \<Rightarrow> ''boolean''
   | PVoid \<Rightarrow> ''void'' | PNull \<Rightarrow> ''null'' | PUndefined \<Rightarrow> ''undefined''
   | PSymbol \<Rightarrow> ''symbol'' | PBigint \<Rightarrow> ''bigint'')"

definition scalarToString :: "scalar \<Rightarrow> string" where
  "scalarToString v = (case v of
     StringValue s \<Rightarrow> [CHR 0x22] @ s @ [CHR 0x22]
   | NumberValue n \<Rightarrow> intToString n
   | BooleanValue b \<Rightarrow> booleanToString b
   | NullValue \<Rightarrow> ''null'')"

lemma size_params_mem: "p \<in> set (params f) \<Longrightarrow> size (param_type p) < size f"
proof -
  assume "p \<in> set (params f)"
  then obtain i where "i < length (params f)" "params f ! i = p" by (auto simp: in_set_conv_nth)
  then show ?thesis using size_params[of i f] by simp
qed

function (sequential) typeToString :: "ty \<Rightarrow> string" where
  "typeToString (PrimitiveType p) = primName p"
| "typeToString AnyType = ''any''"
| "typeToString UnknownType = ''unknown''"
| "typeToString NeverType = ''never''"
| "typeToString (LiteralTypeValue v) = scalarToString v"
| "typeToString (ArrayTypeValue t) = typeToString t @ ''[]''"
| "typeToString (TupleTypeValue ts) = ''['' @ join '', '' (map typeToString ts) @ '']''"
| "typeToString (UnionTypeValue ts) = join '' | '' (map typeToString ts)"
| "typeToString (IntersectionTypeValue ts) = join '' & '' (map typeToString ts)"
| "typeToString (FunctionType f) =
    ''('' @ join '', '' (map (\<lambda>p. param_name p @ '': '' @ typeToString (param_type p)) (params f)) @
    '') => '' @ typeToString (returnType f)"
| "typeToString (InterfaceType i) = interface_name i"
| "typeToString (ClassType c) = class_name c"
| "typeToString (EnumType e) = enum_name e"
| "typeToString t = ''unknown''"
  by pat_completeness auto

termination typeToString
  by (relation "measure size")
     (auto simp: less_Suc_eq_le size_list_elem_size dest: size_params_mem
        intro: less_imp_le[OF size_returnType] less_imp_le)

text \<open>\<^verbatim>\<open>deduplicateTypes\<close>, with the set \<^verbatim>\<open>seen\<close> as the list of the keys seen.\<close>

fun deduplicateLoop :: "ty list \<Rightarrow> string list \<Rightarrow> ty list \<Rightarrow> ty list" where
  "deduplicateLoop [] seen result = result"
| "deduplicateLoop (t # ts) seen result =
    (if typeToString t \<notin> set seen
     then deduplicateLoop ts (typeToString t # seen) (result @ [t])
     else deduplicateLoop ts seen result)"

definition deduplicateTypes :: "ty list \<Rightarrow> ty list" where
  "deduplicateTypes ts = deduplicateLoop ts [] []"

subsection \<open>Resolving type nodes\<close>

text \<open>
  A method of the checker that returns a value and may add diagnostics is a function from
  the state to the value and the new state.  \<open>mapS\<close> is \<^verbatim>\<open>Array.map\<close> with such a callback.
\<close>

fun mapS :: "('a \<Rightarrow> 's \<Rightarrow> 'b \<times> 's) \<Rightarrow> 'a list \<Rightarrow> 's \<Rightarrow> 'b list \<times> 's" where
  "mapS f [] st = ([], st)"
| "mapS f (x # xs) st =
    (case f x st of (y, st1) \<Rightarrow> (case mapS f xs st1 of (ys, st2) \<Rightarrow> (y # ys, st2)))"

lemma mapS_cong [fundef_cong]:
  "xs = ys \<Longrightarrow> st = st' \<Longrightarrow> (\<And>x s. x \<in> set ys \<Longrightarrow> f x s = g x s) \<Longrightarrow>
   mapS f xs st = mapS g ys st'"
  by (induction ys arbitrary: xs st st') (auto split: prod.splits)

definition quoted :: "string \<Rightarrow> string" where
  "quoted s = [CHR 0x27] @ s @ [CHR 0x27]"

text \<open>
  The object \<^verbatim>\<open>{ name: p.name, type: ..., optional: p.optional }\<close> that five methods build
  from a parameter.
\<close>

definition resolveParameter ::
  "(type_node \<Rightarrow> TypeChecker \<Rightarrow> ty \<times> TypeChecker) \<Rightarrow> (expression, type_node) parameter \<Rightarrow>
   TypeChecker \<Rightarrow> param \<times> TypeChecker" where
  "resolveParameter resolve p st =
    (case p of Parameter name typeAnnotation optional defaultValue rest \<Rightarrow>
       (case typeAnnotation of
          Some t \<Rightarrow> (case resolve t st of (r, st1) \<Rightarrow> (Param name r optional, st1))
        | None \<Rightarrow> (Param name AnyType optional, st)))"

lemma resolveParameter_cong [fundef_cong]:
  "p = q \<Longrightarrow> st = st' \<Longrightarrow> (\<And>t s. t \<in> set2_parameter q \<Longrightarrow> f t s = g t s) \<Longrightarrow>
   resolveParameter f p st = resolveParameter g q st'"
  by (cases q) (auto simp: resolveParameter_def split: option.splits)

definition typeMemberName :: "'t type_member \<Rightarrow> string option" where
  "typeMemberName m = (case m of TypeMember name typeAnnotation optional ro isIndex indexType \<Rightarrow> name)"

definition typeMemberAnnotation :: "'t type_member \<Rightarrow> 't" where
  "typeMemberAnnotation m =
    (case m of TypeMember name typeAnnotation optional ro isIndex indexType \<Rightarrow> typeAnnotation)"

definition typeMemberOptional :: "'t type_member \<Rightarrow> bool" where
  "typeMemberOptional m =
    (case m of TypeMember name typeAnnotation optional ro isIndex indexType \<Rightarrow> optional)"

text \<open>The names that \<^verbatim>\<open>resolveTypeNode\<close> knows without looking them up.\<close>

definition builtinTypes :: "(string \<times> ty) list" where
  "builtinTypes =
    [(''number'', PrimitiveType PNumber), (''string'', PrimitiveType PString),
     (''boolean'', PrimitiveType PBoolean), (''void'', PrimitiveType PVoid),
     (''null'', PrimitiveType PNull), (''undefined'', PrimitiveType PUndefined),
     (''any'', AnyType), (''unknown'', UnknownType), (''never'', NeverType),
     (''object'', AnyType), (''symbol'', PrimitiveType PSymbol),
     (''bigint'', PrimitiveType PBigint)]"

function (sequential) resolveTypeNode :: "type_node \<Rightarrow> TypeChecker \<Rightarrow> ty \<times> TypeChecker" where
  "resolveTypeNode (TypeReference typeName typeArguments ln) st =
    (case map_of builtinTypes typeName of
       Some t \<Rightarrow> (t, st)
     | None \<Rightarrow>
         (case lookupType (currentChain st) typeName of
            Some typeEntry \<Rightarrow> (typeEntry, st)
          | None \<Rightarrow>
              (case lookup (currentChain st) typeName of
                 Some entry \<Rightarrow> (entryType entry, st)
               | None \<Rightarrow>
                   (AnyType, addError (''Cannot find name '' @ quoted typeName) ln st))))"
| "resolveTypeNode (ArrayType elementTypeNode ln) st =
    (case resolveTypeNode elementTypeNode st of (t, st1) \<Rightarrow> (ArrayTypeValue t, st1))"
| "resolveTypeNode (TupleType nodes ln) st =
    (case mapS resolveTypeNode nodes st of (ts, st1) \<Rightarrow> (TupleTypeValue ts, st1))"
| "resolveTypeNode (UnionType nodes ln) st =
    (case mapS resolveTypeNode nodes st of (ts, st1) \<Rightarrow> (UnionTypeValue ts, st1))"
| "resolveTypeNode (IntersectionType nodes ln) st =
    (case mapS resolveTypeNode nodes st of (ts, st1) \<Rightarrow> (IntersectionTypeValue ts, st1))"
| "resolveTypeNode (FunctionTypeNode parameters returnTypeNode typeParams ln) st =
    (case mapS (resolveParameter resolveTypeNode) parameters st of (ps, st1) \<Rightarrow>
       (case resolveTypeNode returnTypeNode st1 of (r, st2) \<Rightarrow>
          (FunctionType (Function ps r None), st2)))"
| "resolveTypeNode (ObjectTypeNode memberList ln) st =
    (case fold (\<lambda>m acc.
             case typeMemberName m of
               None \<Rightarrow> acc
             | Some name \<Rightarrow>
                 if name = [] then acc
                 else (case resolveTypeNode (typeMemberAnnotation m) (snd acc) of (t, st1) \<Rightarrow>
                         (AList.update name (MemberValue t (typeMemberOptional m) False) (fst acc),
                          st1)))
           memberList ([], st) of
       (ms, st1) \<Rightarrow> (InterfaceType (Interface ''<anonymous>'' ms None), st1))"
| "resolveTypeNode (LiteralType v ln) st = (LiteralTypeValue v, st)"
| "resolveTypeNode (ParenthesizedType node ln) st = resolveTypeNode node st"
| "resolveTypeNode node st = (AnyType, st)"
  by pat_completeness auto

lemma size_parameter_type:
  "t \<in> set2_parameter p \<Longrightarrow> p \<in> set ps \<Longrightarrow> size t \<le> size_list (size_parameter f size) ps"
proof -
  assume a: "t \<in> set2_parameter p" "p \<in> set ps"
  have "size t \<le> size_parameter f size p" using a(1) by (cases p) auto
  also have "\<dots> \<le> size_list (size_parameter f size) ps" using a(2) by (rule size_list_elem)
  finally show ?thesis .
qed

lemma size_memberTypeAnnotation:
  "m \<in> set ms \<Longrightarrow> size (typeMemberAnnotation m) \<le> size_list (size_type_member size) ms"
proof -
  assume a: "m \<in> set ms"
  have "size (typeMemberAnnotation m) \<le> size_type_member size m"
    by (cases m) (simp add: typeMemberAnnotation_def)
  also have "\<dots> \<le> size_list (size_type_member size) ms" using a by (rule size_list_elem)
  finally show ?thesis .
qed

termination resolveTypeNode
  by (relation "measure (\<lambda>(node, st). size node)")
     (auto simp: less_Suc_eq_le size_list_elem_size size_memberTypeAnnotation
        dest!: size_parameter_type[where f = size])

subsection \<open>The registration passes\<close>

definition registerTypeAlias :: "type_node type_alias_declaration \<Rightarrow> TypeChecker \<Rightarrow> TypeChecker" where
  "registerTypeAlias decl st =
    (case decl of TypeAliasDeclarationNode name tps node ln \<Rightarrow>
       (case resolveTypeNode node st of (t, st1) \<Rightarrow> globalDefineType name t st1))"

text \<open>
  The loop of \<^verbatim>\<open>registerEnumType\<close>: the map of the members so far and \<^verbatim>\<open>currentValue\<close>.
\<close>

fun enumMemberValues ::
  "expression enum_member list \<Rightarrow> (string \<times> enum_value) list \<Rightarrow> int \<Rightarrow>
   (string \<times> enum_value) list" where
  "enumMemberValues [] ms currentValue = ms"
| "enumMemberValues (EnumMember memberName initializer # rest) ms currentValue =
    (case initializer of
       Some (NumericLiteral v ln) \<Rightarrow>
         enumMemberValues rest (AList.update memberName (EnumNumber v) ms) (v + 1)
     | Some (StringLiteral v ln) \<Rightarrow>
         enumMemberValues rest (AList.update memberName (EnumString v) ms) currentValue
     | Some e \<Rightarrow> enumMemberValues rest ms currentValue
     | None \<Rightarrow>
         enumMemberValues rest (AList.update memberName (EnumNumber currentValue) ms)
           (currentValue + 1))"

definition registerEnumType :: "expression enum_declaration \<Rightarrow> TypeChecker \<Rightarrow> TypeChecker" where
  "registerEnumType decl st =
    (case decl of EnumDeclarationNode name memberList isConst ln \<Rightarrow>
       (let enumType = EnumType (Enum name (enumMemberValues memberList [] 0))
        in globalDefineType name enumType
             (globalDefine name (SymbolEntry enumType EnumSymbol None) st)))"

definition registerInterfaceType ::
  "type_node interface_declaration \<Rightarrow> TypeChecker \<Rightarrow> TypeChecker" where
  "registerInterfaceType decl st =
    (case decl of InterfaceDeclarationNode name memberList ex tps ln \<Rightarrow>
       (case fold (\<lambda>m acc.
               case m of InterfaceMember memberName typeAnnotation optional ro \<Rightarrow>
                 (case resolveTypeNode typeAnnotation (snd acc) of (memberType, st1) \<Rightarrow>
                    (AList.update memberName (MemberValue memberType optional ro) (fst acc),
                     st1)))
             memberList ([], st) of
          (ms, st1) \<Rightarrow>
            (let interfaceType = InterfaceType (Interface name ms None)
             in globalDefineType name interfaceType
                  (globalDefine name (SymbolEntry interfaceType InterfaceSymbol None) st1))))"

text \<open>
  \<^verbatim>\<open>registerClassType\<close>.  The two maps start as copies of the maps of the superclass, when
  the superclass is an identifier bound to a class type; a method's parameters are
  recorded without the field \<^verbatim>\<open>optional\<close>.
\<close>

definition copyMap :: "('k \<times> 'v) list \<Rightarrow> ('k \<times> 'v) list" where
  "copyMap m = fold (\<lambda>(k, v) acc. AList.update k v acc) m []"

definition inheritedMembers ::
  "expression option \<Rightarrow> TypeChecker \<Rightarrow>
   (string \<times> class_member_value) list \<times> (string \<times> ty) list" where
  "inheritedMembers superClassExpr st =
    (case superClassExpr of
       Some (Identifier name ln) \<Rightarrow>
         (case lookup [globalEnv st] name of
            Some superEntry \<Rightarrow>
              if kind (entryType superEntry) = KClass
              then (copyMap (class_members (asClassType (entryType superEntry))),
                    copyMap (staticMembers (asClassType (entryType superEntry))))
              else ([], [])
          | None \<Rightarrow> ([], []))
     | _ \<Rightarrow> ([], []))"

definition withoutOptional :: "param \<Rightarrow> param" where
  "withoutOptional p = Param (param_name p) (param_type p) False"

definition resolveOptional :: "type_node option \<Rightarrow> ty \<Rightarrow> TypeChecker \<Rightarrow> ty \<times> TypeChecker" where
  "resolveOptional node fallback st =
    (case node of Some n \<Rightarrow> resolveTypeNode n st | None \<Rightarrow> (fallback, st))"

fun registerClassMember ::
  "(expression, type_node, statement) class_member \<Rightarrow>
   ((string \<times> class_member_value) list \<times> (string \<times> ty) list) \<times> TypeChecker \<Rightarrow>
   ((string \<times> class_member_value) list \<times> (string \<times> ty) list) \<times> TypeChecker" where
  "registerClassMember
     (PropertyDeclaration name typeAnnotation initializer accessibility isStatic isReadonly
        isAbstract decorators ln) ((ms, statics), st) =
    (case resolveOptional typeAnnotation AnyType st of (propType, st1) \<Rightarrow>
       if isStatic then ((ms, AList.update name propType statics), st1)
       else ((AList.update name (ClassMemberValue propType accessibility isStatic) ms, statics),
             st1))"
| "registerClassMember
     (MethodDeclaration name parameters returnTypeNode body accessibility isStatic isAbstract
        isAsync tps decorators ln) ((ms, statics), st) =
    (case mapS (resolveParameter resolveTypeNode) parameters st of (ps, st1) \<Rightarrow>
       (case resolveOptional returnTypeNode (PrimitiveType PVoid) st1 of (r, st2) \<Rightarrow>
          (let methodType = FunctionType (Function (map withoutOptional ps) r None)
           in if isStatic then ((ms, AList.update name methodType statics), st2)
              else ((AList.update name (ClassMemberValue methodType accessibility isStatic) ms,
                     statics), st2))))"
| "registerClassMember m acc = acc"

definition registerClassType ::
  "(expression, type_node, statement) class_declaration \<Rightarrow> TypeChecker \<Rightarrow> TypeChecker" where
  "registerClassType decl st =
    (case decl of
       ClassDeclarationNode name superClassExpr impls tps memberList decorators isAbstract ln \<Rightarrow>
         (case fold registerClassMember memberList (inheritedMembers superClassExpr st, st) of
            ((ms, statics), st1) \<Rightarrow>
              (let classType = ClassType (Class name ms statics None None)
               in globalDefineType name classType
                    (globalDefine name (SymbolEntry classType ClassSymbol None) st1))))"

definition registerFunctionType ::
  "(expression, type_node, statement) function_declaration \<Rightarrow> TypeChecker \<Rightarrow> TypeChecker" where
  "registerFunctionType decl st =
    (case decl of
       FunctionDeclarationNode name parameters returnTypeNode body isAsync isGenerator tps ln \<Rightarrow>
         (case mapS (resolveParameter resolveTypeNode) parameters st of (ps, st1) \<Rightarrow>
            (case resolveOptional returnTypeNode (PrimitiveType PVoid) st1 of (r, st2) \<Rightarrow>
               globalDefine name
                 (SymbolEntry (FunctionType (Function ps r None)) FunctionSymbol None) st2)))"

subsection \<open>Checking expressions and statements\<close>

text \<open>
  The parts of \<^verbatim>\<open>checkBinaryExpression\<close>, \<^verbatim>\<open>checkUnaryExpression\<close>, \<^verbatim>\<open>checkMemberExpression\<close>
  and \<^verbatim>\<open>checkComputedMemberExpression\<close> that follow the checks of the operands.
\<close>

definition binaryResult :: "string \<Rightarrow> ty \<Rightarrow> ty \<Rightarrow> nat \<Rightarrow> TypeChecker \<Rightarrow> ty \<times> TypeChecker" where
  "binaryResult op leftType rightType ln st =
    (if op \<in> set [''+'', ''-'', ''*'', ''/'', ''%'', ''**''] then
       if op = ''+'' \<and> (kind leftType = KString \<or> kind rightType = KString)
       then (PrimitiveType PString, st)
       else if kind leftType = KNumber \<and> kind rightType = KNumber
       then (PrimitiveType PNumber, st)
       else
         (let st1 = (if kind leftType \<noteq> KNumber \<and> kind leftType \<noteq> KAny
                     then addError (''The left-hand side of an arithmetic operation must be of type '' @
                            quoted ''number'') ln st
                     else st);
              st2 = (if kind rightType \<noteq> KNumber \<and> kind rightType \<noteq> KAny
                     then addError (''The right-hand side of an arithmetic operation must be of type '' @
                            quoted ''number'') ln st1
                     else st1)
          in (PrimitiveType PNumber, st2))
     else if op \<in> set [''=='', ''==='', ''!='', ''!=='', ''<'', ''>'', ''<='', ''>='']
     then (PrimitiveType PBoolean, st)
     else if op \<in> set [''&'', ''|'', ''^'', ''<<'', ''>>'', ''>>>'']
     then (PrimitiveType PNumber, st)
     else if op = ''instanceof'' \<or> op = ''in'' then (PrimitiveType PBoolean, st)
     else (AnyType, st))"

definition unaryResult :: "string \<Rightarrow> ty \<Rightarrow> nat \<Rightarrow> TypeChecker \<Rightarrow> ty \<times> TypeChecker" where
  "unaryResult op operandType ln st =
    (if op = ''-'' \<or> op = ''+'' \<or> op = ''~'' then
       (PrimitiveType PNumber,
        if kind operandType \<noteq> KNumber \<and> kind operandType \<noteq> KAny
        then addError (''Unary '' @ quoted op @ '' requires a number operand'') ln st
        else st)
     else if op = ''!'' then (PrimitiveType PBoolean, st)
     else if op = ''typeof'' then (PrimitiveType PString, st)
     else if op = ''delete'' then (PrimitiveType PBoolean, st)
     else (AnyType, st))"

definition arrayMethods :: "string list" where
  "arrayMethods =
    [''push'', ''pop'', ''shift'', ''unshift'', ''slice'', ''splice'', ''map'', ''filter'',
     ''reduce'', ''forEach'', ''find'', ''findIndex'', ''includes'', ''indexOf'', ''join'',
     ''concat'', ''reverse'', ''sort'']"

definition stringMethods :: "string list" where
  "stringMethods =
    [''length'', ''charAt'', ''charCodeAt'', ''concat'', ''includes'', ''indexOf'',
     ''lastIndexOf'', ''match'', ''replace'', ''slice'', ''split'', ''substring'',
     ''toLowerCase'', ''toUpperCase'', ''trim'', ''startsWith'', ''endsWith'']"

definition noProperty :: "string \<Rightarrow> string \<Rightarrow> string" where
  "noProperty property typeName =
    ''Property '' @ quoted property @ '' does not exist on type '' @ quoted typeName"

definition memberResult :: "ty \<Rightarrow> string \<Rightarrow> nat \<Rightarrow> TypeChecker \<Rightarrow> ty \<times> TypeChecker" where
  "memberResult objectType property ln st =
    (if kind objectType = KAny then (AnyType, st)
     else if kind objectType = KInterface then
       (case map_of (members (asInterfaceType objectType)) property of
          None \<Rightarrow>
            (AnyType,
             addError (noProperty property (interface_name (asInterfaceType objectType))) ln st)
        | Some member \<Rightarrow> (member_type member, st))
     else if kind objectType = KClass then
       (case map_of (class_members (asClassType objectType)) property of
          None \<Rightarrow>
            (AnyType, addError (noProperty property (class_name (asClassType objectType))) ln st)
        | Some member \<Rightarrow> (cm_type member, st))
     else if kind objectType = KArray \<and> property = ''length'' then (PrimitiveType PNumber, st)
     else if kind objectType = KArray \<and> property \<in> set arrayMethods then (AnyType, st)
     else if kind objectType = KString \<and> property \<in> set stringMethods then
       (if property = ''length'' then PrimitiveType PNumber else AnyType, st)
     else (AnyType, st))"

definition computedMemberResult :: "ty \<Rightarrow> ty \<Rightarrow> nat \<Rightarrow> TypeChecker \<Rightarrow> ty \<times> TypeChecker" where
  "computedMemberResult objectType indexType ln st =
    (if kind objectType = KArray then
       (elementType objectType,
        if kind indexType \<noteq> KNumber \<and> kind indexType \<noteq> KAny
        then addError ''Array index must be a number'' ln st
        else st)
     else if kind objectType = KTuple then (UnionTypeValue (elementTypes objectType), st)
     else (AnyType, st))"

text \<open>
  The argument count check of \<^verbatim>\<open>checkCallExpression\<close>; \<open>k\<close> is \<^verbatim>\<open>expr.arguments.length\<close>.
\<close>

definition startsWith :: "string \<Rightarrow> string \<Rightarrow> bool" where
  "startsWith s p = (take (length p) s = p)"

definition hasRestParam :: "function_type \<Rightarrow> bool" where
  "hasRestParam funcType = list_ex (\<lambda>p. startsWith (param_name p) ''...'') (params funcType)"

definition requiredParams :: "function_type \<Rightarrow> nat" where
  "requiredParams funcType =
    length (filter (\<lambda>p. \<not> param_optional p \<and> \<not> startsWith (param_name p) ''...'')
      (params funcType))"

definition checkArgumentCount :: "function_type \<Rightarrow> nat \<Rightarrow> nat \<Rightarrow> TypeChecker \<Rightarrow> TypeChecker" where
  "checkArgumentCount funcType k ln st =
    (if k < requiredParams funcType then
       addError (''Expected at least '' @ numberToString (requiredParams funcType) @
                 '' arguments, but got '' @ numberToString k) ln st
     else if \<not> hasRestParam funcType \<and> k > length (params funcType) then
       addError (''Expected at most '' @ numberToString (length (params funcType)) @
                 '' arguments, but got '' @ numberToString k) ln st
     else st)"

definition checkCount :: "function_type \<Rightarrow> nat \<Rightarrow> nat" where
  "checkCount funcType k =
    (if hasRestParam funcType then min k (length (params funcType) - 1)
     else min k (length (params funcType)))"

definition notAssignable :: "string \<Rightarrow> ty \<Rightarrow> string \<Rightarrow> ty \<Rightarrow> string" where
  "notAssignable what s target t =
    what @ quoted (typeToString s) @ '' is not assignable to '' @ target @ quoted (typeToString t)"

definition arrayLiteralType :: "ty list \<Rightarrow> ty" where
  "arrayLiteralType ts =
    (if length ts = 1 then ArrayTypeValue (ts ! 0)
     else if length (deduplicateTypes ts) = 1 then ArrayTypeValue (deduplicateTypes ts ! 0)
     else ArrayTypeValue (UnionTypeValue (deduplicateTypes ts)))"

definition defineParams :: "param list \<Rightarrow> TypeChecker \<Rightarrow> TypeChecker" where
  "defineParams ps st =
    fold (\<lambda>p. currentDefine (param_name p) (variableEntry (param_type p))) ps st"

definition propertyValue :: "'e object_property \<Rightarrow> 'e" where
  "propertyValue p = (case p of ObjectProperty key v computed shorthand method \<Rightarrow> v)"

definition propertyKey :: "'e object_property \<Rightarrow> string" where
  "propertyKey p =
    (case p of ObjectProperty key v computed shorthand method \<Rightarrow>
       (case key of KeyString k \<Rightarrow> k | KeyExpression e \<Rightarrow> ''<computed>''))"

definition templateExpressions :: "'e template_literal_expr \<Rightarrow> 'e list" where
  "templateExpressions t = (case t of TemplateLiteral quasis expressions ln \<Rightarrow> expressions)"

definition enumInitializer :: "'e enum_member \<Rightarrow> 'e option" where
  "enumInitializer m = (case m of EnumMember name initializer \<Rightarrow> initializer)"

definition caseTest :: "('e, 's) switch_case \<Rightarrow> 'e option" where
  "caseTest c = (case c of SwitchCase test consequent \<Rightarrow> test)"

definition caseConsequent :: "('e, 's) switch_case \<Rightarrow> 's list" where
  "caseConsequent c = (case c of SwitchCase test consequent \<Rightarrow> consequent)"

text \<open>
  The environment \<^verbatim>\<open>methodEnv\<close> or \<^verbatim>\<open>ctorEnv\<close> that \<^verbatim>\<open>checkClassDeclaration\<close> fills with the
  parameters of a method before it makes that environment current.
\<close>

definition methodParams ::
  "(expression, type_node) parameter list \<Rightarrow> TypeChecker \<Rightarrow> TypeEnvironment \<times> TypeChecker" where
  "methodParams parameters st =
    fold (\<lambda>p acc.
            case resolveParameter resolveTypeNode p (snd acc) of (q, st1) \<Rightarrow>
              (envDefine (param_name q) (variableEntry (param_type q)) (fst acc), st1))
      parameters (newTypeEnvironment, st)"

text \<open>
  The methods that check expressions and statements call one another; they are one
  recursive definition.  The small methods that \<^verbatim>\<open>checkStatement\<close> and \<^verbatim>\<open>checkExpression\<close>
  dispatch to (\<^verbatim>\<open>checkIfStatement\<close>, \<^verbatim>\<open>checkCallExpression\<close>, ...) are the equations for
  the node they check.  Where the source casts a type (\<^verbatim>\<open>entry.type as FunctionType\<close>) the
  model applies the selector (\<open>asFunctionType\<close>).

  The loop over the arguments of a call runs over the indices below \<^verbatim>\<open>checkCount\<close> and
  reads \<^verbatim>\<open>expr.arguments[i]\<close> and \<^verbatim>\<open>funcType.params[i]\<close>; here it runs over the pairs of
  the arguments and that many parameters.  \<^verbatim>\<open>checkReturnStatement\<close> reads
  \<^verbatim>\<open>this.currentReturnType\<close> again after it has checked the argument; the value is the one
  read before (lemma \<open>checker_frame\<close> below), so the branch for \<open>None\<close> there is never
  taken.

  \<open>withState\<close> is \<open>let\<close>; its congruence rule keeps the bound state, which a recursive
  call computes, out of the termination conditions.
\<close>

definition withState :: "'s \<Rightarrow> ('s \<Rightarrow> 'r) \<Rightarrow> 'r" where
  "withState st f = f st"

lemma withState_cong [fundef_cong]:
  "st = st' \<Longrightarrow> (\<And>s. f s = g s) \<Longrightarrow> withState st f = withState st' g"
  by (simp add: withState_def)

function (sequential)
  checkExpression :: "expression \<Rightarrow> TypeChecker \<Rightarrow> ty \<times> TypeChecker"
  and checkStatement :: "statement \<Rightarrow> TypeChecker \<Rightarrow> TypeChecker"
  and checkBlockStatement :: "statement block_statement \<Rightarrow> TypeChecker \<Rightarrow> TypeChecker"
  and checkVariableDeclaration ::
    "(expression, type_node) variable_declaration \<Rightarrow> TypeChecker \<Rightarrow> TypeChecker"
  and checkClassMember ::
    "(expression, type_node, statement) class_member \<Rightarrow> TypeChecker \<Rightarrow> TypeChecker"
where
  "checkExpression (NumericLiteral v ln) st = (PrimitiveType PNumber, st)"
| "checkExpression (StringLiteral v ln) st = (PrimitiveType PString, st)"
| "checkExpression (BooleanLiteral v ln) st = (PrimitiveType PBoolean, st)"
| "checkExpression (NullLiteral ln) st = (PrimitiveType PNull, st)"
| "checkExpression (UndefinedLiteral ln) st = (PrimitiveType PUndefined, st)"
| "checkExpression (Identifier name ln) st =
    (case lookup (currentChain st) name of
       None \<Rightarrow> (AnyType, addError (''Cannot find name '' @ quoted name) ln st)
     | Some entry \<Rightarrow> (entryType entry, st))"
| "checkExpression (BinaryExpression operator left right ln) st =
    (case checkExpression left st of (leftType, st1) \<Rightarrow>
       (case checkExpression right st1 of (rightType, st2) \<Rightarrow>
          binaryResult operator leftType rightType ln st2))"
| "checkExpression (UnaryExpression operator operand isPrefix ln) st =
    (case checkExpression operand st of (operandType, st1) \<Rightarrow>
       unaryResult operator operandType ln st1)"
| "checkExpression (UpdateExpression operator argument isPrefix ln) st =
    (case checkExpression argument st of (argType, st1) \<Rightarrow>
       (PrimitiveType PNumber,
        if kind argType \<noteq> KNumber \<and> kind argType \<noteq> KAny
        then addError ''Update expression requires a number operand'' ln st1
        else st1))"
| "checkExpression (CallExpression callee arguments typeArguments optional ln) st =
    (case checkExpression callee st of (calleeType, st1) \<Rightarrow>
       if kind calleeType = KAny then
         (AnyType, fold (\<lambda>arg s. snd (checkExpression arg s)) arguments st1)
       else if kind calleeType \<noteq> KFunction then
         (AnyType, addError ''This expression is not callable'' ln st1)
       else
         (returnType (asFunctionType calleeType),
          fold (\<lambda>(arg, p) s.
                  case spreadArgument arg of
                    Some argument \<Rightarrow> snd (checkExpression argument s)
                  | None \<Rightarrow>
                      (case checkExpression arg s of (argType, s1) \<Rightarrow>
                         if \<not> isAssignable argType (param_type p)
                         then addError (notAssignable ''Argument of type '' argType
                                ''parameter of type '' (param_type p)) ln s1
                         else s1))
            (zip arguments
               (take (checkCount (asFunctionType calleeType) (length arguments))
                  (params (asFunctionType calleeType))))
            (checkArgumentCount (asFunctionType calleeType) (length arguments) ln st1)))"
| "checkExpression (MemberExpression object property optional ln) st =
    (case checkExpression object st of (objectType, st1) \<Rightarrow>
       memberResult objectType property ln st1)"
| "checkExpression (ComputedMemberExpression object property optional ln) st =
    (case checkExpression object st of (objectType, st1) \<Rightarrow>
       (case checkExpression property st1 of (indexType, st2) \<Rightarrow>
          computedMemberResult objectType indexType ln st2))"
| "checkExpression (ObjectLiteral properties ln) st =
    (case fold (\<lambda>prop acc.
            case spreadArgument (propertyValue prop) of
              Some argument \<Rightarrow> (fst acc, snd (checkExpression argument (snd acc)))
            | None \<Rightarrow>
                (case checkExpression (propertyValue prop) (snd acc) of (valueType, st1) \<Rightarrow>
                   (AList.update (propertyKey prop) (MemberValue valueType False False) (fst acc),
                    st1)))
          properties ([], st) of
       (ms, st1) \<Rightarrow> (InterfaceType (Interface ''<anonymous>'' ms None), st1))"
| "checkExpression (ArrayLiteral elements ln) st =
    (if elements = [] then (ArrayTypeValue AnyType, st)
     else
       (case fold (\<lambda>element acc.
               case element of
                 None \<Rightarrow> acc
               | Some e \<Rightarrow>
                   (case spreadArgument e of
                      Some argument \<Rightarrow>
                        (case checkExpression argument (snd acc) of (spreadType, st1) \<Rightarrow>
                           (fst acc @
                              [if kind spreadType = KArray then elementType spreadType
                               else spreadType], st1))
                    | None \<Rightarrow>
                        (case checkExpression e (snd acc) of (t, st1) \<Rightarrow> (fst acc @ [t], st1))))
             elements ([], st) of
          (ts, st1) \<Rightarrow> (arrayLiteralType ts, st1)))"
| "checkExpression (ArrowFunction parameters returnTypeNode body isAsync typeParams ln) st =
    (case mapS (resolveParameter resolveTypeNode) parameters st of (ps, st1) \<Rightarrow>
       (case (case returnTypeNode of
                Some node \<Rightarrow> resolveTypeNode node (defineParams ps (enterScope st1))
              | None \<Rightarrow>
                  (case body of
                     ArrowBlock b \<Rightarrow> (PrimitiveType PVoid, defineParams ps (enterScope st1))
                   | ArrowExpression e \<Rightarrow> checkExpression e (defineParams ps (enterScope st1)))) of
          (r, st2) \<Rightarrow>
            (FunctionType (Function ps r None),
             (case body of
                ArrowBlock b \<Rightarrow>
                  (checkBlockStatement b (st2\<lparr>currentReturnType := Some r\<rparr>))
                    \<lparr>currentReturnType := currentReturnType st2, currentEnv := currentEnv st1\<rparr>
              | ArrowExpression e \<Rightarrow> st2\<lparr>currentEnv := currentEnv st1\<rparr>))))"
| "checkExpression (FunctionExpression name parameters returnTypeNode body isAsync isGenerator
      typeParams ln) st =
    (case mapS (resolveParameter resolveTypeNode) parameters st of (ps, st1) \<Rightarrow>
       (case resolveOptional returnTypeNode (PrimitiveType PVoid) st1 of (r, st2) \<Rightarrow>
          (FunctionType (Function ps r None),
           (checkBlockStatement body
              ((defineParams ps
                  (case name of
                     None \<Rightarrow> enterScope st2
                   | Some n \<Rightarrow>
                       if n = [] then enterScope st2
                       else currentDefine n
                              (SymbolEntry (FunctionType (Function ps r None)) FunctionSymbol None)
                              (enterScope st2)))
                 \<lparr>currentReturnType := Some r\<rparr>))
             \<lparr>currentReturnType := currentReturnType st2, currentEnv := currentEnv st2\<rparr>)))"
| "checkExpression (ConditionalExpression condition consequent alternate ln) st =
    (case checkExpression condition st of (c, st1) \<Rightarrow>
       (case checkExpression consequent st1 of (consequentType, st2) \<Rightarrow>
          (case checkExpression alternate st2 of (alternateType, st3) \<Rightarrow>
             (UnionTypeValue [consequentType, alternateType], st3))))"
| "checkExpression (AssignmentExpression operator left right ln) st =
    (case checkExpression right st of (rightType, st1) \<Rightarrow>
       (case checkExpression left st1 of (leftType, st2) \<Rightarrow>
          (rightType,
           if \<not> isAssignable rightType leftType
           then addError (notAssignable ''Type '' rightType ''type '' leftType) ln st2
           else st2)))"
| "checkExpression (LogicalExpression operator left right ln) st =
    (case checkExpression left st of (leftType, st1) \<Rightarrow>
       (case checkExpression right st1 of (rightType, st2) \<Rightarrow>
          (UnionTypeValue [leftType, rightType], st2)))"
| "checkExpression (NewExpression callee arguments typeArguments ln) st =
    (case checkExpression callee st of (calleeType, st1) \<Rightarrow>
       (if kind calleeType = KClass then calleeType else AnyType,
        fold (\<lambda>arg s. snd (checkExpression arg s)) arguments st1))"
| "checkExpression (ThisExpression ln) st =
    (case lookup (currentChain st) ''this'' of
       Some thisEntry \<Rightarrow> (entryType thisEntry, st)
     | None \<Rightarrow> (AnyType, st))"
| "checkExpression (SuperExpression ln) st = (AnyType, st)"
| "checkExpression (SpreadElement argument ln) st = checkExpression argument st"
| "checkExpression (AwaitExpression argument ln) st =
    (AnyType, snd (checkExpression argument st))"
| "checkExpression (YieldExpression argument delegate ln) st =
    (case argument of
       Some a \<Rightarrow> checkExpression a st
     | None \<Rightarrow> (PrimitiveType PUndefined, st))"
| "checkExpression (TemplateLiteralExpr t) st =
    (PrimitiveType PString,
     fold (\<lambda>expression s. snd (checkExpression expression s)) (templateExpressions t) st)"
| "checkExpression (TaggedTemplateExpression tag quasi ln) st =
    (AnyType, snd (checkExpression tag st))"
| "checkExpression (TypeAssertion typeAnnotation expression ln) st =
    resolveTypeNode typeAnnotation (snd (checkExpression expression st))"
| "checkExpression (AsExpression expression typeAnnotation ln) st =
    resolveTypeNode typeAnnotation (snd (checkExpression expression st))"
| "checkExpression (NonNullExpression expression ln) st = checkExpression expression st"
| "checkExpression (ClassExpression name superClassExpr impls memberList ln) st = (AnyType, st)"
| "checkExpression (ParenthesizedExpression expression ln) st = checkExpression expression st"
| "checkStatement (VariableDeclaration decl) st = checkVariableDeclaration decl st"
| "checkStatement (FunctionDeclaration
      (FunctionDeclarationNode name parameters returnTypeNode body isAsync isGenerator tps ln)) st =
    (case lookup (currentChain st) name of
       None \<Rightarrow> st
     | Some entry \<Rightarrow>
         if entryKind entry \<noteq> FunctionSymbol then st
         else
           (checkBlockStatement body
              ((defineParams (params (asFunctionType (entryType entry))) (enterGlobalScope st))
                 \<lparr>currentReturnType := Some (returnType (asFunctionType (entryType entry)))\<rparr>))
             \<lparr>currentReturnType := currentReturnType st, currentEnv := currentEnv st\<rparr>)"
| "checkStatement (InterfaceDeclaration decl) st = st"
| "checkStatement (TypeAliasDeclaration decl) st = st"
| "checkStatement (ClassDeclaration
      (ClassDeclarationNode name superClassExpr impls tps memberList decorators isAbstract ln)) st =
    (fold checkClassMember memberList
       (case lookupType [globalEnv st] name of
          Some classType \<Rightarrow> currentDefine ''this'' (variableEntry classType) (enterGlobalScope st)
        | None \<Rightarrow> enterGlobalScope st))
      \<lparr>currentEnv := currentEnv st\<rparr>"
| "checkStatement (EnumDeclaration (EnumDeclarationNode name memberList isConst ln)) st =
    fold (\<lambda>member s.
            case enumInitializer member of
              Some initializer \<Rightarrow> snd (checkExpression initializer s)
            | None \<Rightarrow> s)
      memberList st"
| "checkStatement (ReturnStatement argument ln) st =
    (case currentReturnType st of
       None \<Rightarrow> addError ''Return statement outside of function'' ln st
     | Some expected \<Rightarrow>
         (case argument of
            Some a \<Rightarrow>
              (case checkExpression a st of (argType, st1) \<Rightarrow>
                 (case currentReturnType st1 of
                    Some expected1 \<Rightarrow>
                      if \<not> isAssignable argType expected1
                      then addError (notAssignable ''Type '' argType ''return type '' expected1)
                             ln st1
                      else st1
                  | None \<Rightarrow> st1))
          | None \<Rightarrow>
              if kind expected \<noteq> KVoid \<and> kind expected \<noteq> KUndefined
              then addError (''A function whose return type is not '' @ quoted ''void'' @
                             '' must return a value'') ln st
              else st))"
| "checkStatement (IfStatement (IfStatementNode condition consequent alternate ln)) st =
    (case alternate of
       Some a \<Rightarrow>
         checkStatement a (checkStatement consequent (snd (checkExpression condition st)))
     | None \<Rightarrow> checkStatement consequent (snd (checkExpression condition st)))"
| "checkStatement (WhileStatement condition body ln) st =
    withState (snd (checkExpression condition st)) (\<lambda>st1.
      (checkStatement body (st1\<lparr>inLoop := True\<rparr>))\<lparr>inLoop := inLoop st1\<rparr>)"
| "checkStatement (ForStatement init condition update body ln) st =
    withState (case init of
                 Some (ForInitDeclaration decl) \<Rightarrow> checkVariableDeclaration decl (enterScope st)
               | Some (ForInitExpression e) \<Rightarrow> snd (checkExpression e (enterScope st))
               | None \<Rightarrow> enterScope st) (\<lambda>st1.
    withState (case condition of Some c \<Rightarrow> snd (checkExpression c st1) | None \<Rightarrow> st1) (\<lambda>st2.
    withState (case update of Some u \<Rightarrow> snd (checkExpression u st2) | None \<Rightarrow> st2) (\<lambda>st3.
      (checkStatement body (st3\<lparr>inLoop := True\<rparr>))
        \<lparr>inLoop := inLoop st3, currentEnv := currentEnv st\<rparr>)))"
| "checkStatement (ForOfStatement variable iterable body isAwait ln) st =
    withState (checkExpression iterable (enterScope st)) (\<lambda>(iterableType, st1).
    withState
      (case variable of
         ForVariableDeclaration (VariableDeclarationNode name varKind typeAnnotation
             initializer vln) \<Rightarrow>
           (case resolveOptional typeAnnotation
                   (if kind iterableType = KArray then elementType iterableType else AnyType)
                   st1 of
              (t, s) \<Rightarrow> currentDefine name (variableEntry t) s)
       | ForVariableIdentifier name vln \<Rightarrow> st1) (\<lambda>st2.
      (checkStatement body (st2\<lparr>inLoop := True\<rparr>))
        \<lparr>inLoop := inLoop st2, currentEnv := currentEnv st\<rparr>))"
| "checkStatement (ForInStatement variable object body ln) st =
    withState (snd (checkExpression object (enterScope st))) (\<lambda>st1.
    withState
      (case variable of
         ForVariableDeclaration (VariableDeclarationNode name varKind typeAnnotation
             initializer vln) \<Rightarrow>
           currentDefine name (variableEntry (PrimitiveType PString)) st1
       | ForVariableIdentifier name vln \<Rightarrow> st1) (\<lambda>st2.
      (checkStatement body (st2\<lparr>inLoop := True\<rparr>))
        \<lparr>inLoop := inLoop st2, currentEnv := currentEnv st\<rparr>))"
| "checkStatement (DoWhileStatement body condition ln) st =
    snd (checkExpression condition (checkStatement body st))"
| "checkStatement (SwitchStatement discriminant cases ln) st =
    fold (\<lambda>caseClause s.
            fold checkStatement (caseConsequent caseClause)
              (case caseTest caseClause of
                 Some test \<Rightarrow> snd (checkExpression test s)
               | None \<Rightarrow> s))
      cases (snd (checkExpression discriminant st))"
| "checkStatement (BreakStatement label ln) st = st"
| "checkStatement (ContinueStatement label ln) st = st"
| "checkStatement (ThrowStatement argument ln) st = snd (checkExpression argument st)"
| "checkStatement (TryStatement block handler finalizer ln) st =
    withState (checkBlockStatement block st) (\<lambda>st1.
    withState (case handler of
                 Some (CatchClause param body) \<Rightarrow>
                   (checkBlockStatement body
                      (case param of
                         Some (Parameter name typeAnnotation optional defaultValue rest) \<Rightarrow>
                           currentDefine name (variableEntry AnyType) (enterScope st1)
                       | None \<Rightarrow> enterScope st1))
                     \<lparr>currentEnv := currentEnv st1\<rparr>
               | None \<Rightarrow> st1) (\<lambda>st2.
      case finalizer of
        Some f \<Rightarrow> checkBlockStatement f st2
      | None \<Rightarrow> st2))"
| "checkStatement (ExpressionStatement expression ln) st = snd (checkExpression expression st)"
| "checkStatement (BlockStatement b) st = checkBlockStatement b st"
| "checkStatement (ImportDeclaration specifiers src isTypeOnly ln) st = st"
| "checkStatement (ExportDeclaration declaration specifiers src isDefault isTypeOnly ln) st = st"
| "checkStatement (EmptyStatement ln) st = st"
| "checkBlockStatement (BlockStatementNode statements ln) st =
    (fold checkStatement statements (enterScope st))\<lparr>currentEnv := currentEnv st\<rparr>"
| "checkVariableDeclaration
     (VariableDeclarationNode name varKind typeAnnotation initializer ln) st =
    (case (case typeAnnotation of
             Some node \<Rightarrow> (case resolveTypeNode node st of (t, s) \<Rightarrow> (Some t, s))
           | None \<Rightarrow> (None, st)) of
       (declaredType, st1) \<Rightarrow>
         (case (case initializer of
                  Some e \<Rightarrow> (case checkExpression e st1 of (t, s) \<Rightarrow> (Some t, s))
                | None \<Rightarrow> (None, st1)) of
            (inferredType, st2) \<Rightarrow>
              (let st3 =
                 (case (declaredType, inferredType) of
                    (Some d, Some i) \<Rightarrow>
                      if \<not> isAssignable i d
                      then addError (notAssignable ''Type '' i ''type '' d) ln st2
                      else st2
                  | _ \<Rightarrow> st2);
                   finalType =
                 (case declaredType of
                    Some d \<Rightarrow> d
                  | None \<Rightarrow> (case inferredType of Some i \<Rightarrow> i | None \<Rightarrow> AnyType))
               in if currentHasLocal st3 name
                  then addError (''Variable '' @ quoted name @
                                 '' is already declared in this scope'') ln st3
                  else currentDefine name
                         (SymbolEntry finalType VariableSymbol (Some (varKind \<noteq> ''const''))) st3)))"
| "checkClassMember
     (MethodDeclaration name parameters returnTypeNode body accessibility isStatic isAbstract
        isAsync tps decorators ln) st =
    (case body of
       None \<Rightarrow> st
     | Some b \<Rightarrow>
         (case methodParams parameters st of (methodEnv, st1) \<Rightarrow>
            (case resolveOptional returnTypeNode (PrimitiveType PVoid) st1 of (r, st2) \<Rightarrow>
               (checkBlockStatement b
                  (st2\<lparr>currentReturnType := Some r, currentEnv := methodEnv # currentEnv st2\<rparr>))
                 \<lparr>currentEnv := currentEnv st2, currentReturnType := currentReturnType st1\<rparr>)))"
| "checkClassMember (ConstructorDeclaration parameters body accessibility ln) st =
    (case methodParams parameters st of (ctorEnv, st1) \<Rightarrow>
       (checkBlockStatement body (st1\<lparr>currentEnv := ctorEnv # currentEnv st1\<rparr>))
         \<lparr>currentEnv := currentEnv st1\<rparr>)"
| "checkClassMember
     (PropertyDeclaration name typeAnnotation initializer accessibility isStatic isReadonly
        isAbstract decorators ln) st =
    (case initializer of
       Some e \<Rightarrow> snd (checkExpression e st)
     | None \<Rightarrow> st)"
| "checkClassMember m st = st"
  by pat_completeness auto

lemma size_propertyValue:
  "q \<in> set props \<Longrightarrow> size (propertyValue q) \<le> size_list (size_object_property size) props"
proof -
  assume a: "q \<in> set props"
  have "size (propertyValue q) \<le> size_object_property size q"
    by (cases q) (simp add: propertyValue_def)
  also have "\<dots> \<le> size_list (size_object_property size) props" using a by (rule size_list_elem)
  finally show ?thesis .
qed

lemma size_propertySpread:
  "q \<in> set props \<Longrightarrow> spreadArgument (propertyValue q) = Some a \<Longrightarrow>
   size a < size_list (size_object_property size) props"
  using size_propertyValue[of q props] size_spreadArgument[of "propertyValue q" a] by simp

lemma size_templateExpressions:
  "e \<in> set (templateExpressions t) \<Longrightarrow> size e \<le> size_template_literal_expr size t"
  using size_list_elem[of e "templateExpressions t" size]
  by (cases t) (simp add: templateExpressions_def)

lemma size_enumInitializer:
  "m \<in> set ms \<Longrightarrow> enumInitializer m = Some e \<Longrightarrow>
   size e < size_list (size_enum_member size) ms"
proof -
  assume a: "m \<in> set ms" "enumInitializer m = Some e"
  have "size e < size_enum_member size m" using a(2) by (cases m) (simp add: enumInitializer_def)
  also have "\<dots> \<le> size_list (size_enum_member size) ms" using a(1) by (rule size_list_elem)
  finally show ?thesis .
qed

lemma size_caseTest:
  "c \<in> set cs \<Longrightarrow> caseTest c = Some e \<Longrightarrow> size e < size_list (size_switch_case size size) cs"
proof -
  assume a: "c \<in> set cs" "caseTest c = Some e"
  have "size e < size_switch_case size size c" using a(2) by (cases c) (simp add: caseTest_def)
  also have "\<dots> \<le> size_list (size_switch_case size size) cs" using a(1) by (rule size_list_elem)
  finally show ?thesis .
qed

lemma size_caseConsequent:
  "c \<in> set cs \<Longrightarrow> s \<in> set (caseConsequent c) \<Longrightarrow>
   size s < size_list (size_switch_case size size) cs"
proof -
  assume a: "c \<in> set cs" "s \<in> set (caseConsequent c)"
  have "size s < size_switch_case size size c"
    using size_list_elem[of s "caseConsequent c" size] a(2)
    by (cases c) (simp add: caseConsequent_def)
  also have "\<dots> \<le> size_list (size_switch_case size size) cs" using a(1) by (rule size_list_elem)
  finally show ?thesis .
qed

lemma size_zip_left:
  "(a, p) \<in> set (zip xs ys) \<Longrightarrow> size a \<le> size_list size xs"
  using size_list_elem[of a xs size] by (auto dest: set_zip_leftD)

lemma size_zip_spread:
  "(a, p) \<in> set (zip xs ys) \<Longrightarrow> spreadArgument a = Some b \<Longrightarrow> size b < size_list size xs"
  using size_zip_left[of a p xs ys] size_spreadArgument[of a b] by simp

termination checkExpression
  apply (relation "measure (\<lambda>x. case x of
      Inl (Inl (e, st)) \<Rightarrow> size e
    | Inl (Inr (s, st)) \<Rightarrow> size s
    | Inr (Inl (b, st)) \<Rightarrow> size_block_statement size b
    | Inr (Inr (Inl (d, st))) \<Rightarrow> size_variable_declaration size size d
    | Inr (Inr (Inr (m, st))) \<Rightarrow> size_class_member size size size m)")
  apply (auto simp: less_Suc_eq_le size_list_elem
      dest: size_propertyValue size_propertySpread size_templateExpressions size_enumInitializer
        size_caseTest size_caseConsequent size_zip_left size_zip_spread size_option_elem
        size_spread_elem size_list_elem_size)
  apply (auto dest: size_class_member_elem)
  done

subsection \<open>The five passes\<close>

definition registerAliasOrEnum :: "statement \<Rightarrow> TypeChecker \<Rightarrow> TypeChecker" where
  "registerAliasOrEnum stmt st =
    (case stmt of
       TypeAliasDeclaration decl \<Rightarrow> registerTypeAlias decl st
     | EnumDeclaration decl \<Rightarrow> registerEnumType decl st
     | _ \<Rightarrow> st)"

definition registerInterface :: "statement \<Rightarrow> TypeChecker \<Rightarrow> TypeChecker" where
  "registerInterface stmt st =
    (case stmt of InterfaceDeclaration decl \<Rightarrow> registerInterfaceType decl st | _ \<Rightarrow> st)"

definition registerClass :: "statement \<Rightarrow> TypeChecker \<Rightarrow> TypeChecker" where
  "registerClass stmt st =
    (case stmt of ClassDeclaration decl \<Rightarrow> registerClassType decl st | _ \<Rightarrow> st)"

definition registerFunction :: "statement \<Rightarrow> TypeChecker \<Rightarrow> TypeChecker" where
  "registerFunction stmt st =
    (case stmt of FunctionDeclaration decl \<Rightarrow> registerFunctionType decl st | _ \<Rightarrow> st)"

text \<open>The state after the four registration passes of \<^verbatim>\<open>check\<close>, and \<^verbatim>\<open>check\<close> itself.\<close>

definition registered :: "statement list \<Rightarrow> TypeChecker \<Rightarrow> TypeChecker" where
  "registered statements st =
    fold registerFunction statements
      (fold registerClass statements
        (fold registerInterface statements
          (fold registerAliasOrEnum statements (st\<lparr>errors := []\<rparr>))))"

definition check :: "program \<Rightarrow> TypeChecker \<Rightarrow> CompilerError list \<times> TypeChecker" where
  "check p st =
    (case p of Program statements \<Rightarrow>
       (let st1 = fold checkStatement statements (registered statements st)
        in (errors st1, st1)))"

definition typeCheck :: "program \<Rightarrow> CompilerError list" where
  "typeCheck p = fst (check p newTypeChecker)"


subsection \<open>What a check changes\<close>

text \<open>
  \<open>onlyErrors st st'\<close>: the state \<open>st'\<close> differs from \<open>st\<close> at most by diagnostics added at
  the end of the list.  \<open>declaresOnly st st'\<close>: in addition, the environment that is current
  may have changed; the environments around it, and the global one unless it is the
  current one, have not.
\<close>

definition appended :: "'a list \<Rightarrow> 'a list \<Rightarrow> bool" where
  "appended xs ys \<longleftrightarrow> take (length xs) ys = xs"

definition onlyErrors :: "TypeChecker \<Rightarrow> TypeChecker \<Rightarrow> bool" where
  "onlyErrors st st' \<longleftrightarrow>
    globalEnv st' = globalEnv st \<and> currentEnv st' = currentEnv st \<and>
    currentReturnType st' = currentReturnType st \<and> inLoop st' = inLoop st \<and>
    appended (errors st) (errors st')"

definition declaresOnly :: "TypeChecker \<Rightarrow> TypeChecker \<Rightarrow> bool" where
  "declaresOnly st st' \<longleftrightarrow>
    currentReturnType st' = currentReturnType st \<and> inLoop st' = inLoop st \<and>
    appended (errors st) (errors st') \<and>
    length (currentEnv st') = length (currentEnv st) \<and>
    tl (currentEnv st') = tl (currentEnv st) \<and>
    (currentEnv st = [] \<or> globalEnv st' = globalEnv st)"

lemma appended_iff: "appended xs ys \<longleftrightarrow> (\<exists>ds. ys = xs @ ds)"
proof
  assume "appended xs ys"
  then have "ys = xs @ drop (length xs) ys"
    using append_take_drop_id[of "length xs" ys] by (simp add: appended_def)
  then show "\<exists>ds. ys = xs @ ds" ..
next
  assume "\<exists>ds. ys = xs @ ds"
  then show "appended xs ys" by (auto simp: appended_def)
qed

lemma appended_refl [simp]: "appended xs xs"
  by (simp add: appended_def)

lemma appended_append [simp]: "appended xs (xs @ ds)"
  by (simp add: appended_def)

lemma appended_trans: "appended xs ys \<Longrightarrow> appended ys zs \<Longrightarrow> appended xs zs"
  by (auto simp: appended_iff)

lemma onlyErrors_refl [simp]: "onlyErrors st st"
  by (simp add: onlyErrors_def)

lemma onlyErrors_trans: "onlyErrors st st1 \<Longrightarrow> onlyErrors st1 st2 \<Longrightarrow> onlyErrors st st2"
  by (auto simp: onlyErrors_def intro: appended_trans)

lemma onlyErrors_addError [simp]: "onlyErrors st (addError msg ln st)"
  by (simp add: onlyErrors_def addError_def)

lemma onlyErrors_addError_trans: "onlyErrors st st1 \<Longrightarrow> onlyErrors st (addError msg ln st1)"
  by (rule onlyErrors_trans[OF _ onlyErrors_addError])

lemma declaresOnly_refl [simp]: "declaresOnly st st"
  by (simp add: declaresOnly_def)

lemma declaresOnly_trans:
  "declaresOnly st st1 \<Longrightarrow> declaresOnly st1 st2 \<Longrightarrow> declaresOnly st st2"
  unfolding declaresOnly_def
  by (auto intro: appended_trans)

lemma onlyErrors_declaresOnly: "onlyErrors st st' \<Longrightarrow> declaresOnly st st'"
  by (auto simp: onlyErrors_def declaresOnly_def)

lemma declaresOnly_currentDefine [simp]: "declaresOnly st (currentDefine name entry st)"
  by (auto simp: declaresOnly_def currentDefine_def split: list.splits)

text \<open>Leaving a scope that was entered: what was declared inside is gone.\<close>

lemma leave_scope:
  assumes "declaresOnly (enterScope st) st'"
  shows "onlyErrors st (st'\<lparr>currentEnv := currentEnv st\<rparr>)"
  using assms by (auto simp: declaresOnly_def onlyErrors_def enterScope_def)

lemma leave_global_scope:
  assumes "declaresOnly (enterGlobalScope st) st'"
  shows "onlyErrors st (st'\<lparr>currentEnv := currentEnv st\<rparr>)"
  using assms by (auto simp: declaresOnly_def onlyErrors_def enterGlobalScope_def)

lemma fold_onlyErrors:
  "(\<And>x s. x \<in> set xs \<Longrightarrow> onlyErrors s (f x s)) \<Longrightarrow> onlyErrors st (fold f xs st)"
proof (induction xs arbitrary: st)
  case Nil
  show ?case by simp
next
  case (Cons x xs)
  have "onlyErrors st (f x st)" using Cons.prems by simp
  moreover have "onlyErrors (f x st) (fold f xs (f x st))" using Cons by simp
  ultimately show ?case by (auto intro: onlyErrors_trans)
qed

lemma fold_declaresOnly:
  "(\<And>x s. x \<in> set xs \<Longrightarrow> declaresOnly s (f x s)) \<Longrightarrow> declaresOnly st (fold f xs st)"
proof (induction xs arbitrary: st)
  case Nil
  show ?case by simp
next
  case (Cons x xs)
  have "declaresOnly st (f x st)" using Cons.prems by simp
  moreover have "declaresOnly (f x st) (fold f xs (f x st))" using Cons by simp
  ultimately show ?case by (auto intro: declaresOnly_trans)
qed

lemma fold_acc_onlyErrors:
  "(\<And>x acc. x \<in> set xs \<Longrightarrow> onlyErrors (snd acc) (snd (f x acc))) \<Longrightarrow>
   onlyErrors st (snd (fold f xs (a, st)))"
proof (induction xs arbitrary: a st)
  case Nil
  show ?case by simp
next
  case (Cons x xs)
  have "onlyErrors st (snd (f x (a, st)))" using Cons.prems[of x "(a, st)"] by simp
  moreover have "onlyErrors (snd (f x (a, st))) (snd (fold f xs (fst (f x (a, st)), snd (f x (a, st)))))"
    by (rule Cons.IH) (simp add: Cons.prems)
  ultimately show ?case by (auto intro: onlyErrors_trans)
qed

lemma mapS_onlyErrors:
  "(\<And>x s. x \<in> set xs \<Longrightarrow> onlyErrors s (snd (f x s))) \<Longrightarrow> onlyErrors st (snd (mapS f xs st))"
proof (induction xs arbitrary: st)
  case Nil
  show ?case by simp
next
  case (Cons x xs)
  have a: "onlyErrors st (snd (f x st))" using Cons.prems by simp
  have b: "onlyErrors (snd (f x st)) (snd (mapS f xs (snd (f x st))))" using Cons by simp
  show ?case using onlyErrors_trans[OF a b] by (simp add: case_prod_beta)
qed

lemma resolveParameter_onlyErrors:
  "(\<And>t s. t \<in> set2_parameter p \<Longrightarrow> onlyErrors s (snd (f t s))) \<Longrightarrow>
   onlyErrors st (snd (resolveParameter f p st))"
  by (cases p) (auto simp: resolveParameter_def case_prod_beta split: option.splits)

lemma resolveTypeNode_onlyErrors: "onlyErrors st (snd (resolveTypeNode node st))"
proof (induction node st rule: resolveTypeNode.induct)
  case (1 typeName typeArguments ln st)
  show ?case by (simp split: option.splits)
next
  case (2 elementTypeNode ln st)
  then show ?case by (simp add: case_prod_beta)
next
  case (3 nodes ln st)
  then show ?case using mapS_onlyErrors[of nodes resolveTypeNode st] by (simp add: case_prod_beta)
next
  case (4 nodes ln st)
  then show ?case using mapS_onlyErrors[of nodes resolveTypeNode st] by (simp add: case_prod_beta)
next
  case (5 nodes ln st)
  then show ?case using mapS_onlyErrors[of nodes resolveTypeNode st] by (simp add: case_prod_beta)
next
  case (6 parameters returnTypeNode typeParams ln st)
  have a: "onlyErrors st (snd (mapS (resolveParameter resolveTypeNode) parameters st))"
    by (rule mapS_onlyErrors) (rule resolveParameter_onlyErrors, rule 6(1))
  obtain ps st1 where m: "mapS (resolveParameter resolveTypeNode) parameters st = (ps, st1)"
    by (cases "mapS (resolveParameter resolveTypeNode) parameters st")
  have b: "onlyErrors st1 (snd (resolveTypeNode returnTypeNode st1))" using 6(2) m by simp
  show ?case using a b m by (auto simp: case_prod_beta intro: onlyErrors_trans)
next
  case (7 memberList ln st)
  let ?f = "\<lambda>m acc. case typeMemberName m of None \<Rightarrow> acc
     | Some name \<Rightarrow> if name = [] then acc
         else (case resolveTypeNode (typeMemberAnnotation m) (snd acc) of (t, st1) \<Rightarrow>
                 (AList.update name (MemberValue t (typeMemberOptional m) False) (fst acc), st1))"
  have step: "\<And>m acc. m \<in> set memberList \<Longrightarrow> onlyErrors (snd acc) (snd (?f m acc))"
    using 7 by (auto simp: case_prod_beta split: option.splits)
  have "onlyErrors st (snd (fold ?f memberList ([], st)))"
    by (rule fold_acc_onlyErrors[where f = ?f]) (rule step)
  then show ?case by (simp add: case_prod_beta)
qed simp_all

lemma resolveOptional_onlyErrors: "onlyErrors st (snd (resolveOptional node fallback st))"
  by (cases node) (simp_all add: resolveOptional_def resolveTypeNode_onlyErrors)

text \<open>The same facts in the form in which they chain along a sequence of steps.\<close>

lemma oe_chain: "onlyErrors s s' \<Longrightarrow> onlyErrors s0 s \<Longrightarrow> onlyErrors s0 s'"
  by (rule onlyErrors_trans)

lemma od_chain: "onlyErrors s s' \<Longrightarrow> declaresOnly s0 s \<Longrightarrow> declaresOnly s0 s'"
  by (rule declaresOnly_trans[OF _ onlyErrors_declaresOnly])

lemma dd_chain: "declaresOnly s s' \<Longrightarrow> declaresOnly s0 s \<Longrightarrow> declaresOnly s0 s'"
  by (rule declaresOnly_trans)

lemmas addError_oe = onlyErrors_addError[THEN oe_chain]
lemmas addError_od = onlyErrors_addError[THEN od_chain]
lemmas resolveTypeNode_oe = resolveTypeNode_onlyErrors[THEN oe_chain]
lemmas resolveTypeNode_od = resolveTypeNode_onlyErrors[THEN od_chain]
lemmas resolveOptional_oe = resolveOptional_onlyErrors[THEN oe_chain]
lemmas resolveOptional_od = resolveOptional_onlyErrors[THEN od_chain]
lemmas currentDefine_dd = declaresOnly_currentDefine[THEN dd_chain]

lemma resolveParameters_onlyErrors:
  "onlyErrors st (snd (mapS (resolveParameter resolveTypeNode) parameters st))"
  by (rule mapS_onlyErrors) (rule resolveParameter_onlyErrors, rule resolveTypeNode_onlyErrors)

lemmas resolveParameters_oe = resolveParameters_onlyErrors[THEN oe_chain]
lemmas resolveParameters_od = resolveParameters_onlyErrors[THEN od_chain]

lemma binaryResult_onlyErrors: "onlyErrors st (snd (binaryResult op a b ln st))"
  unfolding binaryResult_def Let_def
  by (simp add: addError_oe del: list.set insert_iff)

lemma unaryResult_onlyErrors: "onlyErrors st (snd (unaryResult op a ln st))"
  unfolding unaryResult_def by simp

lemma memberResult_onlyErrors: "onlyErrors st (snd (memberResult t p ln st))"
  unfolding memberResult_def by (simp split: option.splits del: list.set insert_iff)

lemma computedMemberResult_onlyErrors: "onlyErrors st (snd (computedMemberResult t i ln st))"
  unfolding computedMemberResult_def by simp

lemma checkArgumentCount_onlyErrors: "onlyErrors st (checkArgumentCount f k ln st)"
  unfolding checkArgumentCount_def by simp

lemmas binaryResult_oe = binaryResult_onlyErrors[THEN oe_chain]
lemmas unaryResult_oe = unaryResult_onlyErrors[THEN oe_chain]
lemmas memberResult_oe = memberResult_onlyErrors[THEN oe_chain]
lemmas computedMemberResult_oe = computedMemberResult_onlyErrors[THEN oe_chain]
lemmas checkArgumentCount_oe = checkArgumentCount_onlyErrors[THEN oe_chain]

lemma fold_oe:
  "(\<And>x s. x \<in> set xs \<Longrightarrow> onlyErrors s (f x s)) \<Longrightarrow> onlyErrors s0 st \<Longrightarrow>
   onlyErrors s0 (fold f xs st)"
  by (rule onlyErrors_trans[OF _ fold_onlyErrors])

lemma fold_od:
  "(\<And>x s. x \<in> set xs \<Longrightarrow> onlyErrors s (f x s)) \<Longrightarrow> declaresOnly s0 st \<Longrightarrow>
   declaresOnly s0 (fold f xs st)"
  by (rule od_chain[OF fold_onlyErrors])

lemma fold_dd:
  "(\<And>x s. x \<in> set xs \<Longrightarrow> declaresOnly s (f x s)) \<Longrightarrow> declaresOnly s0 st \<Longrightarrow>
   declaresOnly s0 (fold f xs st)"
  by (rule declaresOnly_trans[OF _ fold_declaresOnly])

lemma defineParams_declaresOnly: "declaresOnly st (defineParams ps st)"
  unfolding defineParams_def by (rule fold_declaresOnly) simp

lemmas defineParams_dd = defineParams_declaresOnly[THEN dd_chain]

lemma methodParams_onlyErrors: "onlyErrors st (snd (methodParams parameters st))"
  unfolding methodParams_def
  by (rule fold_acc_onlyErrors)
     (simp add: case_prod_beta resolveParameter_onlyErrors resolveTypeNode_onlyErrors)

text \<open>Entering a scope, running a body in it, and restoring what was saved.\<close>

lemma declaresOnly_enterScope_fields:
  assumes "declaresOnly (enterScope st) s"
  shows "globalEnv s = globalEnv st" "currentReturnType s = currentReturnType st"
    "inLoop s = inLoop st" "appended (errors st) (errors s)" "currentEnv s \<noteq> []"
  using assms by (auto simp: declaresOnly_def enterScope_def)

lemma declaresOnly_enterGlobalScope_fields:
  assumes "declaresOnly (enterGlobalScope st) s"
  shows "globalEnv s = globalEnv st" "currentReturnType s = currentReturnType st"
    "inLoop s = inLoop st" "appended (errors st) (errors s)" "currentEnv s \<noteq> []"
  using assms by (auto simp: declaresOnly_def enterGlobalScope_def)

lemma declaresOnly_inner:
  assumes "currentEnv s \<noteq> []" "declaresOnly s s'"
  shows "globalEnv s' = globalEnv s" "currentEnv s' \<noteq> []"
  using assms by (auto simp: declaresOnly_def)

lemma leave_body:
  assumes "globalEnv s = globalEnv st" "inLoop s = inLoop st" "appended (errors st) (errors s)"
    and "onlyErrors (s\<lparr>currentReturnType := r\<rparr>) s'"
  shows "onlyErrors st (s'\<lparr>currentReturnType := currentReturnType st, currentEnv := currentEnv st\<rparr>)"
  using assms by (auto simp: onlyErrors_def intro: appended_trans)

lemma leave_loop:
  assumes "declaresOnly s0 s" "declaresOnly (s\<lparr>inLoop := True\<rparr>) s'"
  shows "declaresOnly s0 (s'\<lparr>inLoop := inLoop s\<rparr>)"
  using assms by (auto simp: declaresOnly_def intro: appended_trans)

lemma leave_loop_scope:
  assumes "declaresOnly (enterScope st) s" "declaresOnly (s\<lparr>inLoop := True\<rparr>) s'"
  shows "onlyErrors st (s'\<lparr>inLoop := inLoop s, currentEnv := currentEnv st\<rparr>)"
  using assms by (auto simp: declaresOnly_def onlyErrors_def enterScope_def intro: appended_trans)

text \<open>
  Checking an expression, a block or a class member changes nothing but the list of
  diagnostics, to which it appends; checking a statement may also declare names in the
  environment that is current.
\<close>

lemma checker_frame:
  shows "onlyErrors st (snd (checkExpression e st))"
    and "declaresOnly st (checkStatement s st)"
    and "onlyErrors st (checkBlockStatement b st)"
    and "declaresOnly st (checkVariableDeclaration d st)"
    and "onlyErrors st (checkClassMember m st)"
proof (induction e st and s st and b st and d st and m st
    rule: checkExpression_checkStatement_checkBlockStatement_checkVariableDeclaration_checkClassMember.induct)
  case (6 name ln st)
  show ?case by (simp split: option.splits)
next
  case (7 operator left right ln st)
  note a = 7(1)[THEN oe_chain] and b = 7(2)[OF prod.collapse, THEN oe_chain]
  show ?case by (simp add: case_prod_beta) (intro binaryResult_oe a b onlyErrors_refl)
next
  case (8 operator operand isPrefix ln st)
  show ?case by (simp add: case_prod_beta) (intro unaryResult_oe 8[THEN oe_chain] onlyErrors_refl)
next
  case (9 operator argument isPrefix ln st)
  show ?case using 9 by (simp add: case_prod_beta addError_oe)
next
  case (10 callee arguments typeArguments optional ln st)
  let ?r = "checkExpression callee st"
  note a = 10(1)
  show ?case
  proof (cases "kind (fst ?r) = KAny")
    case True
    have "onlyErrors st (fold (\<lambda>arg s. snd (checkExpression arg s)) arguments (snd ?r))"
      by (rule fold_oe, simp add: 10(2)[OF prod.collapse True], rule a)
    then show ?thesis using True by (simp add: case_prod_beta)
  next
    case notAny: False
    show ?thesis
    proof (cases "kind (fst ?r) = KFunction")
      case False
      then show ?thesis using notAny a by (simp add: case_prod_beta addError_oe)
    next
      case True
      let ?f = "asFunctionType (fst ?r)"
      let ?step = "\<lambda>(arg, p) s.
           case spreadArgument arg of
             Some argument \<Rightarrow> snd (checkExpression argument s)
           | None \<Rightarrow>
               (case checkExpression arg s of (argType, s1) \<Rightarrow>
                  if \<not> isAssignable argType (param_type p)
                  then addError (notAssignable ''Argument of type '' argType
                         ''parameter of type '' (param_type p)) ln s1
                  else s1)"
      let ?pairs = "zip arguments (take (checkCount ?f (length arguments)) (params ?f))"
      have nf: "\<not> kind (fst ?r) \<noteq> KFunction" using True by simp
      have step: "\<And>x s. x \<in> set ?pairs \<Longrightarrow> onlyErrors s (?step x s)"
      proof -
        fix x s
        assume x: "x \<in> set ?pairs"
        obtain arg p where xp: "x = (arg, p)" by (cases x)
        show "onlyErrors s (?step x s)"
        proof (cases "spreadArgument arg")
          case None
          have "onlyErrors s (snd (checkExpression arg s))"
            using 10(3)[OF prod.collapse notAny nf x xp[symmetric] None] .
          then show ?thesis using None xp by (simp add: case_prod_beta addError_oe)
        next
          case (Some argument)
          have "onlyErrors s (snd (checkExpression argument s))"
            using 10(4)[OF prod.collapse notAny nf x xp[symmetric] Some] .
          then show ?thesis using Some xp by simp
        qed
      qed
      have "onlyErrors st (fold ?step ?pairs (checkArgumentCount ?f (length arguments) ln (snd ?r)))"
        by (rule fold_oe, simp add: step, intro checkArgumentCount_oe a)
      then show ?thesis using True notAny by (simp add: case_prod_beta)
    qed
  qed
next
  case (11 object property optional ln st)
  show ?case by (simp add: case_prod_beta) (intro memberResult_oe 11[THEN oe_chain] onlyErrors_refl)
next
  case (12 object property optional ln st)
  note a = 12(1)[THEN oe_chain] and b = 12(2)[OF prod.collapse, THEN oe_chain]
  show ?case by (simp add: case_prod_beta) (intro computedMemberResult_oe a b onlyErrors_refl)
next
  case (13 properties ln st)
  let ?f = "\<lambda>pr acc.
      case spreadArgument (propertyValue pr) of
        Some argument \<Rightarrow> (fst acc, snd (checkExpression argument (snd acc)))
      | None \<Rightarrow>
          (case checkExpression (propertyValue pr) (snd acc) of (valueType, st1) \<Rightarrow>
             (AList.update (propertyKey pr) (MemberValue valueType False False) (fst acc), st1))"
  have step: "\<And>x acc. x \<in> set properties \<Longrightarrow> onlyErrors (snd acc) (snd (?f x acc))"
    using 13 by (auto simp: case_prod_beta split: option.splits)
  have "onlyErrors st (snd (fold ?f properties ([], st)))"
    by (rule fold_acc_onlyErrors[where f = ?f]) (rule step)
  then show ?case by (simp add: case_prod_beta)
next
  case (14 elements ln st)
  let ?f = "\<lambda>element acc.
      case element of
        None \<Rightarrow> acc
      | Some e \<Rightarrow>
          (case spreadArgument e of
             Some argument \<Rightarrow>
               (case checkExpression argument (snd acc) of (spreadType, st1) \<Rightarrow>
                  (fst acc @
                     [if kind spreadType = KArray then elementType spreadType else spreadType],
                   st1))
           | None \<Rightarrow>
               (case checkExpression e (snd acc) of (t, st1) \<Rightarrow> (fst acc @ [t], st1)))"
  show ?case
  proof (cases "elements = []")
    case True
    then show ?thesis by simp
  next
    case False
    have step: "\<And>x acc. x \<in> set elements \<Longrightarrow> onlyErrors (snd acc) (snd (?f x acc))"
      using 14[OF False] by (auto simp: case_prod_beta split: option.splits)
    have "onlyErrors st (snd (fold ?f elements ([], st)))"
      by (rule fold_acc_onlyErrors[where f = ?f]) (rule step)
    then show ?thesis using False by (simp add: case_prod_beta)
  qed
next
  case (15 parameters returnTypeNode body isAsync typeParams ln st)
  let ?m = "mapS (resolveParameter resolveTypeNode) parameters st"
  let ?in = "defineParams (fst ?m) (enterScope (snd ?m))"
  let ?rt = "case returnTypeNode of
      Some node \<Rightarrow> resolveTypeNode node ?in
    | None \<Rightarrow>
        (case body of
           ArrowBlock b \<Rightarrow> (PrimitiveType PVoid, ?in)
         | ArrowExpression e \<Rightarrow> checkExpression e ?in)"
  have m: "onlyErrors st (snd ?m)" by (rule resolveParameters_onlyErrors)
  have i: "declaresOnly (enterScope (snd ?m)) ?in" by (rule defineParams_declaresOnly)
  have rt: "declaresOnly (enterScope (snd ?m)) (snd ?rt)"
  proof (cases returnTypeNode)
    case (Some node)
    then show ?thesis by (simp add: resolveTypeNode_od[OF i])
  next
    case None
    show ?thesis
    proof (cases body)
      case (ArrowExpression e)
      have "onlyErrors ?in (snd (checkExpression e ?in))"
        using 15(1)[OF prod.collapse None ArrowExpression] .
      then show ?thesis using None ArrowExpression od_chain[OF _ i] by simp
    next
      case (ArrowBlock blk)
      then show ?thesis using None i by simp
    qed
  qed
  note f = declaresOnly_enterScope_fields[OF rt]
  show ?case
  proof (cases body)
    case (ArrowExpression e)
    have "onlyErrors (snd ?m) ((snd ?rt)\<lparr>currentEnv := currentEnv (snd ?m)\<rparr>)"
      by (rule leave_scope[OF rt])
    then have "onlyErrors st ((snd ?rt)\<lparr>currentEnv := currentEnv (snd ?m)\<rparr>)"
      by (rule oe_chain[OF _ m])
    then show ?thesis unfolding ArrowExpression by (simp add: case_prod_beta)
  next
    case (ArrowBlock blk)
    have "onlyErrors ((snd ?rt)\<lparr>currentReturnType := Some (fst ?rt)\<rparr>)
            (checkBlockStatement blk ((snd ?rt)\<lparr>currentReturnType := Some (fst ?rt)\<rparr>))"
      using 15(2)[OF prod.collapse prod.collapse ArrowBlock] .
    then have "onlyErrors (snd ?m)
        ((checkBlockStatement blk ((snd ?rt)\<lparr>currentReturnType := Some (fst ?rt)\<rparr>))
           \<lparr>currentReturnType := currentReturnType (snd ?m), currentEnv := currentEnv (snd ?m)\<rparr>)"
      by (rule leave_body[OF f(1) f(3) f(4)])
    then have "onlyErrors st
        ((checkBlockStatement blk ((snd ?rt)\<lparr>currentReturnType := Some (fst ?rt)\<rparr>))
           \<lparr>currentReturnType := currentReturnType (snd ?m), currentEnv := currentEnv (snd ?m)\<rparr>)"
      by (rule oe_chain[OF _ m])
    then show ?thesis using f(2) unfolding ArrowBlock by (simp add: case_prod_beta)
  qed
next
  case (16 name parameters returnTypeNode body isAsync isGenerator typeParams ln st)
  let ?m = "mapS (resolveParameter resolveTypeNode) parameters st"
  let ?r = "resolveOptional returnTypeNode (PrimitiveType PVoid) (snd ?m)"
  let ?scope = "case name of
      None \<Rightarrow> enterScope (snd ?r)
    | Some n \<Rightarrow>
        if n = [] then enterScope (snd ?r)
        else currentDefine n
               (SymbolEntry (FunctionType (Function (fst ?m) (fst ?r) None)) FunctionSymbol None)
               (enterScope (snd ?r))"
  let ?in = "defineParams (fst ?m) ?scope"
  have m: "onlyErrors st (snd ?m)" by (rule resolveParameters_onlyErrors)
  have r: "onlyErrors st (snd ?r)" by (rule resolveOptional_oe[OF m])
  have sc: "declaresOnly (enterScope (snd ?r)) ?scope" by (simp split: option.splits)
  have i: "declaresOnly (enterScope (snd ?r)) ?in" by (rule defineParams_dd[OF sc])
  note f = declaresOnly_enterScope_fields[OF i]
  have "onlyErrors (?in\<lparr>currentReturnType := Some (fst ?r)\<rparr>)
          (checkBlockStatement body (?in\<lparr>currentReturnType := Some (fst ?r)\<rparr>))"
    using 16[OF prod.collapse prod.collapse] .
  then have "onlyErrors (snd ?r)
      ((checkBlockStatement body (?in\<lparr>currentReturnType := Some (fst ?r)\<rparr>))
         \<lparr>currentReturnType := currentReturnType (snd ?r), currentEnv := currentEnv (snd ?r)\<rparr>)"
    by (rule leave_body[OF f(1) f(3) f(4)])
  then have "onlyErrors st
      ((checkBlockStatement body (?in\<lparr>currentReturnType := Some (fst ?r)\<rparr>))
         \<lparr>currentReturnType := currentReturnType (snd ?r), currentEnv := currentEnv (snd ?r)\<rparr>)"
    by (rule oe_chain[OF _ r])
  then show ?case by (simp add: case_prod_beta)
next
  case (17 condition consequent alternate ln st)
  note a = 17(1)[THEN oe_chain] and b = 17(2)[OF prod.collapse, THEN oe_chain]
    and c = 17(3)[OF prod.collapse prod.collapse, THEN oe_chain]
  show ?case by (simp add: case_prod_beta) (intro a b c onlyErrors_refl)
next
  case (18 operator left right ln st)
  note a = 18(1)[THEN oe_chain] and b = 18(2)[OF prod.collapse, THEN oe_chain]
  have "onlyErrors st (snd (checkExpression left (snd (checkExpression right st))))"
    by (intro a b onlyErrors_refl)
  then show ?case by (simp add: case_prod_beta addError_oe)
next
  case (19 operator left right ln st)
  note a = 19(1)[THEN oe_chain] and b = 19(2)[OF prod.collapse, THEN oe_chain]
  show ?case by (simp add: case_prod_beta) (intro a b onlyErrors_refl)
next
  case (20 callee arguments typeArguments ln st)
  have "onlyErrors st (fold (\<lambda>arg s. snd (checkExpression arg s)) arguments
          (snd (checkExpression callee st)))"
    by (rule fold_oe, simp add: 20(2)[OF prod.collapse], rule 20(1))
  then show ?case by (simp add: case_prod_beta)
next
  case (21 ln st)
  show ?case by (simp split: option.splits)
next
  case (24 argument ln st)
  then show ?case by simp
next
  case (25 argument delegate ln st)
  then show ?case by (simp split: option.splits)
next
  case (26 t st)
  have "onlyErrors st (fold (\<lambda>expression s. snd (checkExpression expression s))
          (templateExpressions t) st)"
    by (rule fold_onlyErrors) (simp add: 26)
  then show ?case by simp
next
  case (28 typeAnnotation expression ln st)
  then show ?case by (simp add: resolveTypeNode_oe)
next
  case (29 expression typeAnnotation ln st)
  then show ?case by (simp add: resolveTypeNode_oe)
next
  case (33 decl st)
  then show ?case by simp
next
  case (34 name parameters returnTypeNode body isAsync isGenerator tps ln st)
  show ?case
  proof (cases "lookup (currentChain st) name")
    case None
    then show ?thesis by simp
  next
    case (Some entry)
    show ?thesis
    proof (cases "entryKind entry = FunctionSymbol")
      case False
      then show ?thesis using Some by simp
    next
      case True
      let ?f = "asFunctionType (entryType entry)"
      let ?in = "defineParams (params ?f) (enterGlobalScope st)"
      have i: "declaresOnly (enterGlobalScope st) ?in" by (rule defineParams_declaresOnly)
      note f = declaresOnly_enterGlobalScope_fields[OF i]
      have "onlyErrors (?in\<lparr>currentReturnType := Some (returnType ?f)\<rparr>)
              (checkBlockStatement body (?in\<lparr>currentReturnType := Some (returnType ?f)\<rparr>))"
        using 34[OF Some] True by simp
      then have "onlyErrors st
          ((checkBlockStatement body (?in\<lparr>currentReturnType := Some (returnType ?f)\<rparr>))
             \<lparr>currentReturnType := currentReturnType st, currentEnv := currentEnv st\<rparr>)"
        by (rule leave_body[OF f(1) f(3) f(4)])
      then show ?thesis using Some True by (simp add: onlyErrors_declaresOnly)
    qed
  qed
next
  case (37 name superClassExpr impls tps memberList decorators isAbstract ln st)
  let ?in = "case lookupType [globalEnv st] name of
      Some classType \<Rightarrow> currentDefine ''this'' (variableEntry classType) (enterGlobalScope st)
    | None \<Rightarrow> enterGlobalScope st"
  have i: "declaresOnly (enterGlobalScope st) ?in"
    by (cases "lookupType [globalEnv st] name") (simp_all del: lookupType.simps)
  have "declaresOnly (enterGlobalScope st) (fold checkClassMember memberList ?in)"
    by (rule fold_od, simp add: 37, rule i)
  then have "onlyErrors st ((fold checkClassMember memberList ?in)\<lparr>currentEnv := currentEnv st\<rparr>)"
    by (rule leave_global_scope)
  then show ?case by (simp add: onlyErrors_declaresOnly)
next
  case (38 name memberList isConst ln st)
  have "onlyErrors st (fold (\<lambda>member s.
            case enumInitializer member of
              Some initializer \<Rightarrow> snd (checkExpression initializer s)
            | None \<Rightarrow> s) memberList st)"
    by (rule fold_onlyErrors) (simp add: 38 split: option.splits)
  then show ?case by (simp add: onlyErrors_declaresOnly)
next
  case (39 argument ln st)
  show ?case
  proof (cases "currentReturnType st")
    case None
    then show ?thesis by (simp add: onlyErrors_declaresOnly)
  next
    case (Some expected)
    show ?thesis
    proof (cases argument)
      case None
      then show ?thesis using Some by (simp add: onlyErrors_declaresOnly)
    next
      case (Some a)
      have "onlyErrors st (snd (checkExpression a st))"
        using 39[OF \<open>currentReturnType st = Some expected\<close> Some] .
      then show ?thesis using Some \<open>currentReturnType st = Some expected\<close>
        by (simp add: case_prod_beta onlyErrors_declaresOnly addError_oe split: option.splits)
    qed
  qed
next
  case (40 condition consequent alternate ln st)
  show ?case
  proof (cases alternate)
    case None
    show ?thesis using None 40(1)[OF None] 40(2)[OF None]
      by (simp add: od_chain[OF _ declaresOnly_refl] dd_chain)
  next
    case (Some a)
    have c: "declaresOnly st (snd (checkExpression condition st))"
      using 40(3)[OF Some] by (rule onlyErrors_declaresOnly)
    show ?thesis using Some
      by (simp add: dd_chain[OF 40(5)[OF Some] dd_chain[OF 40(4)[OF Some] c]])
  qed
next
  case (41 condition body ln st)
  have c: "declaresOnly st (snd (checkExpression condition st))"
    using 41(1) by (rule onlyErrors_declaresOnly)
  show ?case by (simp add: withState_def leave_loop[OF c 41(2)])
next
  case (42 init condition update body ln st)
  let ?s1 = "case init of
      Some (ForInitDeclaration decl) \<Rightarrow> checkVariableDeclaration decl (enterScope st)
    | Some (ForInitExpression e) \<Rightarrow> snd (checkExpression e (enterScope st))
    | None \<Rightarrow> enterScope st"
  let ?s2 = "case condition of Some c \<Rightarrow> snd (checkExpression c ?s1) | None \<Rightarrow> ?s1"
  let ?s3 = "case update of Some u \<Rightarrow> snd (checkExpression u ?s2) | None \<Rightarrow> ?s2"
  have s1: "declaresOnly (enterScope st) ?s1"
    using 42(1,2) by (auto simp: onlyErrors_declaresOnly split: option.splits for_init.splits)
  have s2: "declaresOnly (enterScope st) ?s2"
  proof (cases condition)
    case None
    show ?thesis unfolding None option.case by (rule s1)
  next
    case (Some c)
    show ?thesis unfolding Some option.case by (rule od_chain[OF 42(3)[OF Some] s1])
  qed
  have s3: "declaresOnly (enterScope st) ?s3"
  proof (cases update)
    case None
    show ?thesis unfolding None option.case by (rule s2)
  next
    case (Some u)
    show ?thesis unfolding Some option.case by (rule od_chain[OF 42(4)[OF Some] s2])
  qed
  have "onlyErrors st ((checkStatement body (?s3\<lparr>inLoop := True\<rparr>))
          \<lparr>inLoop := inLoop ?s3, currentEnv := currentEnv st\<rparr>)"
    by (rule leave_loop_scope[OF s3 42(5)])
  then show ?case by (simp add: withState_def onlyErrors_declaresOnly)
next
  case (43 variable iterable body isAwait ln st)
  let ?r = "checkExpression iterable (enterScope st)"
  let ?s2 = "case variable of
      ForVariableDeclaration (VariableDeclarationNode name varKind typeAnnotation
          initializer vln) \<Rightarrow>
        (case resolveOptional typeAnnotation
                (if kind (fst ?r) = KArray then elementType (fst ?r) else AnyType) (snd ?r) of
           (t, s) \<Rightarrow> currentDefine name (variableEntry t) s)
    | ForVariableIdentifier name vln \<Rightarrow> snd ?r"
  have r: "declaresOnly (enterScope st) (snd ?r)" using 43(1) by (rule onlyErrors_declaresOnly)
  have s2: "declaresOnly (enterScope st) ?s2"
    using r
    by (auto simp: case_prod_beta split: for_variable.splits variable_declaration.splits
        intro!: currentDefine_dd resolveOptional_od)
  have "onlyErrors st ((checkStatement body (?s2\<lparr>inLoop := True\<rparr>))
          \<lparr>inLoop := inLoop ?s2, currentEnv := currentEnv st\<rparr>)"
    by (rule leave_loop_scope[OF s2 43(2)[OF prod.collapse]])
  then show ?case by (simp add: withState_def case_prod_beta onlyErrors_declaresOnly)
next
  case (44 variable object body ln st)
  let ?s1 = "snd (checkExpression object (enterScope st))"
  let ?s2 = "case variable of
      ForVariableDeclaration (VariableDeclarationNode name varKind typeAnnotation
          initializer vln) \<Rightarrow>
        currentDefine name (variableEntry (PrimitiveType PString)) ?s1
    | ForVariableIdentifier name vln \<Rightarrow> ?s1"
  have r: "declaresOnly (enterScope st) ?s1" using 44(1) by (rule onlyErrors_declaresOnly)
  have s2: "declaresOnly (enterScope st) ?s2"
    using r
    by (auto split: for_variable.splits variable_declaration.splits intro!: currentDefine_dd)
  have "onlyErrors st ((checkStatement body (?s2\<lparr>inLoop := True\<rparr>))
          \<lparr>inLoop := inLoop ?s2, currentEnv := currentEnv st\<rparr>)"
    by (rule leave_loop_scope[OF s2 44(2)])
  then show ?case by (simp add: withState_def onlyErrors_declaresOnly)
next
  case (45 body condition ln st)
  show ?case using od_chain[OF 45(2) 45(1)] by simp
next
  case (46 discriminant cases ln st)
  let ?f = "\<lambda>caseClause s.
      fold checkStatement (caseConsequent caseClause)
        (case caseTest caseClause of
           Some test \<Rightarrow> snd (checkExpression test s)
         | None \<Rightarrow> s)"
  have step: "\<And>c s. c \<in> set cases \<Longrightarrow> declaresOnly s (?f c s)"
  proof -
    fix c s
    assume c: "c \<in> set cases"
    have t: "declaresOnly s (case caseTest c of
        Some test \<Rightarrow> snd (checkExpression test s) | None \<Rightarrow> s)"
      using 46(2)[OF c] by (auto simp: onlyErrors_declaresOnly split: option.splits)
    show "declaresOnly s (?f c s)" by (rule fold_dd, simp add: 46(3)[OF c], rule t)
  qed
  have d: "declaresOnly st (snd (checkExpression discriminant st))"
    using 46(1) by (rule onlyErrors_declaresOnly)
  have "declaresOnly st (fold ?f cases (snd (checkExpression discriminant st)))"
    by (rule fold_dd, simp add: step, rule d)
  then show ?case by simp
next
  case (49 argument ln st)
  then show ?case by (simp add: onlyErrors_declaresOnly)
next
  case (50 block handler finalizer ln st)
  let ?s1 = "checkBlockStatement block st"
  let ?s2 = "case handler of
      Some (CatchClause param body) \<Rightarrow>
        (checkBlockStatement body
           (case param of
              Some (Parameter name typeAnnotation optional defaultValue rest) \<Rightarrow>
                currentDefine name (variableEntry AnyType) (enterScope ?s1)
            | None \<Rightarrow> enterScope ?s1))
          \<lparr>currentEnv := currentEnv ?s1\<rparr>
    | None \<Rightarrow> ?s1"
  have s2: "onlyErrors ?s1 ?s2"
  proof (cases handler)
    case None
    then show ?thesis by simp
  next
    case (Some h)
    obtain param body where h: "h = CatchClause param body" by (cases h)
    let ?in = "case param of
        Some (Parameter name typeAnnotation optional defaultValue rest) \<Rightarrow>
          currentDefine name (variableEntry AnyType) (enterScope ?s1)
      | None \<Rightarrow> enterScope ?s1"
    have i: "declaresOnly (enterScope ?s1) ?in"
      by (simp split: option.splits parameter.splits)
    have "onlyErrors ?in (checkBlockStatement body ?in)" using 50(2)[OF Some h] .
    then have "declaresOnly (enterScope ?s1) (checkBlockStatement body ?in)"
      by (rule od_chain[OF _ i])
    then have "onlyErrors ?s1 ((checkBlockStatement body ?in)\<lparr>currentEnv := currentEnv ?s1\<rparr>)"
      by (rule leave_scope)
    then show ?thesis using Some h by simp
  qed
  have "onlyErrors st (case finalizer of Some f \<Rightarrow> checkBlockStatement f ?s2 | None \<Rightarrow> ?s2)"
    using 50(3) oe_chain[OF s2 50(1)]
    by (auto split: option.splits intro: oe_chain)
  then show ?case by (simp add: withState_def onlyErrors_declaresOnly)
next
  case (51 expression ln st)
  then show ?case by (simp add: onlyErrors_declaresOnly)
next
  case (52 b st)
  then show ?case by (simp add: onlyErrors_declaresOnly)
next
  case (56 statements ln st)
  have "declaresOnly (enterScope st) (fold checkStatement statements (enterScope st))"
    by (rule fold_declaresOnly) (simp add: 56)
  then show ?case by (simp add: leave_scope)
next
  case (57 name varKind typeAnnotation initializer ln st)
  let ?d = "case typeAnnotation of
      Some node \<Rightarrow> (case resolveTypeNode node st of (t, s) \<Rightarrow> (Some t, s))
    | None \<Rightarrow> (None, st)"
  let ?i = "case initializer of
      Some e \<Rightarrow> (case checkExpression e (snd ?d) of (t, s) \<Rightarrow> (Some t, s))
    | None \<Rightarrow> (None, snd ?d)"
  have d: "onlyErrors st (snd ?d)"
    by (simp add: case_prod_beta resolveTypeNode_onlyErrors split: option.splits)
  have i: "onlyErrors st (snd ?i)"
    using 57[OF prod.collapse] d
    by (auto simp: case_prod_beta split: option.splits intro: oe_chain)
  let ?s3 = "case (fst ?d, fst ?i) of
      (Some d, Some i) \<Rightarrow>
        if \<not> isAssignable i d
        then addError (notAssignable ''Type '' i ''type '' d) ln (snd ?i)
        else snd ?i
    | _ \<Rightarrow> snd ?i"
  have s3: "declaresOnly st ?s3"
    using i by (auto simp: onlyErrors_declaresOnly addError_oe split: option.splits)
  show ?case
    using s3
    by (simp add: case_prod_beta Let_def addError_od currentDefine_dd)
next
  case (58 name parameters returnTypeNode body accessibility isStatic isAbstract isAsync tps
      decorators ln st)
  show ?case
  proof (cases body)
    case None
    then show ?thesis by simp
  next
    case (Some blk)
    let ?m = "methodParams parameters st"
    let ?r = "resolveOptional returnTypeNode (PrimitiveType PVoid) (snd ?m)"
    let ?in = "(snd ?r)\<lparr>currentReturnType := Some (fst ?r), currentEnv := fst ?m # currentEnv (snd ?r)\<rparr>"
    have m: "onlyErrors st (snd ?m)" by (rule methodParams_onlyErrors)
    have r: "onlyErrors st (snd ?r)" by (rule resolveOptional_oe[OF m])
    have "onlyErrors ?in (checkBlockStatement blk ?in)"
      using 58[OF Some prod.collapse prod.collapse] .
    then have "onlyErrors st ((checkBlockStatement blk ?in)
        \<lparr>currentEnv := currentEnv (snd ?r), currentReturnType := currentReturnType (snd ?m)\<rparr>)"
      using m r by (auto simp: onlyErrors_def intro: appended_trans)
    then show ?thesis using Some by (simp add: case_prod_beta)
  qed
next
  case (59 parameters body accessibility ln st)
  let ?m = "methodParams parameters st"
  let ?in = "(snd ?m)\<lparr>currentEnv := fst ?m # currentEnv (snd ?m)\<rparr>"
  have m: "onlyErrors st (snd ?m)" by (rule methodParams_onlyErrors)
  have "onlyErrors ?in (checkBlockStatement body ?in)" using 59[OF prod.collapse] .
  then have "onlyErrors st ((checkBlockStatement body ?in)\<lparr>currentEnv := currentEnv (snd ?m)\<rparr>)"
    using m by (auto simp: onlyErrors_def intro: appended_trans)
  then show ?case by (simp add: case_prod_beta)
next
  case (60 name typeAnnotation initializer accessibility isStatic isReadonly isAbstract
      decorators ln st)
  then show ?case by (simp split: option.splits)
qed simp_all

subsection \<open>Notions of the specification\<close>

text \<open>The state of a new checker after the declaration \<^verbatim>\<open>const x = 1;\<close> in line 1.\<close>

definition declaredOnce :: TypeChecker where
  "declaredOnce =
    checkVariableDeclaration
      (VariableDeclarationNode ''x'' ''const'' None (Some (NumericLiteral 1 1)) 1) newTypeChecker"

text \<open>
  The loop of \<^verbatim>\<open>checkCallExpression\<close> over the arguments, as it stands in the equation of
  \<open>checkExpression\<close> for a call.
\<close>

definition checkArguments ::
  "function_type \<Rightarrow> expression list \<Rightarrow> nat \<Rightarrow> TypeChecker \<Rightarrow> TypeChecker" where
  "checkArguments funcType arguments ln st =
    fold (\<lambda>(arg, p) s.
            case spreadArgument arg of
              Some argument \<Rightarrow> snd (checkExpression argument s)
            | None \<Rightarrow>
                (case checkExpression arg s of (argType, s1) \<Rightarrow>
                   if \<not> isAssignable argType (param_type p)
                   then addError (notAssignable ''Argument of type '' argType
                          ''parameter of type '' (param_type p)) ln s1
                   else s1))
      (zip arguments (take (checkCount funcType (length arguments)) (params funcType))) st"

text \<open>
  The diagnostic of the number of arguments in the words of the specification.  A rest
  parameter is one whose name begins with three dots; \<open>requiredCount\<close> counts the parameters
  that are neither optional nor rest; \<open>k\<close> is the number of arguments and \<open>ln\<close> the line of
  the call.
\<close>

definition isRestParameter :: "param \<Rightarrow> bool" where
  "isRestParameter p \<longleftrightarrow> take 3 (param_name p) = ''...''"

fun requiredCount :: "param list \<Rightarrow> nat" where
  "requiredCount [] = 0"
| "requiredCount (p # ps) =
    (if param_optional p \<or> isRestParameter p then requiredCount ps
     else Suc (requiredCount ps))"

definition noRestParameter :: "param list \<Rightarrow> bool" where
  "noRestParameter ps \<longleftrightarrow> filter isRestParameter ps = []"

definition expectedAtLeast :: "nat \<Rightarrow> nat \<Rightarrow> nat \<Rightarrow> CompilerError" where
  "expectedAtLeast required k ln =
    CompilerError (''Expected at least '' @ numberToString required @
      '' arguments, but got '' @ numberToString k) ln"

definition expectedAtMost :: "nat \<Rightarrow> nat \<Rightarrow> nat \<Rightarrow> CompilerError" where
  "expectedAtMost n k ln =
    CompilerError (''Expected at most '' @ numberToString n @
      '' arguments, but got '' @ numberToString k) ln"

definition arityDiagnostics :: "param list \<Rightarrow> nat \<Rightarrow> nat \<Rightarrow> CompilerError list" where
  "arityDiagnostics ps k ln =
    (if k < requiredCount ps then [expectedAtLeast (requiredCount ps) k ln]
     else if noRestParameter ps \<and> length ps < k then [expectedAtMost (length ps) k ln]
     else [])"

text \<open>
  The state of a new checker in which \<^verbatim>\<open>f\<close> is registered as a function of a number
  and an optional string.
\<close>

definition withFunction :: TypeChecker where
  "withFunction =
    globalDefine ''f''
      (SymbolEntry
         (FunctionType (Function
            [Param ''a'' (PrimitiveType PNumber) False, Param ''b'' (PrimitiveType PString) True]
            (PrimitiveType PNumber) None))
         FunctionSymbol None)
      newTypeChecker"

text \<open>A list of diagnostics in non-decreasing order of lines.\<close>

definition inLineOrder :: "CompilerError list \<Rightarrow> bool" where
  "inLineOrder ds = sorted (map errorLine ds)"

text \<open>
  The diagnostics that \<^verbatim>\<open>check\<close> has collected when the registration passes and the checks
  of the first \<open>n\<close> statements are done.
\<close>

definition diagnosticsAfter :: "nat \<Rightarrow> program \<Rightarrow> TypeChecker \<Rightarrow> CompilerError list" where
  "diagnosticsAfter n p st =
    (case p of Program statements \<Rightarrow>
       errors (fold checkStatement (take n statements) (registered statements st)))"

text \<open>No arm of a union is a union, no arm of an intersection an intersection.\<close>

definition flat :: "ty \<Rightarrow> bool" where
  "flat t =
    (case t of
       UnionTypeValue arms \<Rightarrow> list_all (\<lambda>a. kind a \<noteq> KUnion) arms
     | IntersectionTypeValue arms \<Rightarrow> list_all (\<lambda>a. kind a \<noteq> KIntersection) arms
     | _ \<Rightarrow> True)"

text \<open>
  The list \<^verbatim>\<open>types\<close> that \<^verbatim>\<open>checkArrayLiteral\<close> collects from the elements, as it stands
  in the equation of \<open>checkExpression\<close> for an array literal.
\<close>

definition arrayElementTypes :: "expression option list \<Rightarrow> TypeChecker \<Rightarrow> ty list" where
  "arrayElementTypes elements st =
    fst (fold (\<lambda>element acc.
           case element of
             None \<Rightarrow> acc
           | Some e \<Rightarrow>
               (case spreadArgument e of
                  Some argument \<Rightarrow>
                    (case checkExpression argument (snd acc) of (spreadType, st1) \<Rightarrow>
                       (fst acc @
                          [if kind spreadType = KArray then elementType spreadType
                           else spreadType], st1))
                | None \<Rightarrow>
                    (case checkExpression e (snd acc) of (t, st1) \<Rightarrow> (fst acc @ [t], st1))))
         elements ([], st))"


subsection \<open>The count check in the words of the specification\<close>

lemma startsWith_dots: "startsWith (param_name p) ''...'' = isRestParameter p"
  by (simp add: startsWith_def isRestParameter_def eval_nat_numeral)

lemma requiredParams_requiredCount: "requiredParams funcType = requiredCount (params funcType)"
proof -
  have "length (filter (\<lambda>p. \<not> param_optional p \<and> \<not> isRestParameter p) ps) = requiredCount ps"
    for ps
    by (induction ps) auto
  then show ?thesis by (simp add: requiredParams_def startsWith_dots)
qed

lemma hasRestParam_noRestParameter:
  "hasRestParam funcType \<longleftrightarrow> \<not> noRestParameter (params funcType)"
  by (simp add: hasRestParam_def noRestParameter_def startsWith_dots list_ex_iff
      filter_empty_conv)

lemma checkArgumentCount_arityDiagnostics:
  "checkArgumentCount funcType k ln st =
     st\<lparr>errors := errors st @ arityDiagnostics (params funcType) k ln\<rparr>"
  by (simp add: checkArgumentCount_def arityDiagnostics_def requiredParams_requiredCount
      hasRestParam_noRestParameter addError_def expectedAtLeast_def expectedAtMost_def)

lemma expectedAtLeast_not_expectedAtMost: "expectedAtLeast r k ln \<noteq> expectedAtMost n k' ln'"
  by (simp add: expectedAtLeast_def expectedAtMost_def)

subsection \<open>The type a node resolves to\<close>

text \<open>
  The type that \<^verbatim>\<open>resolveTypeNode\<close> returns depends on the environments only, not on the
  diagnostics collected so far; so the members of a list of nodes resolve, one after the
  other, to the types they resolve to on their own.
\<close>

lemma currentChain_onlyErrors: "onlyErrors st st' \<Longrightarrow> currentChain st' = currentChain st"
  by (simp add: onlyErrors_def currentChain_def)

lemma mapS_fst:
  assumes "\<And>x s s'. x \<in> set xs \<Longrightarrow> currentChain s' = currentChain s \<Longrightarrow> fst (f x s') = fst (f x s)"
    and "\<And>x s. x \<in> set xs \<Longrightarrow> currentChain (snd (f x s)) = currentChain s"
  shows "fst (mapS f xs st) = map (\<lambda>x. fst (f x st)) xs"
  using assms
proof (induction xs arbitrary: st)
  case Nil
  show ?case by simp
next
  case (Cons x xs)
  have same: "fst (f y s') = fst (f y s)" if "y \<in> set xs" "currentChain s' = currentChain s"
    for y s s'
    by (rule Cons.prems(1)) (use that in simp_all)
  have chain: "currentChain (snd (f y s)) = currentChain s" if "y \<in> set xs" for y s
    by (rule Cons.prems(2)) (use that in simp)
  have tl: "fst (mapS f xs (snd (f x st))) = map (\<lambda>y. fst (f y (snd (f x st)))) xs"
    by (rule Cons.IH[OF same chain])
  have hd: "currentChain (snd (f x st)) = currentChain st"
    by (rule Cons.prems(2)) simp
  have "map (\<lambda>y. fst (f y (snd (f x st)))) xs = map (\<lambda>y. fst (f y st)) xs"
    by (rule map_cong[OF refl]) (rule same[OF _ hd])
  then show ?case using tl by (simp add: case_prod_beta)
qed

lemma mapS_chain:
  assumes "\<And>x s. x \<in> set xs \<Longrightarrow> currentChain (snd (f x s)) = currentChain s"
  shows "currentChain (snd (mapS f xs st)) = currentChain st"
  using assms by (induction xs arbitrary: st) (simp_all add: case_prod_beta)

lemma resolveTypeNode_chain: "currentChain (snd (resolveTypeNode node st)) = currentChain st"
  by (rule currentChain_onlyErrors[OF resolveTypeNode_onlyErrors])

lemma resolveParameter_chain:
  "currentChain (snd (resolveParameter resolveTypeNode p st)) = currentChain st"
  by (rule currentChain_onlyErrors[OF resolveParameter_onlyErrors[OF resolveTypeNode_onlyErrors]])

lemma mapS_same:
  assumes "\<And>x s s'. x \<in> set xs \<Longrightarrow> currentChain s' = currentChain s \<Longrightarrow> fst (f x s') = fst (f x s)"
    and "\<And>x s. x \<in> set xs \<Longrightarrow> currentChain (snd (f x s)) = currentChain s"
    and "currentChain st' = currentChain st"
  shows "fst (mapS f xs st') = fst (mapS f xs st)"
proof -
  have a: "fst (mapS f xs st') = map (\<lambda>x. fst (f x st')) xs"
    by (rule mapS_fst) (rule assms(1), assumption, assumption, rule assms(2), assumption)
  have b: "fst (mapS f xs st) = map (\<lambda>x. fst (f x st)) xs"
    by (rule mapS_fst) (rule assms(1), assumption, assumption, rule assms(2), assumption)
  have "map (\<lambda>x. fst (f x st')) xs = map (\<lambda>x. fst (f x st)) xs"
    by (rule map_cong[OF refl]) (rule assms(1)[OF _ assms(3)])
  then show ?thesis by (simp only: a b)
qed

lemma fold_same:
  assumes "\<And>x a s s'. x \<in> set xs \<Longrightarrow> currentChain s' = currentChain s \<Longrightarrow>
      fst (g x (a, s')) = fst (g x (a, s)) \<and>
      currentChain (snd (g x (a, s'))) = currentChain (snd (g x (a, s)))"
    and "currentChain st' = currentChain st"
  shows "fst (fold g xs (a, st')) = fst (fold g xs (a, st)) \<and>
      currentChain (snd (fold g xs (a, st'))) = currentChain (snd (fold g xs (a, st)))"
  using assms
proof (induction xs arbitrary: a st st')
  case Nil
  then show ?case by simp
next
  case (Cons x xs)
  have step: "fst (g x (a, st')) = fst (g x (a, st)) \<and>
      currentChain (snd (g x (a, st'))) = currentChain (snd (g x (a, st)))"
    by (rule Cons.prems(1)[OF _ Cons.prems(2)]) simp
  have rest: "fst (g y (b, s')) = fst (g y (b, s)) \<and>
      currentChain (snd (g y (b, s'))) = currentChain (snd (g y (b, s)))"
    if "y \<in> set xs" "currentChain s' = currentChain s" for y b s s'
    by (rule Cons.prems(1)[OF _ that(2)]) (use that(1) in simp)
  have "fst (fold g xs (fst (g x (a, st)), snd (g x (a, st')))) =
      fst (fold g xs (fst (g x (a, st)), snd (g x (a, st)))) \<and>
      currentChain (snd (fold g xs (fst (g x (a, st)), snd (g x (a, st'))))) =
      currentChain (snd (fold g xs (fst (g x (a, st)), snd (g x (a, st)))))"
    by (rule Cons.IH[OF rest conjunct2[OF step]])
  moreover have "(fst (g x (a, st)), snd (g x (a, st'))) = g x (a, st')"
    using conjunct1[OF step] by (simp add: prod_eq_iff)
  ultimately show ?case by (simp only: fold_simps comp_def prod.collapse)
qed

lemma resolveTypeNode_type:
  "currentChain st' = currentChain st \<Longrightarrow>
   fst (resolveTypeNode node st') = fst (resolveTypeNode node st)"
proof (induction node st arbitrary: st' rule: resolveTypeNode.induct)
  case (1 typeName typeArguments ln st)
  show ?case unfolding resolveTypeNode.simps 1 by (simp split: option.splits)
next
  case (2 elementTypeNode ln st)
  have "fst (resolveTypeNode elementTypeNode st') = fst (resolveTypeNode elementTypeNode st)"
    by (rule 2(1)[OF 2(2)])
  then show ?case by (simp add: case_prod_beta)
next
  case (3 nodes ln st)
  have ih: "fst (resolveTypeNode x s') = fst (resolveTypeNode x s)"
    if "x \<in> set nodes" "currentChain s' = currentChain s" for x s s'
    by (rule 3(1)[OF that])
  have "fst (mapS resolveTypeNode nodes st') = fst (mapS resolveTypeNode nodes st)"
    by (rule mapS_same[OF ih resolveTypeNode_chain 3(2)])
  then show ?case by (simp add: case_prod_beta)
next
  case (4 nodes ln st)
  have ih: "fst (resolveTypeNode x s') = fst (resolveTypeNode x s)"
    if "x \<in> set nodes" "currentChain s' = currentChain s" for x s s'
    by (rule 4(1)[OF that])
  have "fst (mapS resolveTypeNode nodes st') = fst (mapS resolveTypeNode nodes st)"
    by (rule mapS_same[OF ih resolveTypeNode_chain 4(2)])
  then show ?case by (simp add: case_prod_beta)
next
  case (5 nodes ln st)
  have ih: "fst (resolveTypeNode x s') = fst (resolveTypeNode x s)"
    if "x \<in> set nodes" "currentChain s' = currentChain s" for x s s'
    by (rule 5(1)[OF that])
  have "fst (mapS resolveTypeNode nodes st') = fst (mapS resolveTypeNode nodes st)"
    by (rule mapS_same[OF ih resolveTypeNode_chain 5(2)])
  then show ?case by (simp add: case_prod_beta)
next
  case (6 parameters returnTypeNode typeParams ln st)
  let ?rp = "resolveParameter resolveTypeNode"
  have par: "fst (?rp p s') = fst (?rp p s)"
    if p: "p \<in> set parameters" and c: "currentChain s' = currentChain s" for p s s'
  proof (cases p)
    case (Parameter name typeAnnotation optional defaultValue rest)
    show ?thesis
    proof (cases typeAnnotation)
      case None
      show ?thesis unfolding Parameter None by (simp add: resolveParameter_def)
    next
      case (Some t)
      have "fst (resolveTypeNode t s') = fst (resolveTypeNode t s)"
        by (rule 6(1)[OF p _ c]) (simp add: Parameter Some)
      then show ?thesis
        unfolding Parameter Some by (simp add: resolveParameter_def case_prod_beta)
    qed
  qed
  have ps: "fst (mapS ?rp parameters st') = fst (mapS ?rp parameters st)"
    by (rule mapS_same[OF par resolveParameter_chain 6(3)])
  have "currentChain (snd (mapS ?rp parameters st')) = currentChain st'"
    by (rule mapS_chain) (rule resolveParameter_chain)
  moreover have "currentChain (snd (mapS ?rp parameters st)) = currentChain st"
    by (rule mapS_chain) (rule resolveParameter_chain)
  ultimately have ch: "currentChain (snd (mapS ?rp parameters st')) =
      currentChain (snd (mapS ?rp parameters st))"
    using 6(3) by simp
  have r: "fst (resolveTypeNode returnTypeNode (snd (mapS ?rp parameters st'))) =
      fst (resolveTypeNode returnTypeNode (snd (mapS ?rp parameters st)))"
    by (rule 6(2)[OF prod.collapse ch])
  show ?case using ps r by (simp add: case_prod_beta)
next
  case (7 memberList ln st)
  let ?f = "\<lambda>m acc. case typeMemberName m of None \<Rightarrow> acc
     | Some name \<Rightarrow> if name = [] then acc
         else (case resolveTypeNode (typeMemberAnnotation m) (snd acc) of (t, st1) \<Rightarrow>
                 (AList.update name (MemberValue t (typeMemberOptional m) False) (fst acc), st1))"
  have ih: "fst (resolveTypeNode (typeMemberAnnotation m) s') =
      fst (resolveTypeNode (typeMemberAnnotation m) (snd acc))"
    if "m \<in> set memberList" "typeMemberName m = Some name" "name \<noteq> []"
      "currentChain s' = currentChain (snd acc)"
    for m name s' and acc :: "(string \<times> member_value) list \<times> TypeChecker"
    by (rule 7(1)[OF that])
  have step: "fst (?f m (a, s')) = fst (?f m (a, s)) \<and>
      currentChain (snd (?f m (a, s'))) = currentChain (snd (?f m (a, s)))"
    if m: "m \<in> set memberList" and c: "currentChain s' = currentChain s" for m a s s'
  proof (cases "typeMemberName m")
    case None
    show ?thesis unfolding None using c by simp
  next
    case (Some name)
    show ?thesis
    proof (cases "name = []")
      case True
      show ?thesis unfolding Some using True c by simp
    next
      case False
      have "fst (resolveTypeNode (typeMemberAnnotation m) s') =
          fst (resolveTypeNode (typeMemberAnnotation m) s)"
        using ih[where acc = "(a, s)" and s' = s' and m = m and name = name] m Some False c
        by simp
      then show ?thesis
        unfolding Some using False c by (simp add: case_prod_beta resolveTypeNode_chain)
    qed
  qed
  have "fst (fold ?f memberList ([], st')) = fst (fold ?f memberList ([], st))"
    by (rule conjunct1[OF fold_same[where g = ?f, OF step 7(2)]])
  then show ?case by (simp add: case_prod_beta)
next
  case (9 node ln st)
  have "fst (resolveTypeNode node st') = fst (resolveTypeNode node st)"
    by (rule 9(1)[OF 9(2)])
  then show ?case by simp
qed (simp_all del: resolveTypeNode.simps(1))

lemma resolveTypeNode_members:
  "fst (mapS resolveTypeNode nodes st) = map (\<lambda>n. fst (resolveTypeNode n st)) nodes"
  by (rule mapS_fst) (rule resolveTypeNode_type, assumption, rule resolveTypeNode_chain)

text \<open>\<^verbatim>\<open>deduplicateTypes\<close> drops types; those it keeps are types of the list.\<close>

lemma deduplicateLoop_subset:
  "set (deduplicateLoop ts seen result) \<subseteq> set result \<union> set ts"
  by (induction ts seen result rule: deduplicateLoop.induct) auto

lemma deduplicateTypes_subset: "set (deduplicateTypes ts) \<subseteq> set ts"
  using deduplicateLoop_subset[of ts "[]" "[]"] by (simp add: deduplicateTypes_def)

section \<open>The claims\<close>

text \<open>
  Claim C9.  When source and target have the same kind and that kind is none of interface,
  array, tuple and function, \<^verbatim>\<open>isAssignable\<close> answers true whatever the two types
  contain: any two unions, any two literals, any two intersections, enums or classes.
\<close>

theorem isAssignable_same_kind:
  assumes "kind S = kind T"
    and "kind S \<notin> {KInterface, KArray, KTuple, KFunction}"
  shows "isAssignable S T"
  using assms by (subst isAssignable.simps) auto

theorem isAssignable_same_kind_witness:
  "isAssignable (LiteralTypeValue (StringValue ''a'')) (LiteralTypeValue (StringValue ''b''))
   \<and> isAssignable (UnionTypeValue [PrimitiveType PNumber]) (UnionTypeValue [PrimitiveType PString])
   \<and> isAssignable (IntersectionTypeValue [PrimitiveType PNumber]) (IntersectionTypeValue [])
   \<and> isAssignable (EnumType (Enum ''A'' [(''X'', EnumNumber 0)])) (EnumType (Enum ''B'' []))
   \<and> isAssignable (ClassType (Class ''C'' [] [] None None))
         (ClassType (Class ''D'' [(''m'', ClassMemberValue (PrimitiveType PNumber) None False)]
            [] None None))"
  using
    isAssignable_same_kind [of "LiteralTypeValue (StringValue ''a'')"
      "LiteralTypeValue (StringValue ''b'')"]
    isAssignable_same_kind [of "UnionTypeValue [PrimitiveType PNumber]"
      "UnionTypeValue [PrimitiveType PString]"]
    isAssignable_same_kind [of "IntersectionTypeValue [PrimitiveType PNumber]"
      "IntersectionTypeValue []"]
    isAssignable_same_kind [of "EnumType (Enum ''A'' [(''X'', EnumNumber 0)])"
      "EnumType (Enum ''B'' [])"]
    isAssignable_same_kind [of "ClassType (Class ''C'' [] [] None None)"
      "ClassType (Class ''D'' [(''m'', ClassMemberValue (PrimitiveType PNumber) None False)]
         [] None None)"]
  by simp

text \<open>
  Claim C5.  Assignability is reflexive: every type value is assignable to itself.  The
  member maps are association lists here, so the statement is about the type values whose
  maps have pairwise different keys, as every \<^verbatim>\<open>Map\<close> has.
\<close>

theorem isAssignable_reflexive: "keysDistinct T \<Longrightarrow> isAssignable T T"
proof (induction "size T" arbitrary: T rule: less_induct)
  case less
  show ?case
  proof (cases T)
    case (ArrayTypeValue t)
    then have "isAssignable t t" using less by simp
    then show ?thesis using ArrayTypeValue by (subst isAssignable.simps) simp
  next
    case (TupleTypeValue ts)
    have "isAssignable (ts ! i) (ts ! i)" if "i < length ts" for i
    proof -
      have "ts ! i \<in> set ts" using that by simp
      then have "size (ts ! i) < size T" "keysDistinct (ts ! i)"
        using TupleTypeValue less.prems by (simp_all add: size_list_mem list_all_iff)
      then show ?thesis by (rule less.hyps)
    qed
    then show ?thesis using TupleTypeValue
      by (subst isAssignable.simps) (simp add: list_all_iff)
  next
    case (FunctionType f)
    have fd: "keysDistinctFunction f" using less.prems FunctionType by simp
    have sz: "size f < size T" using FunctionType by simp
    have r: "isAssignable (returnType f) (returnType f)"
      using less.hyps[of "returnType f"] size_returnType[of f] sz keysDistinct_returnType[OF fd]
      by simp
    have p: "isAssignable (param_type (params f ! i)) (param_type (params f ! i))"
      if "i < length (params f)" for i
      using less.hyps[of "param_type (params f ! i)"] size_params[OF that] sz
        keysDistinct_param[OF fd that] by simp
    have "isFunctionAssignable f f"
      using r p by (subst isFunctionAssignable.simps) (simp add: list_all_iff)
    then show ?thesis using FunctionType by (subst isAssignable.simps) simp
  next
    case (InterfaceType i)
    have d: "keysDistinctInterface i" using less.prems InterfaceType by simp
    have sz: "size i < size T" using InterfaceType by simp
    have "isAssignable (member_type m) (member_type m)" if "(k, m) \<in> set (members i)" for k m
      using less.hyps[of "member_type m"] size_members[OF that] sz keysDistinct_member[OF d that]
      by simp
    then have "isInterfaceAssignable i i"
      using keysDistinct_lookup[OF d]
      by (subst isInterfaceAssignable.simps) (auto simp: list_all_iff)
    then show ?thesis using InterfaceType by (subst isAssignable.simps) simp
  qed (subst isAssignable.simps, simp)+
qed

theorem isAssignable_reflexive_witness:
  "isAssignable
     (InterfaceType (Interface ''Person''
        [(''name'', MemberValue (PrimitiveType PString) False False),
         (''pair'', MemberValue
            (TupleTypeValue [PrimitiveType PNumber, LiteralTypeValue (StringValue ''x'')])
            True False),
         (''f'', MemberValue
            (FunctionType (Function [Param ''a'' (ArrayTypeValue (PrimitiveType PNumber)) False]
               (UnionTypeValue [PrimitiveType PNull, PrimitiveType PVoid]) None))
            False True)]
        None))
     (InterfaceType (Interface ''Person''
        [(''name'', MemberValue (PrimitiveType PString) False False),
         (''pair'', MemberValue
            (TupleTypeValue [PrimitiveType PNumber, LiteralTypeValue (StringValue ''x'')])
            True False),
         (''f'', MemberValue
            (FunctionType (Function [Param ''a'' (ArrayTypeValue (PrimitiveType PNumber)) False]
               (UnionTypeValue [PrimitiveType PNull, PrimitiveType PVoid]) None))
            False True)]
        None))"
  by (rule isAssignable_reflexive) simp

text \<open>
  Claim C1.  The claim says that \<^verbatim>\<open>string\<close> is assignable to a union all of whose arms
  are string literals.  In the code the branch for a union target comes first and returns
  \<^verbatim>\<open>types.some(t => isAssignable(source, t))\<close>, which is false for \<^verbatim>\<open>string\<close> against a
  literal, so the later relaxation is never reached: at \<^verbatim>\<open>"a" | "b"\<close> the answer is false.
\<close>

theorem string_to_literal_union_rejected:
  "\<not> isAssignable (PrimitiveType PString)
        (UnionTypeValue [LiteralTypeValue (StringValue ''a''), LiteralTypeValue (StringValue ''b'')])"
  by (simp add: isAssignable.simps[of "PrimitiveType PString"])

text \<open>
  Claim C4.  The claim says that a block comment left open at the end of the input makes
  \<^verbatim>\<open>tokenize\<close> fail.  The code has no such error: the comment loop stops at the end of
  the text and the closing characters are consumed only \<^verbatim>\<open>if (!this.isAtEnd())\<close>.
  What holds instead: when the scanner stands at a comment opener and no \<^verbatim>\<open>*/\<close> follows,
  the rest of the text is skipped and the scan ends normally with the tokens found so far.
\<close>

theorem unterminated_block_comment_skipped:
  assumes "peek l = CHR ''/''" and "peekNext l = CHR ''*''"
    and "\<not> closes (drop (pos l + 2) (source l))"
  shows "\<exists>l'. tokenizeLoop l = Inr l' \<and> tokens l' = tokens l"
proof -
  let ?l' = "skipWhitespaceAndComments l"
  have ne: "\<not> isAtEnd l" using assms(1) by (auto simp: peek_def isAtEnd_def split: if_splits)
  have e: "isAtEnd ?l' \<and> tokens ?l' = tokens l"
    using assms by (rule skipWhitespaceAndComments_unclosed)
  have "scanToken l = Inr ?l'" using e by (subst scanToken.simps) (simp add: Let_def)
  moreover have "tokenizeLoop ?l' = Inr ?l'" using e by (subst tokenizeLoop.simps) simp
  ultimately have "tokenizeLoop l = Inr ?l'" using ne by (subst tokenizeLoop.simps) simp
  then show ?thesis using e by blast
qed

theorem unterminated_block_comment_skipped_witness:
  "\<exists>l'. tokenizeLoop \<lparr>source = ''x /* abc'', pos = 2, line = 1, column = 3,
            tokens = [Token ''Identifier'' ''x'' 1 1]\<rparr> = Inr l' \<and>
        tokens l' = [Token ''Identifier'' ''x'' 1 1]"
  using unterminated_block_comment_skipped
    [of "\<lparr>source = ''x /* abc'', pos = 2, line = 1, column = 3,
          tokens = [Token ''Identifier'' ''x'' 1 1]\<rparr>"]
  by (simp add: peek_def peekNext_def)

theorem unterminated_block_comment_returns:
  "tokenize ''/* abc'' = Inr [Token ''EOF'' [] 1 7]"
  by code_simp

subsection \<open>Enum lowering\<close>

text \<open>
  What \<^verbatim>\<open>emitEnumDeclaration\<close> writes for a non-const enum, at any indentation: the line
  \<^verbatim>\<open>var N;\<close>, the opening \<^verbatim>\<open>(function (N) {\<close>, one line for each member in declaration
  order, one level deeper, as \<open>loweredMembers\<close> gives them in the words of the
  specification, and the closing \<^verbatim>\<open>})(N || (N = {}));\<close>.  This holds whenever the numeric
  values are safe integers and the initializers that are not literals are emitted without
  error.
\<close>

lemma emitEnumDeclaration_lowered:
  assumes "lowerable memberList None"
  shows "emitStatement (EnumDeclaration (EnumDeclarationNode name memberList False ln)) st =
    Inr (st\<lparr>outputText := outputText st @
      linesAt (indent st) [''var '' @ name @ '';'', ''(function ('' @ name @ '') {''] @
      linesAt (''  '' @ indent st) (loweredMembers name memberList None) @
      linesAt (indent st) [''})('' @ name @ '' || ('' @ name @ '' = {}));'']\<rparr>)"
proof -
  have zero: "(0::int) = followingValue None" by (simp add: followingValue_def)
  show ?thesis
    unfolding emitStatement.simps emitEnumDeclaration_def
    by (simp add: zero emitEnumMembers_lowered[OF assms] linesAt_def emitLine_def dedented_def
        indented_def indent_def)
qed

text \<open>
  Claim C6 says that emit produces this text for every non-const enum declaration.  It does
  not for the declaration \<^verbatim>\<open>enum E { A = () => { for (const k in o) { } } }\<close>, which the
  parser accepts (an initializer is any expression): the initializer is not a literal, so
  \<^verbatim>\<open>emitEnumDeclaration\<close> calls \<^verbatim>\<open>emitExpression\<close> on it, the block body of the arrow function
  goes through \<^verbatim>\<open>emitStatementInline\<close>, and its case for \<^verbatim>\<open>ForInStatement\<close> reads the field
  \<^verbatim>\<open>iterable\<close> that only \<^verbatim>\<open>ForOfStatement\<close> has.  \<^verbatim>\<open>emit\<close> throws a \<^verbatim>\<open>TypeError\<close> and produces
  no text at all.  The statement emitter \<^verbatim>\<open>emitForInStatement\<close> reads \<^verbatim>\<open>stmt.object\<close>, as the
  inline one should.
\<close>

theorem enum_for_in_initializer_throws:
  "emit (Program [EnumDeclaration (EnumDeclarationNode ''E''
      [EnumMember ''A'' (Some (ArrowFunction [] None
         (ArrowBlock (BlockStatementNode
            [ForInStatement
               (ForVariableDeclaration (VariableDeclarationNode ''k'' ''const'' None None 1))
               (Identifier ''o'' 1) (BlockStatement (BlockStatementNode [] 1)) 1] 1))
         False None 1))] False 1)])
   = Inl undefinedKind"
  by code_simp

subsection \<open>Emitting and reading again\<close>

text \<open>
  Claim C8 says that the text emitted for a program that the parser produced can be
  tokenized and parsed again.  The source \<^verbatim>\<open>import "a\nb";\<close>, whose string holds the
  escape sequence for a line feed, is tokenized to the four tokens below, the string token
  holding the line feed itself.  \<^verbatim>\<open>parseStatement\<close> sends the token \<^verbatim>\<open>import\<close> to
  \<^verbatim>\<open>parseImportDeclaration\<close>, which takes a string token that follows at once as the source
  of a side-effect import and returns the node with no specifiers.  \<^verbatim>\<open>emitImportDeclaration\<close>
  writes the source between double quotes as it is, where \<^verbatim>\<open>emitExpression\<close> writes a
  string literal with \<^verbatim>\<open>JSON.stringify\<close>; the emitted text has a line feed inside the string,
  and \<^verbatim>\<open>tokenize\<close> throws on it.
\<close>

theorem emitted_import_not_tokenizable:
  "tokenize (''import '' @ [CHR 0x22] @ ''a'' @ [CHR 0x5C] @ ''nb'' @ [CHR 0x22] @ '';'') =
     Inr [Token ''Import'' ''import'' 1 1,
          Token ''StringLiteral'' (''a'' @ [CHR 0x0A] @ ''b'') 1 8,
          Token ''Semicolon'' '';'' 1 14,
          Token ''EOF'' [] 1 15]
   \<and> emit (Program [ImportDeclaration [] (''a'' @ [CHR 0x0A] @ ''b'') False 1]) =
     Inr (''import '' @ [CHR 0x22] @ ''a'' @ [CHR 0x0A] @ ''b'' @ [CHR 0x22] @ '';'' @ [CHR 0x0A])
   \<and> tokenize (''import '' @ [CHR 0x22] @ ''a'' @ [CHR 0x0A] @ ''b'' @ [CHR 0x22] @ '';'' @ [CHR 0x0A]) =
     Inl (Error ''Unterminated string at line 1'')"
  by code_simp


subsection \<open>Redeclaring a variable\<close>

text \<open>
  Claim C10.  When the name of a variable declaration already has a binding in the
  environment that is current, \<^verbatim>\<open>checkVariableDeclaration\<close> leaves the global environment and
  the chain of current environments as they were, so every lookup gives what it gave
  before, and the last diagnostic it adds is the one that says the name is already
  declared; the diagnostics before it are those of the type annotation and the
  initializer.
\<close>

theorem redeclaration_keeps_environment:
  assumes "currentHasLocal st name"
  shows "globalEnv (checkVariableDeclaration
             (VariableDeclarationNode name varKind typeAnnotation initializer ln) st) = globalEnv st
    \<and> currentEnv (checkVariableDeclaration
             (VariableDeclarationNode name varKind typeAnnotation initializer ln) st) = currentEnv st
    \<and> (\<forall>n. lookup (currentChain (checkVariableDeclaration
             (VariableDeclarationNode name varKind typeAnnotation initializer ln) st)) n =
           lookup (currentChain st) n)
    \<and> (\<exists>ds. errors (checkVariableDeclaration
             (VariableDeclarationNode name varKind typeAnnotation initializer ln) st) =
           errors st @ ds @
           [CompilerError (''Variable '' @ quoted name @ '' is already declared in this scope'') ln])"
proof -
  let ?d = "case typeAnnotation of
      Some node \<Rightarrow> (case resolveTypeNode node st of (t, s) \<Rightarrow> (Some t, s))
    | None \<Rightarrow> (None, st)"
  let ?i = "case initializer of
      Some e \<Rightarrow> (case checkExpression e (snd ?d) of (t, s) \<Rightarrow> (Some t, s))
    | None \<Rightarrow> (None, snd ?d)"
  let ?s3 = "case (fst ?d, fst ?i) of
      (Some d, Some i) \<Rightarrow>
        if \<not> isAssignable i d
        then addError (notAssignable ''Type '' i ''type '' d) ln (snd ?i)
        else snd ?i
    | _ \<Rightarrow> snd ?i"
  let ?msg = "''Variable '' @ quoted name @ '' is already declared in this scope''"
  have d: "onlyErrors st (snd ?d)"
    by (simp add: case_prod_beta resolveTypeNode_onlyErrors split: option.splits)
  have i: "onlyErrors (snd ?d) (snd ?i)"
    by (simp add: case_prod_beta checker_frame(1) split: option.splits)
  have "onlyErrors (snd ?i) ?s3"
    by (simp split: option.splits)
  then have s3: "onlyErrors st ?s3" using d i by (blast intro: onlyErrors_trans)
  then have local: "currentHasLocal ?s3 name"
    using assms by (simp add: onlyErrors_def currentHasLocal_def currentChain_def)
  have result: "checkVariableDeclaration
      (VariableDeclarationNode name varKind typeAnnotation initializer ln) st = addError ?msg ln ?s3"
    using local by (simp add: case_prod_beta Let_def)
  obtain ds where ds: "errors ?s3 = errors st @ ds"
    using s3 by (auto simp: onlyErrors_def appended_iff)
  show ?thesis
    unfolding result using s3 ds
    by (simp add: onlyErrors_def addError_def currentChain_def)
qed

theorem redeclaration_keeps_environment_witness:
  "currentHasLocal declaredOnce ''x''
   \<and> lookup (currentChain (checkVariableDeclaration
         (VariableDeclarationNode ''x'' ''let'' None (Some (StringLiteral ''s'' 2)) 2)
         declaredOnce)) ''x'' =
       Some (SymbolEntry (PrimitiveType PNumber) VariableSymbol (Some False))
   \<and> (\<exists>ds. errors (checkVariableDeclaration
         (VariableDeclarationNode ''x'' ''let'' None (Some (StringLiteral ''s'' 2)) 2)
         declaredOnce) =
       errors declaredOnce @ ds @
       [CompilerError (''Variable '' @ quoted ''x'' @ '' is already declared in this scope'') 2])"
proof -
  have h: "currentHasLocal declaredOnce ''x''" by code_simp
  have l: "lookup (currentChain declaredOnce) ''x'' =
      Some (SymbolEntry (PrimitiveType PNumber) VariableSymbol (Some False))" by code_simp
  show ?thesis
    using redeclaration_keeps_environment[OF h, of "''let''" None "Some (StringLiteral ''s'' 2)" 2] h l
    by simp
qed

subsection \<open>The number of arguments of a call\<close>

text \<open>
  Claim C7.  At a call whose callee has a function type, \<^verbatim>\<open>checkCallExpression\<close> checks the
  callee, then the number of arguments, then the arguments, and returns the return type.
  The count check appends \<open>arityDiagnostics\<close> to the diagnostics and changes nothing else:
  the diagnostic \<^verbatim>\<open>Expected at least <required> arguments, but got <k>\<close> is among them if
  and only if \<open>k < required\<close>; the diagnostic \<^verbatim>\<open>Expected at most <n> arguments, but got <k>\<close>
  is among them if and only if \<open>k < required\<close> fails, no parameter is a rest parameter and
  \<open>n < k\<close>; and nothing else is.  The diagnostics that the checks of the arguments add come
  after these, and may be of the same form when an argument is itself a call.
\<close>

theorem call_arity_diagnostics:
  assumes "checkExpression callee st = (calleeType, st1)" and "kind calleeType = KFunction"
  shows "checkExpression (CallExpression callee arguments typeArguments optional ln) st =
      (returnType (asFunctionType calleeType),
       checkArguments (asFunctionType calleeType) arguments ln
         (st1\<lparr>errors := errors st1 @
            arityDiagnostics (params (asFunctionType calleeType)) (length arguments) ln\<rparr>))
    \<and> (expectedAtLeast (requiredCount (params (asFunctionType calleeType))) (length arguments) ln
          \<in> set (arityDiagnostics (params (asFunctionType calleeType)) (length arguments) ln) \<longleftrightarrow>
        length arguments < requiredCount (params (asFunctionType calleeType)))
    \<and> (expectedAtMost (length (params (asFunctionType calleeType))) (length arguments) ln
          \<in> set (arityDiagnostics (params (asFunctionType calleeType)) (length arguments) ln) \<longleftrightarrow>
        \<not> length arguments < requiredCount (params (asFunctionType calleeType)) \<and>
        noRestParameter (params (asFunctionType calleeType)) \<and>
        length (params (asFunctionType calleeType)) < length arguments)
    \<and> set (arityDiagnostics (params (asFunctionType calleeType)) (length arguments) ln) \<subseteq>
        {expectedAtLeast (requiredCount (params (asFunctionType calleeType))) (length arguments) ln,
         expectedAtMost (length (params (asFunctionType calleeType))) (length arguments) ln}"
proof -
  let ?f = "asFunctionType calleeType"
  have call: "checkExpression (CallExpression callee arguments typeArguments optional ln) st =
      (returnType ?f,
       checkArguments ?f arguments ln (checkArgumentCount ?f (length arguments) ln st1))"
    using assms by (simp add: checkArguments_def)
  have least: "expectedAtLeast (requiredCount (params ?f)) (length arguments) ln
        \<in> set (arityDiagnostics (params ?f) (length arguments) ln) \<longleftrightarrow>
      length arguments < requiredCount (params ?f)"
    using expectedAtLeast_not_expectedAtMost by (auto simp: arityDiagnostics_def)
  have most: "expectedAtMost (length (params ?f)) (length arguments) ln
        \<in> set (arityDiagnostics (params ?f) (length arguments) ln) \<longleftrightarrow>
      \<not> length arguments < requiredCount (params ?f) \<and> noRestParameter (params ?f) \<and>
      length (params ?f) < length arguments"
    using expectedAtLeast_not_expectedAtMost[symmetric] by (auto simp: arityDiagnostics_def)
  have only: "set (arityDiagnostics (params ?f) (length arguments) ln) \<subseteq>
      {expectedAtLeast (requiredCount (params ?f)) (length arguments) ln,
       expectedAtMost (length (params ?f)) (length arguments) ln}"
    by (auto simp: arityDiagnostics_def)
  show ?thesis
    using call least most only by (simp only: checkArgumentCount_arityDiagnostics simp_thms)
qed

theorem call_arity_diagnostics_witness:
  "checkExpression (Identifier ''f'' 2) withFunction =
     (FunctionType (Function
        [Param ''a'' (PrimitiveType PNumber) False, Param ''b'' (PrimitiveType PString) True]
        (PrimitiveType PNumber) None), withFunction)
   \<and> kind (FunctionType (Function
        [Param ''a'' (PrimitiveType PNumber) False, Param ''b'' (PrimitiveType PString) True]
        (PrimitiveType PNumber) None)) = KFunction
   \<and> errors (snd (checkExpression (CallExpression (Identifier ''f'' 2) [] None False 2)
        withFunction)) =
       [CompilerError ''Expected at least 1 arguments, but got 0'' 2]
   \<and> errors (snd (checkExpression
        (CallExpression (Identifier ''f'' 2)
           [NumericLiteral 1 2, StringLiteral ''s'' 2, NumericLiteral 3 2] None False 2)
        withFunction)) =
       [CompilerError ''Expected at most 2 arguments, but got 3'' 2]
   \<and> errors (snd (checkExpression
        (CallExpression (Identifier ''f'' 2) [NumericLiteral 1 2, StringLiteral ''s'' 2]
           None False 2)
        withFunction)) = []"
proof -
  let ?t = "FunctionType (Function
        [Param ''a'' (PrimitiveType PNumber) False, Param ''b'' (PrimitiveType PString) True]
        (PrimitiveType PNumber) None)"
  let ?args3 = "[NumericLiteral 1 2, StringLiteral ''s'' 2, NumericLiteral 3 2]"
  let ?args2 = "[NumericLiteral 1 2, StringLiteral ''s'' 2]"
  have c: "checkExpression (Identifier ''f'' 2) withFunction = (?t, withFunction)"
    by code_simp
  have k: "kind ?t = KFunction" by simp
  have e0: "errors (checkArguments (asFunctionType ?t) [] 2
        (withFunction\<lparr>errors := errors withFunction @
           arityDiagnostics (params (asFunctionType ?t)) (length ([] :: expression list)) 2\<rparr>)) =
      [CompilerError ''Expected at least 1 arguments, but got 0'' 2]"
    by code_simp
  have e3: "errors (checkArguments (asFunctionType ?t) ?args3 2
        (withFunction\<lparr>errors := errors withFunction @
           arityDiagnostics (params (asFunctionType ?t)) (length ?args3) 2\<rparr>)) =
      [CompilerError ''Expected at most 2 arguments, but got 3'' 2]"
    by code_simp
  have e2: "errors (checkArguments (asFunctionType ?t) ?args2 2
        (withFunction\<lparr>errors := errors withFunction @
           arityDiagnostics (params (asFunctionType ?t)) (length ?args2) 2\<rparr>)) = []"
    by code_simp
  show ?thesis
    using call_arity_diagnostics[OF c k, of "[]" None False 2]
      call_arity_diagnostics[OF c k, of ?args3 None False 2]
      call_arity_diagnostics[OF c k, of ?args2 None False 2] c k e0 e3 e2
    by (simp only: snd_conv simp_thms)
qed

subsection \<open>The order of the diagnostics\<close>

text \<open>
  Claim C2 says that the diagnostics that \<^verbatim>\<open>check\<close> returns are in non-decreasing order of
  their lines.  They are not: the four registration passes run over the whole program
  before the first statement is checked, so the diagnostic of the type alias in line 2 of
  \<^verbatim>\<open>let x: number = "s";\<close> \<^verbatim>\<open>type T = Foo;\<close> comes before the one of the declaration in
  line 1.
\<close>

theorem diagnostics_not_in_line_order:
  "typeCheck (Program
     [VariableDeclaration (VariableDeclarationNode ''x'' ''let''
        (Some (TypeReference ''number'' None 1)) (Some (StringLiteral ''s'' 1)) 1),
      TypeAliasDeclaration (TypeAliasDeclarationNode ''T'' None (TypeReference ''Foo'' None 2) 2)]) =
     [CompilerError (''Cannot find name '' @ quoted ''Foo'') 2,
      CompilerError (''Type '' @ quoted ''string'' @ '' is not assignable to type '' @
        quoted ''number'') 1]
   \<and> \<not> inLineOrder (typeCheck (Program
     [VariableDeclaration (VariableDeclarationNode ''x'' ''let''
        (Some (TypeReference ''number'' None 1)) (Some (StringLiteral ''s'' 1)) 1),
      TypeAliasDeclaration (TypeAliasDeclarationNode ''T'' None (TypeReference ''Foo'' None 2) 2)]))"
  by code_simp

text \<open>
  Claim C2, as amended.  What holds is the second sentence of the specification: the
  diagnostics appear in the order in which they are discovered.  \<open>diagnosticsAfter n\<close> is
  the list of diagnostics when the registration passes and the checks of the first \<open>n\<close>
  statements are done; the list only grows from there, and \<^verbatim>\<open>check\<close> returns the list
  after the last statement.
\<close>

theorem diagnostics_in_discovery_order:
  assumes "m \<le> n"
  shows "appended (diagnosticsAfter m p st) (diagnosticsAfter n p st)
    \<and> appended (diagnosticsAfter n p st) (fst (check p st))"
proof -
  obtain statements where p: "p = Program statements" by (cases p)
  let ?r = "registered statements st"
  have grow: "\<And>xs ys s. appended (errors (fold checkStatement xs s))
      (errors (fold checkStatement (xs @ ys) s))"
  proof -
    fix xs ys s
    have "declaresOnly (fold checkStatement xs s) (fold checkStatement ys (fold checkStatement xs s))"
      by (rule fold_declaresOnly) (rule checker_frame(2))
    then show "appended (errors (fold checkStatement xs s))
        (errors (fold checkStatement (xs @ ys) s))"
      by (simp add: declaresOnly_def)
  qed
  have mn: "take n statements = take m statements @ drop m (take n statements)"
    using assms by (metis append_take_drop_id min.absorb1 take_take)
  have a: "appended (errors (fold checkStatement (take m statements) ?r))
      (errors (fold checkStatement (take n statements) ?r))"
    using grow[of "take m statements" ?r "drop m (take n statements)"] mn by simp
  have b: "appended (errors (fold checkStatement (take n statements) ?r))
      (errors (fold checkStatement statements ?r))"
    using grow[of "take n statements" ?r "drop n statements"] by simp
  show ?thesis using a b by (simp add: p diagnosticsAfter_def check_def Let_def)
qed

theorem diagnostics_in_discovery_order_witness:
  "(1::nat) \<le> 2
   \<and> appended
        (diagnosticsAfter 1 (Program
           [ExpressionStatement (Identifier ''b'' 2) 2, ExpressionStatement (Identifier ''a'' 1) 1])
           newTypeChecker)
        (diagnosticsAfter 2 (Program
           [ExpressionStatement (Identifier ''b'' 2) 2, ExpressionStatement (Identifier ''a'' 1) 1])
           newTypeChecker)
   \<and> diagnosticsAfter 1 (Program
           [ExpressionStatement (Identifier ''b'' 2) 2, ExpressionStatement (Identifier ''a'' 1) 1])
           newTypeChecker = [CompilerError (''Cannot find name '' @ quoted ''b'') 2]"
proof -
  have e: "diagnosticsAfter 1 (Program
           [ExpressionStatement (Identifier ''b'' 2) 2, ExpressionStatement (Identifier ''a'' 1) 1])
           newTypeChecker = [CompilerError (''Cannot find name '' @ quoted ''b'') 2]"
    by code_simp
  show ?thesis
    using diagnostics_in_discovery_order[of 1 2 "Program
           [ExpressionStatement (Identifier ''b'' 2) 2, ExpressionStatement (Identifier ''a'' 1) 1]"
           newTypeChecker] e
    by simp
qed

subsection \<open>Unions and intersections are not flattened\<close>

text \<open>
  Claim C3 says that no arm of a union produced by the checker is itself a union, because
  arms of the same kind are flattened when the type is constructed.  \<^verbatim>\<open>createUnionType\<close>
  stores the list of arms it is given, and nothing in the checker flattens: the type of
  \<^verbatim>\<open>true ? (true ? 1 : "x") : 2\<close> is a union whose first arm is the union of \<^verbatim>\<open>number\<close> and
  \<^verbatim>\<open>string\<close>.
\<close>

theorem conditional_type_not_flat:
  "fst (checkExpression
     (ConditionalExpression (BooleanLiteral True 1)
        (ParenthesizedExpression
           (ConditionalExpression (BooleanLiteral True 1) (NumericLiteral 1 1)
              (StringLiteral ''x'' 1) 1) 1)
        (NumericLiteral 2 1) 1) newTypeChecker) =
     UnionTypeValue
       [UnionTypeValue [PrimitiveType PNumber, PrimitiveType PString], PrimitiveType PNumber]
   \<and> \<not> flat (fst (checkExpression
     (ConditionalExpression (BooleanLiteral True 1)
        (ParenthesizedExpression
           (ConditionalExpression (BooleanLiteral True 1) (NumericLiteral 1 1)
              (StringLiteral ''x'' 1) 1) 1)
        (NumericLiteral 2 1) 1) newTypeChecker))"
  by code_simp

text \<open>
  The same holds of intersections.  The parser merges \<^verbatim>\<open>A & B & C\<close> into one node of three
  members (and \<^verbatim>\<open>A | B | C\<close> likewise), but a parenthesised member stays a node of its own:
  the annotation \<^verbatim>\<open>(number & string) & boolean\<close> is an intersection node whose first member
  is a parenthesised intersection node, and it resolves to an intersection whose first arm
  is the intersection of \<^verbatim>\<open>number\<close> and \<^verbatim>\<open>string\<close>.
\<close>

lemma intersection_type_not_flat:
  "fst (resolveTypeNode
     (IntersectionType
        [ParenthesizedType
           (IntersectionType
              [TypeReference ''number'' None 1, TypeReference ''string'' None 1] 1) 1,
         TypeReference ''boolean'' None 1] 1) newTypeChecker) =
     IntersectionTypeValue
       [IntersectionTypeValue [PrimitiveType PNumber, PrimitiveType PString],
        PrimitiveType PBoolean]
   \<and> \<not> flat (fst (resolveTypeNode
     (IntersectionType
        [ParenthesizedType
           (IntersectionType
              [TypeReference ''number'' None 1, TypeReference ''string'' None 1] 1) 1,
         TypeReference ''boolean'' None 1] 1) newTypeChecker))"
  by code_simp

text \<open>
  Claim C3, as amended.  A union or an intersection that the checker constructs has as its
  arms the types it is constructed from, in their order and as they are, whatever their
  kind:
  \<^item> the type of a conditional expression is the union of the types of its consequent and
    of its alternate, and the type of a logical expression the union of the types of its
    left and of its right operand;
  \<^item> indexing a tuple gives the union of the element types of the tuple;
  \<^item> the type of an array literal that is not empty is the array of the one type
    collected from its elements, or of the one type that \<^verbatim>\<open>deduplicateTypes\<close> leaves of the
    types collected, or else of the union of the types that \<^verbatim>\<open>deduplicateTypes\<close> leaves, all
    of which are among the types collected;
  \<^item> a union type node resolves to the union, and an intersection type node to the
    intersection, of the types that its members resolve to, each on its own.

  So the type of a conditional or of a logical expression is flat exactly when neither
  operand has a union type, and the type of a union (intersection) node is flat exactly
  when no member resolves to a union (intersection).
\<close>

theorem unions_and_intersections_keep_their_arms:
  "fst (checkExpression (ConditionalExpression condition consequent alternate ln) st) =
     UnionTypeValue
       [fst (checkExpression consequent (snd (checkExpression condition st))),
        fst (checkExpression alternate
               (snd (checkExpression consequent (snd (checkExpression condition st)))))]
   \<and> (flat (fst (checkExpression (ConditionalExpression condition consequent alternate ln) st)) \<longleftrightarrow>
        kind (fst (checkExpression consequent (snd (checkExpression condition st)))) \<noteq> KUnion \<and>
        kind (fst (checkExpression alternate
               (snd (checkExpression consequent (snd (checkExpression condition st)))))) \<noteq> KUnion)
   \<and> fst (checkExpression (LogicalExpression operator left right ln) st) =
       UnionTypeValue
         [fst (checkExpression left st),
          fst (checkExpression right (snd (checkExpression left st)))]
   \<and> (flat (fst (checkExpression (LogicalExpression operator left right ln) st)) \<longleftrightarrow>
        kind (fst (checkExpression left st)) \<noteq> KUnion \<and>
        kind (fst (checkExpression right (snd (checkExpression left st)))) \<noteq> KUnion)
   \<and> fst (checkExpression (ComputedMemberExpression object property optional ln) st) =
       (if kind (fst (checkExpression object st)) = KArray
        then elementType (fst (checkExpression object st))
        else if kind (fst (checkExpression object st)) = KTuple
        then UnionTypeValue (elementTypes (fst (checkExpression object st)))
        else AnyType)
   \<and> fst (checkExpression (ArrayLiteral elements ln) st) =
       (if elements = [] then ArrayTypeValue AnyType
        else if length (arrayElementTypes elements st) = 1
        then ArrayTypeValue (arrayElementTypes elements st ! 0)
        else if length (deduplicateTypes (arrayElementTypes elements st)) = 1
        then ArrayTypeValue (deduplicateTypes (arrayElementTypes elements st) ! 0)
        else ArrayTypeValue (UnionTypeValue (deduplicateTypes (arrayElementTypes elements st))))
   \<and> set (deduplicateTypes (arrayElementTypes elements st)) \<subseteq>
       set (arrayElementTypes elements st)
   \<and> fst (resolveTypeNode (UnionType nodes ln) st) =
       UnionTypeValue (map (\<lambda>node. fst (resolveTypeNode node st)) nodes)
   \<and> (flat (fst (resolveTypeNode (UnionType nodes ln) st)) \<longleftrightarrow>
        list_all (\<lambda>node. kind (fst (resolveTypeNode node st)) \<noteq> KUnion) nodes)
   \<and> fst (resolveTypeNode (IntersectionType nodes ln) st) =
       IntersectionTypeValue (map (\<lambda>node. fst (resolveTypeNode node st)) nodes)
   \<and> (flat (fst (resolveTypeNode (IntersectionType nodes ln) st)) \<longleftrightarrow>
        list_all (\<lambda>node. kind (fst (resolveTypeNode node st)) \<noteq> KIntersection) nodes)"
proof -
  have conditional:
    "fst (checkExpression (ConditionalExpression condition consequent alternate ln) st) =
       UnionTypeValue
         [fst (checkExpression consequent (snd (checkExpression condition st))),
          fst (checkExpression alternate
                 (snd (checkExpression consequent (snd (checkExpression condition st)))))]"
    by (simp add: case_prod_beta)
  have logical:
    "fst (checkExpression (LogicalExpression operator left right ln) st) =
       UnionTypeValue
         [fst (checkExpression left st),
          fst (checkExpression right (snd (checkExpression left st)))]"
    by (simp add: case_prod_beta)
  have computed:
    "fst (checkExpression (ComputedMemberExpression object property optional ln) st) =
       (if kind (fst (checkExpression object st)) = KArray
        then elementType (fst (checkExpression object st))
        else if kind (fst (checkExpression object st)) = KTuple
        then UnionTypeValue (elementTypes (fst (checkExpression object st)))
        else AnyType)"
    by (simp add: case_prod_beta computedMemberResult_def)
  have array:
    "fst (checkExpression (ArrayLiteral elements ln) st) =
       (if elements = [] then ArrayTypeValue AnyType
        else if length (arrayElementTypes elements st) = 1
        then ArrayTypeValue (arrayElementTypes elements st ! 0)
        else if length (deduplicateTypes (arrayElementTypes elements st)) = 1
        then ArrayTypeValue (deduplicateTypes (arrayElementTypes elements st) ! 0)
        else ArrayTypeValue (UnionTypeValue (deduplicateTypes (arrayElementTypes elements st))))"
    by (simp add: case_prod_beta arrayElementTypes_def arrayLiteralType_def)
  have union:
    "fst (resolveTypeNode (UnionType nodes ln) st) =
       UnionTypeValue (map (\<lambda>node. fst (resolveTypeNode node st)) nodes)"
    by (simp add: case_prod_beta resolveTypeNode_members)
  have intersection:
    "fst (resolveTypeNode (IntersectionType nodes ln) st) =
       IntersectionTypeValue (map (\<lambda>node. fst (resolveTypeNode node st)) nodes)"
    by (simp add: case_prod_beta resolveTypeNode_members)
  show ?thesis
    unfolding conditional logical computed array union intersection
    by (simp add: flat_def list_all_iff deduplicateTypes_subset)
qed

end
